theory Spec2Isabelle
  imports Main "HOL-Library.Word" "HOL-Library.Signed_Division"
begin



section \<open>Shared metadata (parser/model, types, kv)\<close>

text \<open>
  The schema metadata, datums and handles come from packages outside the excerpt; the
  records below carry the fields that the planner (point_get_plan.go) and the executor
  (pkg/executor/point_get.go) read. Go's \<open>int64\<close>/\<open>uint64\<close> are 64-bit words, byte
  slices are lists of 8-bit words (a nil slice is the empty list).
\<close>

type_synonym int64 = "64 word"
type_synonym bytes = "8 word list"

datatype error =
    ErrNotExist
  | ErrOverflow
  | ErrDataTooLong
  | ErrTruncated
  | ErrTruncatedWrongVal
  | ErrPanic
  | ErrOther nat

record CIStr =
  ci_O :: string
  ci_L :: string

datatype SchemaState =
    StateNone | StateDeleteOnly | StateWriteOnly | StateWriteReorganization
  | StateDeleteReorganization | StatePublic | StateReplicaOnly | StateGlobalTxnOnly

datatype TempTableType = TempTableNone | TempTableGlobal | TempTableLocal

datatype TableLockType =
    TableLockNone | TableLockRead | TableLockReadLocal | TableLockReadOnly
  | TableLockWrite | TableLockWriteLocal

datatype MysqlType =
    TypeTiny | TypeShort | TypeLong | TypeLonglong | TypeInt24 | TypeBit | TypeEnum
  | TypeString | TypeVarString | TypeVarchar | TypeOtherTp nat

datatype EvalType = ETInt | ETReal | ETDecimal | ETString | ETDatetime | ETTimestamp
  | ETDuration | ETJson

record FieldType =
  ft_tp :: MysqlType
  ft_HasPriKeyFlag :: bool
  ft_HasUnsignedFlag :: bool
  ft_collate :: string
  ft_elems :: "string list"
  ft_evalType :: EvalType

datatype DatumKind =
    KindNull | KindInt64 | KindUint64 | KindFloat32 | KindFloat64 | KindString | KindBytes
  | KindBinaryLiteral | KindMysqlDecimal | KindMysqlEnum | KindOtherKind nat

text \<open>\<open>types.Datum\<close>: the kind tag, the 64-bit payload \<open>i\<close> that \<open>GetInt64\<close> returns
  whatever the kind, the byte payload and the collation.\<close>

record Datum =
  d_k :: DatumKind
  d_i :: int64
  d_b :: string
  d_collation :: string

definition IsNull :: "Datum \<Rightarrow> bool" where
  "IsNull d = (d_k d = KindNull)"

definition GetInt64 :: "Datum \<Rightarrow> int64" where
  "GetInt64 d = d_i d"

definition SetString :: "string \<Rightarrow> string \<Rightarrow> Datum \<Rightarrow> Datum" where
  "SetString s c d = d\<lparr>d_k := KindString, d_b := s, d_collation := c\<rparr>"

text \<open>\<open>types.Enum\<close> and \<open>Datum.SetMysqlEnum\<close>.\<close>

record Enum =
  en_Name :: string
  en_Value :: int64

definition SetMysqlEnum :: "Enum \<Rightarrow> string \<Rightarrow> Datum \<Rightarrow> Datum" where
  "SetMysqlEnum en c d = d\<lparr>d_k := KindMysqlEnum, d_i := en_Value en, d_b := en_Name en, d_collation := c\<rparr>"

definition zeroDatum :: Datum where
  "zeroDatum = \<lparr>d_k = KindNull, d_i = 0, d_b = [], d_collation = []\<rparr>"

record ColumnInfo =
  col_ID :: int64
  col_Name :: CIStr
  col_Offset :: int
  col_FieldType :: FieldType
  col_State :: SchemaState
  col_GeneratedExprString :: string

definition IsGenerated :: "ColumnInfo \<Rightarrow> bool" where
  "IsGenerated c = (col_GeneratedExprString c \<noteq> [])"

record IndexColumn =
  ic_Name :: CIStr
  ic_Offset :: nat
  ic_Length :: int

record IndexInfo =
  idx_ID :: int64
  idx_Name :: CIStr
  idx_Columns :: "IndexColumn list"
  idx_State :: SchemaState
  idx_Unique :: bool
  idx_Primary :: bool
  idx_Invisible :: bool
  idx_Global :: bool
  idx_MVIndex :: bool

text \<open>\<open>IndexInfo.HasPrefixIndex\<close>: some column has a length other than
  \<open>types.UnspecifiedLength\<close> (-1).\<close>

definition HasPrefixIndex :: "IndexInfo \<Rightarrow> bool" where
  "HasPrefixIndex idx = list_ex (\<lambda>c. ic_Length c \<noteq> - 1) (idx_Columns idx)"

record PartitionDefinition =
  pd_ID :: int64
  pd_Name :: CIStr

datatype PartitionType =
    PartitionTypeRange | PartitionTypeHash | PartitionTypeList | PartitionTypeKey
  | PartitionTypeNone

record PartitionInfo =
  pi_Type :: PartitionType
  pi_Num :: int64
  pi_Columns :: "CIStr list"
  pi_Definitions :: "PartitionDefinition list"
  pi_AddingDefinitions :: "PartitionDefinition list"
  pi_DroppingDefinitions :: "PartitionDefinition list"

record TableInfo =
  tbl_ID :: int64
  tbl_Name :: CIStr
  tbl_Columns :: "ColumnInfo list"
  tbl_Indices :: "IndexInfo list"
  tbl_PKIsHandle :: bool
  tbl_IsCommonHandle :: bool
  tbl_IsView :: bool
  tbl_TempTableType :: TempTableType
  tbl_Lock :: "TableLockType option"
  tbl_Partition :: "PartitionInfo option"

datatype Handle = IntHandle int64 | CommonHandle bytes

type_synonym Row = "Datum list"
type_synonym Chunk = "Row list"

section \<open>The point-get plan (point_get_plan.go, lines 62-100)\<close>

text \<open>\<open>expression.Column\<close> and \<open>types.FieldName\<close>, as far as the plan builder fills
  them. An \<open>expression.Constant\<close> is kept as an opaque identifier.\<close>

record Column =
  ec_RetType :: FieldType
  ec_ID :: int64
  ec_UniqueID :: int64
  ec_Index :: nat
  ec_OrigName :: string

record FieldName =
  fn_DBName :: CIStr
  fn_OrigTblName :: CIStr
  fn_TblName :: CIStr
  fn_OrigColName :: CIStr
  fn_ColName :: CIStr

type_synonym Constant = nat

record PointGetPlan =
  p_dbName :: string
  p_schema :: "Column list"
  p_TblInfo :: TableInfo
  p_IndexInfo :: "IndexInfo option"
  p_PartitionDef :: "PartitionDefinition option"
  p_Handle :: "Handle option"
  p_HandleConstant :: "Constant option"
  p_handleFieldType :: "FieldType option"
  p_IndexValues :: "Datum list"
  p_IndexConstants :: "Constant option list"
  p_ColsFieldType :: "FieldType option list"
  p_UnsignedHandle :: bool
  p_IsTableDual :: bool
  p_Lock :: bool
  p_outputNames :: "FieldName list"
  p_LockWaitTime :: int64
  p_partitionColumnPos :: nat
  p_Columns :: "ColumnInfo list"

section \<open>Point-get executor (pkg/executor/point_get.go)\<close>

text \<open>
  Every call the executor makes on a collaborator is recorded, in order of issue, in a
  trace kept with the session state. \<open>EvLockKeys k b w\<close> is a \<open>doLockKeys\<close> request on
  key \<open>k\<close> with \<open>LockOnlyIfExists = b\<close> and wait time \<open>w\<close>.
\<close>

datatype event =
    EvUpdateDelta int64
  | EvLockKeys bytes bool int64
  | EvMemBufferGet bytes
  | EvLockCacheGet bytes
  | EvSnapshotGet bytes
  | EvUnionGet bytes
  | EvReportInconsistent bytes bytes

text \<open>\<open>kv.ReturnedValue\<close>, one entry of \<open>LockCtx.Values\<close>.\<close>

record ReturnedValue =
  rv_Value :: bytes
  rv_Exists :: bool
  rv_AlreadyLocked :: bool

text \<open>
  The session context \<open>e.Ctx()\<close>, the transaction, the snapshot and the codecs. None of
  them is defined in the excerpt, so they are parameters. The storage-side functions
  receive the trace so far: their answer may depend on everything that happened before
  (a lock taken earlier, a value cached earlier).
\<close>

record sctx =
  sc_IsPessimisticReadConsistency :: bool
  sc_WeakConsistency :: bool
  sc_EnablePointGetCache :: bool
  sc_txnValid :: bool
  sc_txnIsReadOnly :: bool
  sc_IsErrNotFound :: "error \<Rightarrow> bool"
  sc_memBufferGet :: "event list \<Rightarrow> bytes \<Rightarrow> error + bytes"
  sc_snapshotGet :: "event list \<Rightarrow> bytes \<Rightarrow> error + bytes"
  sc_unionGet :: "event list \<Rightarrow> int64 \<Rightarrow> bytes \<Rightarrow> error + bytes"
  sc_newLockCtx :: "event list \<Rightarrow> int64 \<Rightarrow> error option"
  sc_doLockKeys :: "event list \<Rightarrow> int64 \<Rightarrow> bool \<Rightarrow> bytes \<Rightarrow> error + (bytes \<times> ReturnedValue) list"
  sc_isCommonHandleRead :: "TableInfo \<Rightarrow> IndexInfo \<Rightarrow> bool"
  sc_ToString :: "Datum \<Rightarrow> error + string"
  sc_ParseEnumName :: "string list \<Rightarrow> string \<Rightarrow> string \<Rightarrow> error + Enum"
  sc_CastValue :: "Datum \<Rightarrow> ColumnInfo \<Rightarrow> Datum \<times> error option"
  sc_EncodeKey :: "Datum list \<Rightarrow> bytes \<times> error option"
  sc_HandleError :: "error option \<Rightarrow> error option"
  sc_NewCommonHandle :: "bytes \<Rightarrow> error + Handle"
  sc_EncodeIndexSeekKey :: "int64 \<Rightarrow> int64 \<Rightarrow> bytes \<Rightarrow> bytes"
  sc_DecodeHandleInUniqueIndexValue :: "bytes \<Rightarrow> bool \<Rightarrow> error + Handle"
  sc_DecodePartitionID :: "bytes \<Rightarrow> error + int64"
  sc_EncodeRowKeyWithHandle :: "int64 \<Rightarrow> Handle \<Rightarrow> bytes"
  sc_ReportLookupInconsistent :: "event list \<Rightarrow> Handle \<Rightarrow> bytes \<Rightarrow> bytes \<Rightarrow> error option"
  sc_IsNewFormat :: "bytes \<Rightarrow> bool"
  sc_DecodeToChunk :: "bytes \<Rightarrow> Handle \<Rightarrow> error + Row"
  sc_decodeOldRowValToChunk :: "TableInfo \<Rightarrow> Handle \<Rightarrow> bytes \<Rightarrow> error + Row"
  sc_FillVirtualColumnValue :: "Row \<Rightarrow> error + Row"

text \<open>
  \<open>PointGetExecutor\<close>. The last two fields are the mutable session state the executor
  reaches through \<open>e.Ctx()\<close>: the pessimistic lock cache of the transaction context and
  the trace of collaborator calls.
\<close>

record PointGetExecutor =
  pg_tblInfo :: TableInfo
  pg_handle :: "Handle option"
  pg_idxInfo :: "IndexInfo option"
  pg_partitionDef :: "PartitionDefinition option"
  pg_idxKey :: bytes
  pg_handleVal :: bytes
  pg_idxVals :: "Datum list"
  pg_done :: bool
  pg_lock :: bool
  pg_lockWaitTime :: int64
  pg_columns :: "ColumnInfo list"
  pg_lockCache :: "bytes \<rightharpoonup> bytes"
  pg_trace :: "event list"

definition emit :: "event \<Rightarrow> PointGetExecutor \<Rightarrow> PointGetExecutor" where
  "emit ev e = e\<lparr>pg_trace := pg_trace e @ [ev]\<rparr>"

definition SetPessimisticLockCache :: "bytes \<Rightarrow> bytes \<Rightarrow> PointGetExecutor \<Rightarrow> PointGetExecutor" where
  "SetPessimisticLockCache k v e = e\<lparr>pg_lockCache := (pg_lockCache e)(k \<mapsto> v)\<rparr>"

text \<open>
  \<open>Init\<close> (lines 149-168). The row decoder and the virtual-column indices it also
  prepares are used by the decoding collaborators only. Line 154 makes \<open>e.idxVals\<close> the
  slice \<open>p.IndexValues\<close> itself, not a copy: from then on the two share their elements,
  and what \<open>EncodeUniqueIndexValuesForKey\<close> writes into \<open>idxVals[i]\<close> is written into the
  plan. The shared elements are kept in \<open>pg_idxVals\<close>; \<open>planAfter p e\<close> is the plan \<open>p\<close> as
  it reads once the executor \<open>e\<close>, initialised from it, has run.
\<close>

definition Init :: "PointGetPlan \<Rightarrow> PointGetExecutor \<Rightarrow> PointGetExecutor" where
  "Init p e =
     (let e1 = e\<lparr>pg_tblInfo := p_TblInfo p, pg_handle := p_Handle p,
                 pg_idxInfo := p_IndexInfo p, pg_idxVals := p_IndexValues p,
                 pg_done := False\<rparr>;
          e2 = (if tbl_TempTableType (pg_tblInfo e1) = TempTableNone
                then e1\<lparr>pg_lock := p_Lock p, pg_lockWaitTime := p_LockWaitTime p\<rparr>
                else e1\<lparr>pg_lock := False, pg_lockWaitTime := 0\<rparr>)
      in e2\<lparr>pg_partitionDef := p_PartitionDef p, pg_columns := p_Columns p\<rparr>)"

definition planAfter :: "PointGetPlan \<Rightarrow> PointGetExecutor \<Rightarrow> PointGetPlan" where
  "planAfter p e = p\<lparr>p_IndexValues := pg_idxVals e\<rparr>"

text \<open>\<open>Close\<close> (lines 196-205).\<close>

definition Close :: "PointGetExecutor \<Rightarrow> PointGetExecutor" where
  "Close e = e\<lparr>pg_done := False\<rparr>"

text \<open>The tail of \<open>get\<close> (lines 482-494): the point-get cache under a table read lock,
  otherwise the snapshot.\<close>

definition get_from_store :: "sctx \<Rightarrow> PointGetExecutor \<Rightarrow> bytes \<Rightarrow> (error + bytes) \<times> PointGetExecutor" where
  "get_from_store sc e key =
     (if (tbl_Lock (pg_tblInfo e) = Some TableLockRead \<or> tbl_Lock (pg_tblInfo e) = Some TableLockReadOnly)
         \<and> sc_EnablePointGetCache sc
      then (sc_unionGet sc (pg_trace e) (tbl_ID (pg_tblInfo e)) key, emit (EvUnionGet key) e)
      else (sc_snapshotGet sc (pg_trace e) key, emit (EvSnapshotGet key) e))"

text \<open>\<open>get\<close> (lines 451-495).\<close>

definition get :: "sctx \<Rightarrow> PointGetExecutor \<Rightarrow> bytes \<Rightarrow> (error + bytes) \<times> PointGetExecutor" where
  "get sc e key =
     (if key = [] then (Inl ErrNotExist, e)
      else if sc_txnValid sc \<and> \<not> sc_txnIsReadOnly sc then
        (let e1 = emit (EvMemBufferGet key) e in
         case sc_memBufferGet sc (pg_trace e) key of
           Inr val \<Rightarrow> (Inr val, e1)
         | Inl err \<Rightarrow>
             if \<not> sc_IsErrNotFound sc err then (Inl err, e1)
             else if pg_lock e1 then
               (let e2 = emit (EvLockCacheGet key) e1 in
                case pg_lockCache e1 key of
                  Some val \<Rightarrow> (Inr val, e2)
                | None \<Rightarrow> get_from_store sc e2 key)
             else get_from_store sc e1 key)
      else get_from_store sc e key)"

text \<open>\<open>LockCtx.IterateValuesNotLocked\<close> with the callback of \<open>lockKeyBase\<close>
  (lines 414-416).\<close>

fun IterateValuesNotLocked :: "(bytes \<times> ReturnedValue) list \<Rightarrow> PointGetExecutor \<Rightarrow> PointGetExecutor" where
  "IterateValuesNotLocked [] e = e"
| "IterateValuesNotLocked ((k, v) # vs) e =
     IterateValuesNotLocked vs
       (if \<not> rv_AlreadyLocked v then SetPessimisticLockCache k (rv_Value v) e else e)"

text \<open>\<open>getValueFromLockCtx\<close> (lines 428-447).\<close>

definition getValueFromLockCtx ::
  "sctx \<Rightarrow> PointGetExecutor \<Rightarrow> (bytes \<times> ReturnedValue) list \<Rightarrow> bytes \<Rightarrow> (error + bytes) \<times> PointGetExecutor" where
  "getValueFromLockCtx sc e vals key =
     (case map_of vals key of
        Some val \<Rightarrow>
          if rv_Exists val then (Inr (rv_Value val), e)
          else if rv_AlreadyLocked val then
            (case get sc e key of
               (Inl err, e1) \<Rightarrow> if err \<noteq> ErrNotExist then (Inl err, e1) else (Inr [], e1)
             | (Inr v, e1) \<Rightarrow> (Inr v, e1))
          else (Inr [], e)
      | None \<Rightarrow> (Inr [], e))"

text \<open>\<open>lockKeyBase\<close> (lines 395-426).\<close>

definition lockKeyBase ::
  "sctx \<Rightarrow> PointGetExecutor \<Rightarrow> bytes \<Rightarrow> bool \<Rightarrow> (error + bytes) \<times> PointGetExecutor" where
  "lockKeyBase sc e key lockOnlyIfExists =
     (if key = [] then (Inr [], e)
      else if pg_lock e then
        (case sc_newLockCtx sc (pg_trace e) (pg_lockWaitTime e) of
           Some err \<Rightarrow> (Inl err, e)
         | None \<Rightarrow>
            (let e1 = emit (EvLockKeys key lockOnlyIfExists (pg_lockWaitTime e)) e in
             case sc_doLockKeys sc (pg_trace e) (pg_lockWaitTime e) lockOnlyIfExists key of
               Inl err \<Rightarrow> (Inl err, e1)
             | Inr vals \<Rightarrow>
                (let e2 = IterateValuesNotLocked vals e1;
                     e3 = (if pg_handleVal e2 \<noteq> []
                           then SetPessimisticLockCache (pg_idxKey e2) (pg_handleVal e2) e2
                           else e2)
                 in if lockOnlyIfExists then getValueFromLockCtx sc e3 vals key
                    else (Inr [], e3))))
      else (Inr [], e))"

text \<open>\<open>lockKeyIfNeeded\<close> (lines 384-387) and \<open>lockKeyIfExists\<close> (lines 391-393).\<close>

definition lockKeyIfNeeded :: "sctx \<Rightarrow> PointGetExecutor \<Rightarrow> bytes \<Rightarrow> error option \<times> PointGetExecutor" where
  "lockKeyIfNeeded sc e key =
     (case lockKeyBase sc e key False of
        (Inl err, e1) \<Rightarrow> (Some err, e1)
      | (Inr _, e1) \<Rightarrow> (None, e1))"

definition lockKeyIfExists :: "sctx \<Rightarrow> PointGetExecutor \<Rightarrow> bytes \<Rightarrow> (error + bytes) \<times> PointGetExecutor" where
  "lockKeyIfExists sc e key = lockKeyBase sc e key True"

text \<open>\<open>getAndLock\<close> (lines 350-382).\<close>

definition getAndLock :: "sctx \<Rightarrow> PointGetExecutor \<Rightarrow> bytes \<Rightarrow> (error + bytes) \<times> PointGetExecutor" where
  "getAndLock sc e key =
     (if sc_IsPessimisticReadConsistency sc then
        (if pg_lock e then
           (case lockKeyIfExists sc e key of
              (Inl err, e1) \<Rightarrow> (Inl err, e1)
            | (Inr val, e1) \<Rightarrow> (Inr val, e1))
         else
           (case get sc e key of
              (Inl err, e1) \<Rightarrow> if err \<noteq> ErrNotExist then (Inl err, e1) else (Inr [], e1)
            | (Inr val, e1) \<Rightarrow> (Inr val, e1)))
      else
        (case lockKeyIfNeeded sc e key of
           (Some err, e1) \<Rightarrow> (Inl err, e1)
         | (None, e1) \<Rightarrow>
            (case get sc e1 key of
               (Inl err, e2) \<Rightarrow> if err \<noteq> ErrNotExist then (Inl err, e2) else (Inr [], e2)
             | (Inr val, e2) \<Rightarrow> (Inr val, e2))))"

text \<open>
  One iteration of the loop in \<open>EncodeUniqueIndexValuesForKey\<close> (lines 541-574) on the
  value \<open>d\<close> of a column \<open>colInfo\<close>: the new value of \<open>idxVals[i]\<close> and the error the
  iteration returns, if any.
\<close>

definition castIdxVal ::
  "sctx \<Rightarrow> ColumnInfo \<Rightarrow> Datum \<Rightarrow> Datum \<times> error option" where
  "castIdxVal sc colInfo d =
     (let tp = ft_tp (col_FieldType colInfo) in
      if tp = TypeString \<or> tp = TypeVarString \<or> tp = TypeVarchar then
        (case sc_ToString sc d of
           Inl err \<Rightarrow> (SetString [] (d_collation d) d, Some err)
         | Inr str \<Rightarrow> (SetString str (d_collation d) d, None))
      else if tp = TypeEnum \<and> (d_k d = KindString \<or> d_k d = KindBytes \<or> d_k d = KindBinaryLiteral) then
        (case sc_ToString sc d of
           Inl err \<Rightarrow> (d, Some ErrNotExist)
         | Inr str \<Rightarrow>
            (case sc_ParseEnumName sc (ft_elems (col_FieldType colInfo)) str (ft_collate (col_FieldType colInfo)) of
               Inl err \<Rightarrow> (d, Some ErrNotExist)
             | Inr en \<Rightarrow> (SetMysqlEnum en (ft_collate (col_FieldType colInfo)) d, None)))
      else
        (case sc_CastValue sc d colInfo of
           (d', err) \<Rightarrow>
             if err = Some ErrOverflow \<or> err = Some ErrDataTooLong \<or>
                err = Some ErrTruncated \<or> err = Some ErrTruncatedWrongVal
             then (d', Some ErrNotExist)
             else (d', err)))"

text \<open>
  The loop itself, from position \<open>i\<close> on; the list is what is left of \<open>idxVals\<close>. The
  slice is updated in place, so the values written before an error stay written. An
  index out of range panics.
\<close>

fun castIdxVals ::
  "sctx \<Rightarrow> TableInfo \<Rightarrow> IndexInfo \<Rightarrow> nat \<Rightarrow> Datum list
     \<Rightarrow> error option \<times> Datum list" where
  "castIdxVals sc tbl idx i [] = (None, [])"
| "castIdxVals sc tbl idx i (d # ds) =
     (if length (idx_Columns idx) \<le> i then (Some ErrPanic, d # ds)
      else if length (tbl_Columns tbl) \<le> ic_Offset (idx_Columns idx ! i) then (Some ErrPanic, d # ds)
      else
        (case castIdxVal sc (tbl_Columns tbl ! ic_Offset (idx_Columns idx ! i)) d of
           (d', Some err) \<Rightarrow> (Some err, d' # ds)
         | (d', None) \<Rightarrow>
             (case castIdxVals sc tbl idx (Suc i) ds of
                (r, ds') \<Rightarrow> (r, d' # ds'))))"

text \<open>\<open>EncodeUniqueIndexValuesForKey\<close> (lines 538-583): the encoded values or the error,
  and \<open>idxVals\<close> as the call leaves it.\<close>

definition EncodeUniqueIndexValuesForKey ::
  "sctx \<Rightarrow> TableInfo \<Rightarrow> IndexInfo \<Rightarrow> Datum list
     \<Rightarrow> (error + bytes) \<times> Datum list" where
  "EncodeUniqueIndexValuesForKey sc tblInfo idxInfo idxVals =
     (case castIdxVals sc tblInfo idxInfo 0 idxVals of
        (Some err, vals) \<Rightarrow> (Inl err, vals)
      | (None, vals) \<Rightarrow>
         (case sc_EncodeKey sc vals of
            (encodedIdxVals, err) \<Rightarrow>
              (case sc_HandleError sc err of
                 Some err' \<Rightarrow> (Inl err', vals)
               | None \<Rightarrow> (Inr encodedIdxVals, vals))))"

text \<open>\<open>EncodeUniqueIndexKey\<close> (lines 529-535).\<close>

definition EncodeUniqueIndexKey ::
  "sctx \<Rightarrow> TableInfo \<Rightarrow> IndexInfo \<Rightarrow> Datum list \<Rightarrow> int64
     \<Rightarrow> (error + bytes) \<times> Datum list" where
  "EncodeUniqueIndexKey sc tblInfo idxInfo idxVals tID =
     (case EncodeUniqueIndexValuesForKey sc tblInfo idxInfo idxVals of
        (Inl err, vals) \<Rightarrow> (Inl err, vals)
      | (Inr encodedIdxVals, vals) \<Rightarrow>
          (Inr (sc_EncodeIndexSeekKey sc tID (idx_ID idxInfo) encodedIdxVals), vals))"

text \<open>\<open>DecodeRowValToChunk\<close> (lines 586-592); the two decoders produce the row.\<close>

definition DecodeRowValToChunk :: "sctx \<Rightarrow> TableInfo \<Rightarrow> Handle \<Rightarrow> bytes \<Rightarrow> error + Row" where
  "DecodeRowValToChunk sc tblInfo h rowVal =
     (if sc_IsNewFormat sc rowVal then sc_DecodeToChunk sc rowVal h
      else sc_decodeOldRowValToChunk sc tblInfo h rowVal)"

text \<open>
  \<open>Next\<close>, lines 244-273: the read of the index entry into \<open>e.handleVal\<close>. The result is
  the error the block returns with, if it returns.
\<close>

definition readIndexEntry :: "sctx \<Rightarrow> PointGetExecutor \<Rightarrow> error option \<times> PointGetExecutor" where
  "readIndexEntry sc e =
     (let lockNonExistIdxKey = \<not> sc_IsPessimisticReadConsistency sc in
      if lockNonExistIdxKey then
        (case lockKeyIfNeeded sc e (pg_idxKey e) of
           (Some err, e1) \<Rightarrow> (Some err, e1)
         | (None, e1) \<Rightarrow>
            (case get sc e1 (pg_idxKey e1) of
               (Inl err, e2) \<Rightarrow>
                 if err \<noteq> ErrNotExist then (Some err, e2\<lparr>pg_handleVal := []\<rparr>)
                 else (None, e2\<lparr>pg_handleVal := []\<rparr>)
             | (Inr val, e2) \<Rightarrow> (None, e2\<lparr>pg_handleVal := val\<rparr>)))
      else if pg_lock e then
        (case lockKeyIfExists sc e (pg_idxKey e) of
           (Inl err, e1) \<Rightarrow> (Some err, e1\<lparr>pg_handleVal := []\<rparr>)
         | (Inr val, e1) \<Rightarrow> (None, e1\<lparr>pg_handleVal := val\<rparr>))
      else
        (case get sc e (pg_idxKey e) of
           (Inl err, e1) \<Rightarrow>
             if err \<noteq> ErrNotExist then (Some err, e1\<lparr>pg_handleVal := []\<rparr>)
             else (None, e1\<lparr>pg_handleVal := []\<rparr>)
         | (Inr val, e1) \<Rightarrow> (None, e1\<lparr>pg_handleVal := val\<rparr>)))"

text \<open>
  \<open>Next\<close>, lines 225-308: from the index values to the handle. \<open>Inl r\<close> is a return
  from \<open>Next\<close> with \<open>r\<close> (\<open>None\<close> is the nil error, with the chunk left empty); \<open>Inr t\<close>
  goes on to the row read with table id \<open>t\<close>.
\<close>

definition resolveHandle ::
  "sctx \<Rightarrow> PointGetExecutor \<Rightarrow> int64
     \<Rightarrow> (error option + int64) \<times> PointGetExecutor" where
  "resolveHandle sc e tblID =
     (case pg_idxInfo e of
        None \<Rightarrow> (Inr tblID, e)
      | Some idx \<Rightarrow>
         if sc_isCommonHandleRead sc (pg_tblInfo e) idx then
           (case EncodeUniqueIndexValuesForKey sc (pg_tblInfo e) idx (pg_idxVals e) of
              (Inl err, vals) \<Rightarrow>
                if err = ErrNotExist then (Inl None, e\<lparr>pg_idxVals := vals\<rparr>)
                else (Inl (Some err), e\<lparr>pg_idxVals := vals\<rparr>)
            | (Inr handleBytes, vals) \<Rightarrow>
                (case sc_NewCommonHandle sc handleBytes of
                   Inl err \<Rightarrow> (Inl (Some err), e\<lparr>pg_idxVals := vals, pg_handle := None\<rparr>)
                 | Inr h \<Rightarrow> (Inr tblID, e\<lparr>pg_idxVals := vals, pg_handle := Some h\<rparr>)))
         else
           (case EncodeUniqueIndexKey sc (pg_tblInfo e) idx (pg_idxVals e) tblID of
              (r, vals) \<Rightarrow>
                (let e1 = e\<lparr>pg_idxVals := vals,
                            pg_idxKey := (case r of Inl _ \<Rightarrow> [] | Inr k \<Rightarrow> k)\<rparr> in
                 if (case r of Inl err \<Rightarrow> err \<noteq> ErrNotExist | Inr _ \<Rightarrow> False)
                 then (Inl (case r of Inl err \<Rightarrow> Some err | Inr _ \<Rightarrow> None), e1)
                 else
                   (case readIndexEntry sc e1 of
                      (Some err, e2) \<Rightarrow> (Inl (Some err), e2)
                    | (None, e2) \<Rightarrow>
                        if pg_handleVal e2 = [] then (Inl None, e2)
                        else
                          (case sc_DecodeHandleInUniqueIndexValue sc (pg_handleVal e2)
                                  (tbl_IsCommonHandle (pg_tblInfo e2)) of
                             Inl err \<Rightarrow> (Inl (Some err), e2)
                           | Inr iv \<Rightarrow>
                               (let e3 = e2\<lparr>pg_handle := Some iv\<rparr> in
                                if idx_Global idx then
                                  (case sc_DecodePartitionID sc (pg_handleVal e3) of
                                     Inl err \<Rightarrow> (Inl (Some err), e3)
                                   | Inr pid \<Rightarrow> (Inr pid, e3))
                                else (Inr tblID, e3)))))))"

text \<open>
  \<open>Next\<close>, lines 310-347: the row read, the inconsistency report and the decoding. A nil
  handle cannot be encoded (the call panics). The decoder appends one row to the chunk and
  \<open>FillVirtualColumnValue\<close> rewrites columns of that row.
\<close>

definition readRow :: "sctx \<Rightarrow> PointGetExecutor \<Rightarrow> int64 \<Rightarrow> error option \<times> Chunk \<times> PointGetExecutor" where
  "readRow sc e tblID =
     (case pg_handle e of
        None \<Rightarrow> (Some ErrPanic, [], e)
      | Some h \<Rightarrow>
         (let key = sc_EncodeRowKeyWithHandle sc tblID h in
          case getAndLock sc e key of
            (Inl err, e1) \<Rightarrow> (Some err, [], e1)
          | (Inr val, e1) \<Rightarrow>
              if val = [] then
                (if (case pg_idxInfo e1 of None \<Rightarrow> False
                     | Some idx \<Rightarrow> \<not> sc_isCommonHandleRead sc (pg_tblInfo e1) idx)
                    \<and> \<not> sc_WeakConsistency sc
                 then (sc_ReportLookupInconsistent sc (pg_trace e1) h key (pg_idxKey e1), [],
                       emit (EvReportInconsistent key (pg_idxKey e1)) e1)
                 else (None, [], e1))
              else
                (case DecodeRowValToChunk sc (pg_tblInfo e1) h val of
                   Inl err \<Rightarrow> (Some err, [], e1)
                 | Inr row \<Rightarrow>
                    (case sc_FillVirtualColumnValue sc row of
                       Inl err \<Rightarrow> (Some err, [row], e1)
                     | Inr row' \<Rightarrow> (None, [row'], e1)))))"

text \<open>\<open>Next\<close> (lines 208-348): the error returned, the chunk \<open>req\<close> after the call, and
  the executor after the call.\<close>

definition Next ::
  "sctx \<Rightarrow> PointGetExecutor
     \<Rightarrow> error option \<times> Chunk \<times> PointGetExecutor" where
  "Next sc e =
     (if pg_done e then (None, [], e)
      else
        (let e0 = e\<lparr>pg_done := True\<rparr>;
             tblID = (case pg_partitionDef e0 of
                        Some pd \<Rightarrow> pd_ID pd
                      | None \<Rightarrow> tbl_ID (pg_tblInfo e0));
             e1 = (if pg_lock e0 then emit (EvUpdateDelta tblID) e0 else e0)
         in case resolveHandle sc e1 tblID of
              (Inl r, e2) \<Rightarrow> (r, [], e2)
            | (Inr tblID', e2) \<Rightarrow> readRow sc e2 tblID'))"


section \<open>Predicates on traces\<close>

text \<open>
  \<open>new_events e e'\<close> is what was appended to the trace between two states. \<open>frame\<close> says
  that only the lock cache and the trace differ, \<open>wframe\<close> that the configuration of the
  executor is kept and the trace only grows. \<open>step_ok rc lk k w\<close> describes the events of
  one lock/read step on key \<open>k\<close>: with the lock flag set, a lock request on \<open>k\<close> (its
  \<open>LockOnlyIfExists\<close> being \<open>rc\<close>) followed by reads of \<open>k\<close>; without it, reads of \<open>k\<close>
  only. \<open>lock_then_read\<close> scans a trace and accepts it when every lock request is an
  unconditional one and every read is a read of the key of the latest lock request.
\<close>

definition is_read_of :: "bytes \<Rightarrow> event \<Rightarrow> bool" where
  "is_read_of k ev = (ev = EvMemBufferGet k \<or> ev = EvLockCacheGet k \<or> ev = EvSnapshotGet k \<or> ev = EvUnionGet k)"

definition new_events :: "PointGetExecutor \<Rightarrow> PointGetExecutor \<Rightarrow> event list" where
  "new_events e e' = drop (length (pg_trace e)) (pg_trace e')"

definition frame :: "PointGetExecutor \<Rightarrow> PointGetExecutor \<Rightarrow> bool" where
  "frame e e' = (e' = e\<lparr>pg_lockCache := pg_lockCache e', pg_trace := pg_trace e @ new_events e e'\<rparr>)"

definition lock_shape :: "bytes \<Rightarrow> bool \<Rightarrow> int64 \<Rightarrow> event list \<Rightarrow> bool" where
  "lock_shape k b w evs =
     (case evs of [] \<Rightarrow> True
      | ev # rs \<Rightarrow> ev = EvLockKeys k b w \<and> k \<noteq> [] \<and> list_all (is_read_of k) rs \<and> (b \<or> rs = []))"

definition wframe :: "PointGetExecutor \<Rightarrow> PointGetExecutor \<Rightarrow> bool" where
  "wframe e e' =
     (pg_lock e' = pg_lock e \<and> pg_lockWaitTime e' = pg_lockWaitTime e \<and> pg_done e' = pg_done e \<and>
      pg_tblInfo e' = pg_tblInfo e \<and> pg_idxInfo e' = pg_idxInfo e \<and>
      pg_trace e' = pg_trace e @ new_events e e')"

definition step_ok :: "bool \<Rightarrow> bool \<Rightarrow> bytes \<Rightarrow> int64 \<Rightarrow> event list \<Rightarrow> bool" where
  "step_ok rc lk k w evs =
     (case evs of [] \<Rightarrow> True
      | ev # rs \<Rightarrow>
          if lk then ev = EvLockKeys k rc w \<and> k \<noteq> [] \<and> list_all (is_read_of k) rs
          else list_all (is_read_of k) (ev # rs))"

definition is_report :: "event list \<Rightarrow> bool" where
  "is_report rp = (case rp of [] \<Rightarrow> True | [EvReportInconsistent a b] \<Rightarrow> True | _ \<Rightarrow> False)"

fun last_lock :: "bytes option \<Rightarrow> event list \<Rightarrow> bytes option" where
  "last_lock cur [] = cur"
| "last_lock cur (EvLockKeys k b w # evs) = last_lock (Some k) evs"
| "last_lock cur (ev # evs) = last_lock cur evs"

fun lock_then_read :: "bytes option \<Rightarrow> event list \<Rightarrow> bool" where
  "lock_then_read cur [] = True"
| "lock_then_read cur (EvLockKeys k b w # evs) = (\<not> b \<and> lock_then_read (Some k) evs)"
| "lock_then_read cur (EvMemBufferGet k # evs) = (cur = Some k \<and> lock_then_read cur evs)"
| "lock_then_read cur (EvLockCacheGet k # evs) = (cur = Some k \<and> lock_then_read cur evs)"
| "lock_then_read cur (EvSnapshotGet k # evs) = (cur = Some k \<and> lock_then_read cur evs)"
| "lock_then_read cur (EvUnionGet k # evs) = (cur = Some k \<and> lock_then_read cur evs)"
| "lock_then_read cur (EvUpdateDelta t # evs) = lock_then_read cur evs"
| "lock_then_read cur (EvReportInconsistent a b # evs) = lock_then_read cur evs"

fun lock_only_if_exists :: "event \<Rightarrow> bool" where
  "lock_only_if_exists (EvLockKeys k b w) = b"
| "lock_only_if_exists ev = True"

fun is_lock :: "event \<Rightarrow> bool" where
  "is_lock (EvLockKeys k b w) = True"
| "is_lock ev = False"

definition next_shape :: "bool \<Rightarrow> bool \<Rightarrow> int64 \<Rightarrow> event list \<Rightarrow> bool" where
  "next_shape rc lk w evs =
     (\<exists>u k1 k2 s1 s2 rp. evs = u @ s1 @ s2 @ rp \<and> (u = [] \<or> (\<exists>t. u = [EvUpdateDelta t])) \<and>
        step_ok rc lk k1 w s1 \<and> step_ok rc lk k2 w s2 \<and> is_report rp)"

fun is_store_read :: "event \<Rightarrow> bool" where
  "is_store_read (EvSnapshotGet k) = True"
| "is_store_read (EvUnionGet k) = True"
| "is_store_read ev = False"

fun read_rank :: "event \<Rightarrow> nat" where
  "read_rank (EvMemBufferGet k) = 0"
| "read_rank (EvLockCacheGet k) = 1"
| "read_rank ev = 2"

definition memBuffer_miss :: "sctx \<Rightarrow> PointGetExecutor \<Rightarrow> bytes \<Rightarrow> bool" where
  "memBuffer_miss sc e key =
     (case sc_memBufferGet sc (pg_trace e) key of Inl err \<Rightarrow> sc_IsErrNotFound sc err | Inr v \<Rightarrow> False)"

fun is_report_ev :: "event \<Rightarrow> bool" where
  "is_report_ev (EvReportInconsistent a b) = True"
| "is_report_ev ev = False"

text \<open>
  The table id that \<open>Next\<close> reads under (lines 215-221: that of the partition, if the
  plan has one), and the executor as \<open>Next\<close> has it when it turns to the index (lines
  213-224): marked done, the delta of the table recorded when the executor locks.
\<close>

definition tableID :: "PointGetExecutor \<Rightarrow> int64" where
  "tableID e = (case pg_partitionDef e of Some pd \<Rightarrow> pd_ID pd | None \<Rightarrow> tbl_ID (pg_tblInfo e))"

definition started :: "PointGetExecutor \<Rightarrow> PointGetExecutor" where
  "started e =
     (if pg_lock e then emit (EvUpdateDelta (tableID e)) (e\<lparr>pg_done := True\<rparr>)
      else e\<lparr>pg_done := True\<rparr>)"

text \<open>
  A read that goes to the snapshot at once: the executor does not lock, there is no
  transaction buffer to look into (the transaction is not valid, or is read-only) and
  the point-get cache of a locked table is not in use.
\<close>

definition plain_read :: "sctx \<Rightarrow> PointGetExecutor \<Rightarrow> bool" where
  "plain_read sc e =
     (\<not> pg_lock e \<and> \<not> (sc_txnValid sc \<and> \<not> sc_txnIsReadOnly sc) \<and>
      \<not> ((tbl_Lock (pg_tblInfo e) = Some TableLockRead \<or> tbl_Lock (pg_tblInfo e) = Some TableLockReadOnly)
         \<and> sc_EnablePointGetCache sc))"

text \<open>
  \<open>lock_first seen cur\<close> scans a trace and accepts it when every lock request is an
  unconditional one on a key that has not been read before, and every read is a read of
  the key of the latest lock request: \<open>seen\<close> are the keys read so far, \<open>cur\<close> the key of
  the latest lock request.
\<close>

fun lock_first :: "bytes list \<Rightarrow> bytes option \<Rightarrow> event list \<Rightarrow> bool" where
  "lock_first seen cur [] = True"
| "lock_first seen cur (EvLockKeys k b w # evs) = (\<not> b \<and> k \<notin> set seen \<and> lock_first seen (Some k) evs)"
| "lock_first seen cur (EvMemBufferGet k # evs) = (cur = Some k \<and> lock_first (k # seen) cur evs)"
| "lock_first seen cur (EvLockCacheGet k # evs) = (cur = Some k \<and> lock_first (k # seen) cur evs)"
| "lock_first seen cur (EvSnapshotGet k # evs) = (cur = Some k \<and> lock_first (k # seen) cur evs)"
| "lock_first seen cur (EvUnionGet k # evs) = (cur = Some k \<and> lock_first (k # seen) cur evs)"
| "lock_first seen cur (EvUpdateDelta t # evs) = lock_first seen cur evs"
| "lock_first seen cur (EvReportInconsistent a b # evs) = lock_first seen cur evs"

text \<open>
  The executor reads through a secondary index (lines 320-321: an index that is not the
  clustered primary key); and the row read of \<open>Next\<close> is reached and \<open>getAndLock\<close> comes
  back from it with the nil error and no value.
\<close>

definition secondary_read :: "sctx \<Rightarrow> PointGetExecutor \<Rightarrow> bool" where
  "secondary_read sc e =
     (case pg_idxInfo e of None \<Rightarrow> False | Some idx \<Rightarrow> \<not> sc_isCommonHandleRead sc (pg_tblInfo e) idx)"

definition row_missing :: "sctx \<Rightarrow> PointGetExecutor \<Rightarrow> bool" where
  "row_missing sc e =
     (case resolveHandle sc (started e) (tableID e) of
        (Inl r, e2) \<Rightarrow> False
      | (Inr t', e2) \<Rightarrow>
          (case pg_handle e2 of
             None \<Rightarrow> False
           | Some h \<Rightarrow> fst (getAndLock sc e2 (sc_EncodeRowKeyWithHandle sc t' h)) = Inr []))"


section \<open>Fast-path plan builder (point_get_plan.go)\<close>

subsection \<open>The syntax tree\<close>

text \<open>
  The nodes of the ast package that the builder inspects. Clauses of which only the
  presence is tested (GROUP BY, HAVING, ORDER BY, window specifications) are kept as
  opaque identifiers. A \<open>ParamMarkerExpr\<close> embeds a \<open>ValueExpr\<close>, hence a datum of its
  own, next to its order.
\<close>

record ColumnName =
  cn_Table :: CIStr
  cn_Name :: CIStr

datatype Opcode = LogicAnd | EQ | OtherOp nat

datatype ExprNode =
    BinaryOperationExpr Opcode ExprNode ExprNode
  | ColumnNameExpr ColumnName
  | ValueExpr Datum
  | ParamMarkerExpr Datum nat
  | ParenthesesExpr ExprNode
  | RowExpr "ExprNode list"
  | PatternInExpr ExprNode "ExprNode list" bool
  | FuncCallExpr CIStr "ExprNode list"
  | OtherExpr nat

datatype HintType = HintUse | HintIgnore | HintForce | HintOtherType nat

datatype HintScope = HintForScan | HintForJoin | HintForOrderBy | HintForGroupBy

record IndexHint =
  ih_IndexNames :: "CIStr list option"
  ih_HintType :: HintType
  ih_HintScope :: HintScope

record TableName =
  tn_Schema :: CIStr
  tn_Name :: CIStr
  tn_TableInfo :: "TableInfo option"
  tn_IndexHints :: "IndexHint list"
  tn_PartitionNames :: "CIStr list"

datatype ResultSetSource = SrcTableName TableName | SrcOther nat

datatype ResultSetNode = TableSource ResultSetSource CIStr | OtherResultSet nat

record Join =
  j_Left :: ResultSetNode
  j_Right :: "ResultSetNode option"

record TableRefsClause =
  trc_TableRefs :: "Join option"

record WildCardField =
  wc_Table :: CIStr

record SelectField =
  sf_WildCard :: "WildCardField option"
  sf_Expr :: "ExprNode option"
  sf_AsName :: CIStr

record Limit =
  lim_Count :: "ExprNode option"
  lim_Offset :: "ExprNode option"

record SelectStmt =
  ss_Distinct :: bool
  ss_From :: "TableRefsClause option"
  ss_Where :: "ExprNode option"
  ss_Fields :: "SelectField list"
  ss_GroupBy :: "nat option"
  ss_Having :: "nat option"
  ss_WindowSpecs :: "nat list"
  ss_OrderBy :: "nat option"
  ss_Limit :: "Limit option"

subsection \<open>Partition expressions and the planning context\<close>

text \<open>
  \<open>tables.PartitionExpr\<close> with its pruning helpers, and the session context of the
  planner. The conversions and comparisons of datums, the evaluation of parameter
  markers and of the LIMIT clause, the lookup of the partition expression and of the
  latest index states are defined outside the excerpt and are parameters. So is
  \<open>TableInfo.Cols\<close>, the list of the public columns of a table: \<open>pc_Cols\<close>.
\<close>

datatype Expression = ExprColumn Column | ExprOther nat

record ForRangePruning =
  rp_LessThan :: "int64 list"
  rp_Compare :: "nat \<Rightarrow> int64 \<Rightarrow> bool \<Rightarrow> int"

record ForListPruning =
  lp_ColPrunes :: "nat list option"
  lp_LocateExpr :: Expression
  lp_LocatePartition :: "int64 \<Rightarrow> bool \<Rightarrow> int"

record PartitionExpr =
  pe_Expr :: "Expression option"
  pe_OrigExpr :: ExprNode
  pe_KeyPartCols :: "Column list"
  pe_LocateKeyPartition :: "int64 \<Rightarrow> Datum list \<Rightarrow> error + nat"
  pe_ForRangePruning :: ForRangePruning
  pe_ForListPruning :: ForListPruning

record pctx =
  pc_CurrentDB :: string
  pc_LockWaitTimeout :: int64
  pc_IsReadCommitted :: bool
  pc_ConnectionID :: int64
  pc_extractLimitCountOffset :: "Limit \<Rightarrow> error + (int64 \<times> int64)"
  pc_ParamMarkerExpression :: "Datum \<Rightarrow> nat \<Rightarrow> bool \<Rightarrow> error + Constant"
  pc_Eval :: "Constant \<Rightarrow> error + Datum"
  pc_ConvertTo :: "Datum \<Rightarrow> FieldType \<Rightarrow> Datum \<times> error option"
  pc_Compare :: "Datum \<Rightarrow> Datum \<Rightarrow> string \<Rightarrow> error + int"
  pc_Cols :: "TableInfo \<Rightarrow> ColumnInfo list"
  pc_getPartitionExpr :: "TableInfo \<Rightarrow> PartitionExpr option"
  pc_getLatestIndexInfo :: "int64 \<Rightarrow> error + ((int64 \<rightharpoonup> IndexInfo) option \<times> bool)"
  pc_GetType :: "ExprNode \<Rightarrow> FieldType option"
  pc_checksumRetType :: FieldType
  pc_ExtraRowChecksumID :: int64
  pc_NewExtraHandleColInfo :: ColumnInfo

record nameValuePair =
  nv_colName :: string
  nv_colFieldType :: "FieldType option"
  nv_value :: Datum
  nv_con :: "Constant option"

text \<open>The zero value of \<open>nameValuePair\<close>: its datum has kind \<open>KindNull\<close>.\<close>

definition zeroPair :: nameValuePair where
  "zeroPair = \<lparr>nv_colName = [], nv_colFieldType = None, nv_value = zeroDatum, nv_con = None\<rparr>"

text \<open>\<open>types.NewFieldType(mysql.TypeLonglong)\<close>.\<close>

definition NewFieldType_Longlong :: FieldType where
  "NewFieldType_Longlong =
     \<lparr>ft_tp = TypeLonglong, ft_HasPriKeyFlag = False, ft_HasUnsignedFlag = False,
      ft_collate = ''binary'', ft_elems = [], ft_evalType = ETInt\<rparr>"

text \<open>\<open>model.FindColumnInfo\<close>: the first column with the lower-case name.\<close>

definition FindColumnInfo :: "ColumnInfo list \<Rightarrow> string \<Rightarrow> ColumnInfo option" where
  "FindColumnInfo cols name = find (\<lambda>c. ci_L (col_Name c) = name) cols"

subsection \<open>Index hints and partition names\<close>

text \<open>
  \<open>indexIsAvailableByHints\<close> (lines 1194-1228); the index is \<open>None\<close> for the primary
  key. The loop carries \<open>isIgnore\<close>.
\<close>

definition hint_match :: "IndexInfo option \<Rightarrow> CIStr \<Rightarrow> bool" where
  "hint_match idxInfo name =
     (case idxInfo of
        None \<Rightarrow> ci_L name = ''primary''
      | Some idx \<Rightarrow> ci_L (idx_Name idx) = ci_L name)"

fun hints_loop :: "IndexInfo option \<Rightarrow> bool \<Rightarrow> IndexHint list \<Rightarrow> bool" where
  "hints_loop idxInfo isIgnore [] = isIgnore"
| "hints_loop idxInfo isIgnore (hint # hints) =
     (if ih_HintScope hint \<noteq> HintForScan then hints_loop idxInfo isIgnore hints
      else
        (case ih_IndexNames hint of
           None \<Rightarrow> hints_loop idxInfo isIgnore hints
         | Some names \<Rightarrow>
            if ih_HintType hint = HintIgnore \<and> list_ex (hint_match idxInfo) names then False
            else if (ih_HintType hint = HintForce \<or> ih_HintType hint = HintUse)
                    \<and> list_ex (hint_match idxInfo) names then True
            else hints_loop idxInfo (isIgnore \<or> ih_HintType hint = HintIgnore) hints))"

definition indexIsAvailableByHints :: "IndexInfo option \<Rightarrow> IndexHint list \<Rightarrow> bool" where
  "indexIsAvailableByHints idxInfo idxHints =
     (if idxHints = [] then True else hints_loop idxInfo False idxHints)"

text \<open>\<open>partitionNameInSet\<close> (lines 1230-1238).\<close>

definition partitionNameInSet :: "CIStr \<Rightarrow> CIStr list \<Rightarrow> bool" where
  "partitionNameInSet name pnames = list_ex (\<lambda>pname. ci_L name = ci_L pname) pnames"

subsection \<open>Building the schema\<close>

text \<open>\<open>colInfoToColumn\<close> (lines 1848-1856) and \<open>findCol\<close> (lines 1834-1846).\<close>

definition colInfoToColumn :: "ColumnInfo \<Rightarrow> nat \<Rightarrow> Column" where
  "colInfoToColumn col idx =
     \<lparr>ec_RetType = col_FieldType col, ec_ID = col_ID col, ec_UniqueID = word_of_int (col_Offset col),
      ec_Index = idx, ec_OrigName = ci_L (col_Name col)\<rparr>"

definition findCol :: "pctx \<Rightarrow> TableInfo \<Rightarrow> ColumnName \<Rightarrow> ColumnInfo option" where
  "findCol pc tbl colName =
     (if ci_L (cn_Name colName) = ''_tidb_rowid'' \<and> \<not> tbl_PKIsHandle tbl
      then Some ((pc_NewExtraHandleColInfo pc)\<lparr>col_Offset := int (length (tbl_Columns tbl)) - 1\<rparr>)
      else find (\<lambda>col. ci_L (col_Name col) = ci_L (cn_Name colName)) (tbl_Columns tbl))"

text \<open>The naming of all columns of the table, used for a wildcard and for an empty
  field list (lines 1292-1300 and 1335-1344).\<close>

fun appendAllColumns ::
  "CIStr \<Rightarrow> TableInfo \<Rightarrow> CIStr \<Rightarrow> ColumnInfo list \<Rightarrow> Column list \<times> FieldName list \<Rightarrow> Column list \<times> FieldName list" where
  "appendAllColumns dbName tbl tblName [] acc = acc"
| "appendAllColumns dbName tbl tblName (col # cols) (columns, names) =
     appendAllColumns dbName tbl tblName cols
       (columns @ [colInfoToColumn col (length columns)],
        names @ [\<lparr>fn_DBName = dbName, fn_OrigTblName = tbl_Name tbl, fn_TblName = tblName,
                  fn_OrigColName = \<lparr>ci_O = [], ci_L = []\<rparr>, fn_ColName = col_Name col\<rparr>])"

text \<open>\<open>tryExtractRowChecksumColumn\<close> (lines 1349-1379).\<close>

definition tryExtractRowChecksumColumn :: "pctx \<Rightarrow> SelectField \<Rightarrow> nat \<Rightarrow> (FieldName \<times> Column) option" where
  "tryExtractRowChecksumColumn pc field idx =
     (case sf_Expr field of
        Some (FuncCallExpr fnName args) \<Rightarrow>
          if ci_L fnName \<noteq> ''tidb_row_checksum'' \<or> args \<noteq> [] then None
          else
            (let origName = \<lparr>ci_O = ci_O fnName @ ''()'', ci_L = ci_L fnName @ ''()''\<rparr>;
                 asName = (if ci_L (sf_AsName field) \<noteq> [] then sf_AsName field else origName)
             in Some (\<lparr>fn_DBName = \<lparr>ci_O = [], ci_L = []\<rparr>, fn_OrigTblName = \<lparr>ci_O = [], ci_L = []\<rparr>,
                       fn_TblName = \<lparr>ci_O = [], ci_L = []\<rparr>, fn_OrigColName = origName,
                       fn_ColName = asName\<rparr>,
                      \<lparr>ec_RetType = pc_checksumRetType pc, ec_ID = pc_ExtraRowChecksumID pc,
                       ec_UniqueID = pc_ExtraRowChecksumID pc, ec_Index = idx,
                       ec_OrigName = ci_L origName\<rparr>))
      | _ \<Rightarrow> None)"

text \<open>\<open>buildSchemaFromFields\<close> (lines 1275-1347); \<open>None\<close> is the nil schema.\<close>

fun buildSchema_loop ::
  "pctx \<Rightarrow> CIStr \<Rightarrow> TableInfo \<Rightarrow> CIStr \<Rightarrow> SelectField list \<Rightarrow> Column list \<times> FieldName list
     \<Rightarrow> (Column list \<times> FieldName list) option" where
  "buildSchema_loop pc dbName tbl tblName [] acc = Some acc"
| "buildSchema_loop pc dbName tbl tblName (field # flds) (columns, names) =
     (case sf_WildCard field of
        Some wc \<Rightarrow>
          if ci_L (wc_Table wc) \<noteq> [] \<and> ci_L (wc_Table wc) \<noteq> ci_L tblName then None
          else buildSchema_loop pc dbName tbl tblName flds
                 (appendAllColumns dbName tbl tblName (tbl_Columns tbl) (columns, names))
      | None \<Rightarrow>
         (case tryExtractRowChecksumColumn pc field (length columns) of
            Some (name, column) \<Rightarrow>
              buildSchema_loop pc dbName tbl tblName flds (columns @ [column], names @ [name])
          | None \<Rightarrow>
             (case sf_Expr field of
                Some (ColumnNameExpr cn) \<Rightarrow>
                  if ci_L (cn_Table cn) \<noteq> [] \<and> ci_L (cn_Table cn) \<noteq> ci_L tblName then None
                  else
                    (case findCol pc tbl cn of
                       None \<Rightarrow> None
                     | Some col \<Rightarrow>
                        buildSchema_loop pc dbName tbl tblName flds
                          (columns @ [colInfoToColumn col (length columns)],
                           names @ [\<lparr>fn_DBName = dbName, fn_OrigTblName = tbl_Name tbl,
                                     fn_TblName = tblName, fn_OrigColName = col_Name col,
                                     fn_ColName = (if ci_L (sf_AsName field) \<noteq> []
                                                   then sf_AsName field else cn_Name cn)\<rparr>]))
              | _ \<Rightarrow> None)))"

definition buildSchemaFromFields ::
  "pctx \<Rightarrow> CIStr \<Rightarrow> TableInfo \<Rightarrow> CIStr \<Rightarrow> SelectField list \<Rightarrow> (Column list \<times> FieldName list) option" where
  "buildSchemaFromFields pc dbName tbl tblName flds =
     (if flds \<noteq> [] then buildSchema_loop pc dbName tbl tblName flds ([], [])
      else Some (appendAllColumns dbName tbl tblName (tbl_Columns tbl) ([], [])))"

text \<open>\<open>getSingleTableNameAndAlias\<close> (lines 1384-1401); \<open>None\<close> is the nil table name.\<close>

definition getSingleTableNameAndAlias :: "TableRefsClause option \<Rightarrow> (TableName \<times> CIStr) option" where
  "getSingleTableNameAndAlias tableRefs =
     (case tableRefs of
        None \<Rightarrow> None
      | Some refs \<Rightarrow>
         (case trc_TableRefs refs of
            None \<Rightarrow> None
          | Some j \<Rightarrow>
             if j_Right j \<noteq> None then None
             else
               (case j_Left j of
                  TableSource (SrcTableName tblName) asName \<Rightarrow>
                    Some (tblName, if ci_L asName = [] then tn_Name tblName else asName)
                | _ \<Rightarrow> None)))"

subsection \<open>Extracting the pairs\<close>

text \<open>\<open>checkCanConvertInPointGet\<close> (lines 1528-1545).\<close>

definition checkCanConvertInPointGet :: "ColumnInfo \<Rightarrow> Datum \<Rightarrow> bool" where
  "checkCanConvertInPointGet col d =
     (if ft_evalType (col_FieldType col) = ETString \<and>
         (d_k d = KindInt64 \<or> d_k d = KindUint64 \<or> d_k d = KindFloat32 \<or> d_k d = KindFloat64 \<or>
          d_k d = KindMysqlDecimal)
      then False
      else if ft_tp (col_FieldType col) = TypeBit \<and> d_k d = KindString then False
      else True)"

text \<open>
  The retyping of a string datum to the collation of the column (lines 1477-1479 and
  1513-1515).
\<close>

definition setColumnCollation :: "ColumnInfo \<Rightarrow> Datum \<Rightarrow> Datum" where
  "setColumnCollation col d =
     (if ft_evalType (col_FieldType col) = ETString \<and> (d_k d = KindString \<or> d_k d = KindBinaryLiteral)
      then SetString (d_b d) (ft_collate (col_FieldType col)) d
      else d)"

text \<open>
  The value of the constant side of an equality (lines 1430-1442 and 1444-1456, and
  the same switch in \<open>newBatchPointGetPlan\<close>): the datum and the constant of a parameter
  marker. Any other node leaves the datum at its zero value.
\<close>

definition constValue :: "pctx \<Rightarrow> bool \<Rightarrow> ExprNode \<Rightarrow> error + (Datum \<times> Constant option)" where
  "constValue pc needParam x =
     (case x of
        ValueExpr d \<Rightarrow> Inr (d, None)
      | ParamMarkerExpr d ord \<Rightarrow>
          (case pc_ParamMarkerExpression pc d ord needParam of
             Inl err \<Rightarrow> Inl err
           | Inr con \<Rightarrow>
              (case pc_Eval pc con of
                 Inl err \<Rightarrow> Inl err
               | Inr d' \<Rightarrow> Inr (d', Some con)))
      | _ \<Rightarrow> Inr (zeroDatum, None))"

text \<open>
  The equality case of \<open>getNameValuePairs\<close> (lines 1421-1503). The pairs are \<open>None\<close> for
  the nil slice; the flag is \<open>isTableDual\<close>.
\<close>

definition getNameValuePairs_EQ ::
  "pctx \<Rightarrow> TableInfo \<Rightarrow> CIStr \<Rightarrow> nameValuePair list \<Rightarrow> ExprNode \<Rightarrow> ExprNode
     \<Rightarrow> nameValuePair list option \<times> bool" where
  "getNameValuePairs_EQ pc tbl tblName nvPairs l r =
     (case (case l of
              ColumnNameExpr cn \<Rightarrow> Some (cn, r)
            | _ \<Rightarrow> (case r of ColumnNameExpr cn \<Rightarrow> Some (cn, l) | _ \<Rightarrow> None)) of
        None \<Rightarrow> (None, False)
      | Some (colName, other) \<Rightarrow>
         (case constValue pc False other of
            Inl err \<Rightarrow> (None, False)
          | Inr (d, con) \<Rightarrow>
             if IsNull d then (None, False)
             else if tbl_IsView tbl then (None, False)
             else if ci_L (cn_Table colName) \<noteq> [] \<and> ci_L (cn_Table colName) \<noteq> ci_L tblName
               then (None, False)
             else
               (case FindColumnInfo (pc_Cols pc tbl) (ci_L (cn_Name colName)) of
                  None \<Rightarrow>
                    (Some (nvPairs @ [\<lparr>nv_colName = ci_L (cn_Name colName),
                                       nv_colFieldType = Some NewFieldType_Longlong,
                                       nv_value = d, nv_con = con\<rparr>]), False)
                | Some col \<Rightarrow>
                   (let d1 = setColumnCollation col d in
                    if ft_tp (col_FieldType col) = TypeString \<and> ft_collate (col_FieldType col) = ''binary''
                    then (Some (nvPairs @ [\<lparr>nv_colName = ci_L (cn_Name colName),
                                            nv_colFieldType = Some (col_FieldType col),
                                            nv_value = d1, nv_con = con\<rparr>]), False)
                    else if \<not> checkCanConvertInPointGet col d1 then (None, False)
                    else
                      (case pc_ConvertTo pc d1 (col_FieldType col) of
                         (dVal, err) \<Rightarrow>
                           if err = Some ErrOverflow
                           then (Some (nvPairs @ [\<lparr>nv_colName = ci_L (cn_Name colName),
                                                   nv_colFieldType = Some (col_FieldType col),
                                                   nv_value = d1, nv_con = con\<rparr>]), True)
                           else if err \<noteq> None \<and> err \<noteq> Some ErrTruncatedWrongVal then (None, False)
                           else
                             (case pc_Compare pc dVal d1 (ft_collate (col_FieldType col)) of
                                Inl cerr \<Rightarrow> (None, False)
                              | Inr cmp \<Rightarrow>
                                  if cmp \<noteq> 0 then (None, False)
                                  else (Some (nvPairs @ [\<lparr>nv_colName = ci_L (cn_Name colName),
                                                          nv_colFieldType = Some (col_FieldType col),
                                                          nv_value = dVal, nv_con = con\<rparr>]), False)))))))"

text \<open>\<open>getNameValuePairs\<close> (lines 1404-1505).\<close>

fun getNameValuePairs ::
  "pctx \<Rightarrow> TableInfo \<Rightarrow> CIStr \<Rightarrow> nameValuePair list \<Rightarrow> ExprNode \<Rightarrow> nameValuePair list option \<times> bool" where
  "getNameValuePairs pc tbl tblName nvPairs (BinaryOperationExpr op l r) =
     (if op = LogicAnd then
        (case getNameValuePairs pc tbl tblName nvPairs l of
           (None, isTableDual) \<Rightarrow> (None, isTableDual)
         | (Some ps, isTableDual) \<Rightarrow>
             if isTableDual then (None, isTableDual)
             else
               (case getNameValuePairs pc tbl tblName ps r of
                  (None, isTableDual') \<Rightarrow> (None, isTableDual')
                | (Some ps', isTableDual') \<Rightarrow>
                    if isTableDual' then (None, isTableDual') else (Some ps', isTableDual')))
      else if op = EQ then getNameValuePairs_EQ pc tbl tblName nvPairs l r
      else (None, False))"
| "getNameValuePairs pc tbl tblName nvPairs expr = (None, False)"

text \<open>
  \<open>getPointGetValue\<close> (lines 1507-1526): the converted datum, or \<open>None\<close> for nil, and the
  argument datum as the call leaves it (its collation may have been set).
\<close>

definition getPointGetValue :: "pctx \<Rightarrow> ColumnInfo \<Rightarrow> Datum \<Rightarrow> Datum option \<times> Datum" where
  "getPointGetValue pc col d =
     (if \<not> checkCanConvertInPointGet col d then (None, d)
      else
        (let d1 = setColumnCollation col d in
         case pc_ConvertTo pc d1 (col_FieldType col) of
           (dVal, err) \<Rightarrow>
             if err \<noteq> None then (None, d1)
             else
               (case pc_Compare pc dVal d1 (ft_collate (col_FieldType col)) of
                  Inl cerr \<Rightarrow> (None, d1)
                | Inr cmp \<Rightarrow> if cmp \<noteq> 0 then (None, d1) else (Some dVal, d1))))"

subsection \<open>Resolving the key\<close>

text \<open>\<open>findInPairs\<close> (lines 1592-1599); \<open>None\<close> stands for -1.\<close>

fun findInPairs_from :: "nat \<Rightarrow> string \<Rightarrow> nameValuePair list \<Rightarrow> nat option" where
  "findInPairs_from i colName [] = None"
| "findInPairs_from i colName (pair # pairs) =
     (if nv_colName pair = colName then Some i else findInPairs_from (Suc i) colName pairs)"

definition findInPairs :: "string \<Rightarrow> nameValuePair list \<Rightarrow> nat option" where
  "findInPairs colName pairs = findInPairs_from 0 colName pairs"

text \<open>\<open>findPKHandle\<close> (lines 1547-1565).\<close>

fun findPKHandle_loop :: "ColumnInfo list \<Rightarrow> nameValuePair list \<Rightarrow> nameValuePair \<times> FieldType option" where
  "findPKHandle_loop [] pairs = (zeroPair, None)"
| "findPKHandle_loop (col # cols) pairs =
     (if ft_HasPriKeyFlag (col_FieldType col) then
        (case findInPairs (ci_L (col_Name col)) pairs of
           None \<Rightarrow> (zeroPair, None)
         | Some i \<Rightarrow> (pairs ! i, Some (col_FieldType col)))
      else findPKHandle_loop cols pairs)"

definition findPKHandle :: "TableInfo \<Rightarrow> nameValuePair list \<Rightarrow> nameValuePair \<times> FieldType option" where
  "findPKHandle tblInfo pairs =
     (if \<not> tbl_PKIsHandle tblInfo then
        (case findInPairs ''_tidb_rowid'' pairs of
           Some rowIDIdx \<Rightarrow> (pairs ! rowIDIdx, Some NewFieldType_Longlong)
         | None \<Rightarrow> (zeroPair, None))
      else findPKHandle_loop (tbl_Columns tblInfo) pairs)"

text \<open>\<open>getIndexValues\<close> (lines 1567-1590); \<open>None\<close> is the nil result.\<close>

fun getIndexValues_loop ::
  "IndexColumn list \<Rightarrow> nameValuePair list
     \<Rightarrow> Datum list \<times> Constant option list \<times> FieldType option list
     \<Rightarrow> (Datum list \<times> Constant option list \<times> FieldType option list) option" where
  "getIndexValues_loop [] pairs acc = Some acc"
| "getIndexValues_loop (idxCol # idxCols) pairs (idxValues, idxConstants, colsFieldType) =
     (case findInPairs (ci_L (ic_Name idxCol)) pairs of
        None \<Rightarrow> None
      | Some i \<Rightarrow>
          getIndexValues_loop idxCols pairs
            (idxValues @ [nv_value (pairs ! i)], idxConstants @ [nv_con (pairs ! i)],
             colsFieldType @ [nv_colFieldType (pairs ! i)]))"

definition getIndexValues ::
  "IndexInfo \<Rightarrow> nameValuePair list \<Rightarrow> (Datum list \<times> Constant option list \<times> FieldType option list) option" where
  "getIndexValues idxInfo pairs =
     (if length (idx_Columns idxInfo) \<noteq> length pairs then None
      else if HasPrefixIndex idxInfo then None
      else
        (case getIndexValues_loop (idx_Columns idxInfo) pairs ([], [], []) of
           None \<Rightarrow> None
         | Some (idxValues, idxConstants, colsFieldType) \<Rightarrow>
             if idxValues \<noteq> [] then Some (idxValues, idxConstants, colsFieldType) else None))"

text \<open>\<open>findColNameByColID\<close> (lines 2090-2097).\<close>

definition findColNameByColID :: "ColumnInfo list \<Rightarrow> Column \<Rightarrow> ColumnInfo option" where
  "findColNameByColID cols col = find (\<lambda>c. col_ID c = ec_ID col) cols"

text \<open>\<open>sort.Search\<close> of the Go library: binary search for the least index in \<open>[0, n)\<close> at
  which \<open>f\<close> holds.\<close>

function Search_loop :: "(nat \<Rightarrow> bool) \<Rightarrow> nat \<Rightarrow> nat \<Rightarrow> nat" where
  "Search_loop f i j =
     (if i < j then
        (let h = (i + j) div 2 in
         if \<not> f h then Search_loop f (h + 1) j else Search_loop f i h)
      else i)"
  by pat_completeness auto
termination
  by (relation "measure (\<lambda>(f, i, j). j - i)") auto

definition Search :: "nat \<Rightarrow> (nat \<Rightarrow> bool) \<Rightarrow> nat" where
  "Search n f = Search_loop f 0 n"

text \<open>
  The position of a hash partition (line 1905): Go's remainder truncates towards zero
  and panics on a zero divisor; \<open>mathutil.Abs\<close> negates a negative value.
\<close>

definition go_rem :: "int64 \<Rightarrow> int64 \<Rightarrow> int64" where
  "go_rem a b = word_of_int (sint a smod sint b)"

definition Abs64 :: "int64 \<Rightarrow> int64" where
  "Abs64 n = (if sint n < 0 then - n else n)"

text \<open>
  \<open>getPartitionDef\<close> (lines 1878-1970): the partition definition, the index of the pair
  used, the position of the partition and \<open>isTableDual\<close>. An index out of range, a
  division by zero and a nil dereference panic.
\<close>

definition definitionAt ::
  "PartitionInfo \<Rightarrow> int \<Rightarrow> nat \<Rightarrow> error + (PartitionDefinition option \<times> nat \<times> nat \<times> bool)" where
  "definitionAt pi pos i =
     (if pos < 0 \<or> int (length (pi_Definitions pi)) \<le> pos then Inl ErrPanic
      else Inr (Some (pi_Definitions pi ! nat pos), i, nat pos, False))"

definition getPartitionDef ::
  "pctx \<Rightarrow> TableInfo \<Rightarrow> nameValuePair list
     \<Rightarrow> error + (PartitionDefinition option \<times> nat \<times> nat \<times> bool)" where
  "getPartitionDef pc tbl pairs =
     (case pc_getPartitionExpr pc tbl of
        None \<Rightarrow> Inr (None, 0, 0, False)
      | Some partitionExpr \<Rightarrow>
         (case tbl_Partition tbl of
            None \<Rightarrow> Inr (None, 0, 0, False)
          | Some pi \<Rightarrow>
             (case pi_Type pi of
                PartitionTypeHash \<Rightarrow>
                  (case pe_OrigExpr partitionExpr of
                     ColumnNameExpr partitionColName \<Rightarrow>
                       (case findInPairs (ci_L (cn_Name partitionColName)) pairs of
                          None \<Rightarrow> Inr (None, 0, 0, False)
                        | Some i \<Rightarrow>
                            if pi_Num pi = 0 then Inl ErrPanic
                            else definitionAt pi
                                   (sint (Abs64 (go_rem (GetInt64 (nv_value (pairs ! i))) (pi_Num pi)))) i)
                   | _ \<Rightarrow> Inr (None, 0, 0, False))
              | PartitionTypeKey \<Rightarrow>
                  if length (pi_Columns pi) = 1 then
                    (case pe_KeyPartCols partitionExpr of
                       [] \<Rightarrow> Inl ErrPanic
                     | kc # kcs \<Rightarrow>
                        (case findInPairs (ci_L (pi_Columns pi ! 0)) pairs of
                           None \<Rightarrow> Inr (None, 0, 0, False)
                         | Some i \<Rightarrow>
                            (case pe_LocateKeyPartition partitionExpr (pi_Num pi) [nv_value (pairs ! i)] of
                               Inl err \<Rightarrow> Inr (None, 0, 0, False)
                             | Inr pos \<Rightarrow> definitionAt pi (int pos) i)))
                  else Inr (None, 0, 0, False)
              | PartitionTypeRange \<Rightarrow>
                  if pi_Columns pi = [] then
                    (case pe_Expr partitionExpr of
                       Some (ExprColumn col) \<Rightarrow>
                         (case findColNameByColID (tbl_Columns tbl) col of
                            None \<Rightarrow> if pairs = [] then Inr (None, 0, 0, False) else Inl ErrPanic
                          | Some colInfo \<Rightarrow>
                             (case findInPairs (ci_L (col_Name colInfo)) pairs of
                                None \<Rightarrow> Inr (None, 0, 0, False)
                              | Some i \<Rightarrow>
                                 (let val = GetInt64 (nv_value (pairs ! i));
                                      unsigned = ft_HasUnsignedFlag (ec_RetType col);
                                      ranges = pe_ForRangePruning partitionExpr;
                                      len = length (rp_LessThan ranges);
                                      pos = Search len (\<lambda>i. rp_Compare ranges i val unsigned > 0)
                                  in if pos < len then definitionAt pi (int pos) i
                                     else Inr (None, 0, 0, True))))
                     | _ \<Rightarrow> Inr (None, 0, 0, False))
                  else Inr (None, 0, 0, False)
              | PartitionTypeList \<Rightarrow>
                  if lp_ColPrunes (pe_ForListPruning partitionExpr) = None then
                    (case lp_LocateExpr (pe_ForListPruning partitionExpr) of
                       ExprColumn locateExpr \<Rightarrow>
                         (case findColNameByColID (tbl_Columns tbl) locateExpr of
                            None \<Rightarrow> if pairs = [] then Inr (None, 0, 0, False) else Inl ErrPanic
                          | Some colInfo \<Rightarrow>
                             (case findInPairs (ci_L (col_Name colInfo)) pairs of
                                None \<Rightarrow> Inr (None, 0, 0, False)
                              | Some i \<Rightarrow>
                                 (let val = GetInt64 (nv_value (pairs ! i));
                                      pos = lp_LocatePartition (pe_ForListPruning partitionExpr) val False
                                  in if pos \<ge> 0 then definitionAt pi pos i
                                     else Inr (None, 0, 0, True))))
                     | _ \<Rightarrow> Inr (None, 0, 0, False))
                  else Inr (None, 0, 0, False)
              | PartitionTypeNone \<Rightarrow> Inr (None, 0, 0, False))))"

text \<open>\<open>findPartitionIdx\<close> (lines 1972-1979); \<open>pairs[pos]\<close> is read inside the loop.\<close>

fun findPartitionIdx_loop :: "nat \<Rightarrow> IndexColumn list \<Rightarrow> string \<Rightarrow> nat" where
  "findPartitionIdx_loop i [] colName = 0"
| "findPartitionIdx_loop i (idxCol # idxCols) colName =
     (if ci_L (ic_Name idxCol) = colName then i else findPartitionIdx_loop (Suc i) idxCols colName)"

definition findPartitionIdx :: "IndexInfo \<Rightarrow> nat \<Rightarrow> nameValuePair list \<Rightarrow> error + nat" where
  "findPartitionIdx idxInfo pos pairs =
     (if idx_Columns idxInfo = [] then Inr 0
      else if length pairs \<le> pos then Inl ErrPanic
      else Inr (findPartitionIdx_loop 0 (idx_Columns idxInfo) (nv_colName (pairs ! pos))))"

subsection \<open>Building the single-row plan\<close>

text \<open>\<open>newPointGetPlan\<close> (lines 1240-1251); the fields not set are at their zero
  values.\<close>

definition newPointGetPlan ::
  "pctx \<Rightarrow> string \<Rightarrow> Column list \<Rightarrow> TableInfo \<Rightarrow> FieldName list \<Rightarrow> PointGetPlan" where
  "newPointGetPlan pc dbName schema tbl names =
     \<lparr>p_dbName = dbName, p_schema = schema, p_TblInfo = tbl, p_IndexInfo = None,
      p_PartitionDef = None, p_Handle = None, p_HandleConstant = None, p_handleFieldType = None,
      p_IndexValues = [], p_IndexConstants = [], p_ColsFieldType = [], p_UnsignedHandle = False,
      p_IsTableDual = False, p_Lock = False, p_outputNames = names,
      p_LockWaitTime = pc_LockWaitTimeout pc, p_partitionColumnPos = 0, p_Columns = []\<rparr>"

text \<open>
  The check against the latest schema in \<open>checkTblIndexForPointPlan\<close> (lines 1146-1157
  and 1166-1177): \<open>Inl\<close> is the return of nil after a failed lookup; otherwise the new
  \<open>latestIndexes\<close> and \<open>check\<close>, and whether the index is to be skipped.
\<close>

definition latestIndexCheck ::
  "pctx \<Rightarrow> TableInfo \<Rightarrow> IndexInfo \<Rightarrow> bool \<Rightarrow> (int64 \<rightharpoonup> IndexInfo) option
     \<Rightarrow> unit + ((int64 \<rightharpoonup> IndexInfo) option \<times> bool \<times> bool)" where
  "latestIndexCheck pc tbl idxInfo check latestIndexes =
     (case (if check \<and> latestIndexes = None
            then (case pc_getLatestIndexInfo pc (tbl_ID tbl) of
                    Inl err \<Rightarrow> Inl ()
                  | Inr (latest, check') \<Rightarrow> Inr (latest, check'))
            else Inr (latestIndexes, check)) of
        Inl u \<Rightarrow> Inl u
      | Inr (latest, check') \<Rightarrow>
          Inr (latest, check',
               check' \<and> (case (case latest of None \<Rightarrow> None | Some m \<Rightarrow> m (idx_ID idxInfo)) of
                           None \<Rightarrow> True
                         | Some latestIndex \<Rightarrow> idx_State latestIndex \<noteq> StatePublic)))"

text \<open>The plan of an index that passed the tests of the loop (lines 1178-1187).\<close>

definition indexPointPlan ::
  "pctx \<Rightarrow> string \<Rightarrow> Column list \<Rightarrow> TableInfo \<Rightarrow> FieldName list \<Rightarrow> nameValuePair list
     \<Rightarrow> PartitionDefinition option \<Rightarrow> nat \<Rightarrow> IndexInfo
     \<Rightarrow> Datum list \<Rightarrow> Constant option list \<Rightarrow> FieldType option list \<Rightarrow> error + PointGetPlan option" where
  "indexPointPlan pc dbName schema tbl names pairs partitionDef pos idxInfo idxValues idxConstant
       colsFieldType =
     (let p = (newPointGetPlan pc dbName schema tbl names)
                \<lparr>p_IndexInfo := Some idxInfo, p_IndexValues := idxValues,
                 p_IndexConstants := idxConstant, p_ColsFieldType := colsFieldType,
                 p_PartitionDef := partitionDef\<rparr>
      in if partitionDef \<noteq> None then
           (case findPartitionIdx idxInfo pos pairs of
              Inl err \<Rightarrow> Inl err
            | Inr i \<Rightarrow> Inr (Some (p\<lparr>p_partitionColumnPos := i\<rparr>)))
         else Inr (Some p))"

text \<open>The loop of \<open>checkTblIndexForPointPlan\<close> over \<open>tbl.Indices\<close> (lines 1137-1189).\<close>

fun checkTblIndex_loop ::
  "pctx \<Rightarrow> TableName \<Rightarrow> TableInfo \<Rightarrow> string \<Rightarrow> Column list \<Rightarrow> FieldName list \<Rightarrow> nameValuePair list
     \<Rightarrow> PartitionDefinition option \<Rightarrow> nat \<Rightarrow> bool \<Rightarrow> bool
     \<Rightarrow> bool \<Rightarrow> (int64 \<rightharpoonup> IndexInfo) option \<Rightarrow> IndexInfo list \<Rightarrow> error + PointGetPlan option" where
  "checkTblIndex_loop pc tblName tbl dbName schema names pairs partitionDef pos globalIndexCheck
       isTableDual check latestIndexes [] = Inr None"
| "checkTblIndex_loop pc tblName tbl dbName schema names pairs partitionDef pos globalIndexCheck
       isTableDual check latestIndexes (idxInfo # indices) =
     (if \<not> idx_Unique idxInfo \<or> idx_State idxInfo \<noteq> StatePublic \<or> idx_Invisible idxInfo \<or>
         idx_MVIndex idxInfo \<or> \<not> indexIsAvailableByHints (Some idxInfo) (tn_IndexHints tblName)
      then checkTblIndex_loop pc tblName tbl dbName schema names pairs partitionDef pos
             globalIndexCheck isTableDual check latestIndexes indices
      else if globalIndexCheck \<and> \<not> idx_Global idxInfo
      then checkTblIndex_loop pc tblName tbl dbName schema names pairs partitionDef pos
             globalIndexCheck isTableDual check latestIndexes indices
      else if isTableDual then
        (case latestIndexCheck pc tbl idxInfo check latestIndexes of
           Inl u \<Rightarrow> Inr None
         | Inr (latest, check', skip) \<Rightarrow>
             if skip
             then checkTblIndex_loop pc tblName tbl dbName schema names pairs partitionDef pos
                    globalIndexCheck isTableDual check' latest indices
             else Inr (Some ((newPointGetPlan pc (ci_O (tn_Schema tblName)) schema tbl names)
                               \<lparr>p_IsTableDual := True\<rparr>)))
      else
        (case getIndexValues idxInfo pairs of
           None \<Rightarrow> checkTblIndex_loop pc tblName tbl dbName schema names pairs partitionDef pos
                     globalIndexCheck isTableDual check latestIndexes indices
         | Some (idxValues, idxConstant, colsFieldType) \<Rightarrow>
            (case latestIndexCheck pc tbl idxInfo check latestIndexes of
               Inl u \<Rightarrow> Inr None
             | Inr (latest, check', skip) \<Rightarrow>
                 if skip
                 then checkTblIndex_loop pc tblName tbl dbName schema names pairs partitionDef pos
                        globalIndexCheck isTableDual check' latest indices
                 else indexPointPlan pc dbName schema tbl names pairs partitionDef pos idxInfo
                        idxValues idxConstant colsFieldType)))"

text \<open>\<open>checkTblIndexForPointPlan\<close> (lines 1109-1190).\<close>

definition checkTblIndexForPointPlan ::
  "pctx \<Rightarrow> TableName \<Rightarrow> Column list \<Rightarrow> FieldName list \<Rightarrow> nameValuePair list
     \<Rightarrow> PartitionDefinition option \<Rightarrow> nat \<Rightarrow> bool \<Rightarrow> bool \<Rightarrow> bool \<Rightarrow> error + PointGetPlan option" where
  "checkTblIndexForPointPlan pc tblName schema names pairs partitionDef pos globalIndexCheck
       isTableDual check =
     (if globalIndexCheck \<and> tn_PartitionNames tblName \<noteq> [] then Inr None
      else if globalIndexCheck \<and> tn_TableInfo tblName = None then Inr None
      else
        (case tn_TableInfo tblName of
           None \<Rightarrow> Inl ErrPanic
         | Some tbl \<Rightarrow>
            if globalIndexCheck \<and> tbl_Partition tbl = None then Inl ErrPanic
            else if globalIndexCheck \<and>
                    (case tbl_Partition tbl of
                       None \<Rightarrow> False
                     | Some pi \<Rightarrow> pi_AddingDefinitions pi \<noteq> [] \<or> pi_DroppingDefinitions pi \<noteq> [])
            then Inr None
            else
              (let check1 = (check \<or> pc_IsReadCommitted pc) \<and> pc_ConnectionID pc \<noteq> 0;
                   dbName = (if ci_L (tn_Schema tblName) = [] then pc_CurrentDB pc
                             else ci_L (tn_Schema tblName))
               in checkTblIndex_loop pc tblName tbl dbName schema names pairs partitionDef pos
                    globalIndexCheck isTableDual check1 None (tbl_Indices tbl))))"

text \<open>
  \<open>tryPointGetPlan\<close>, lines 1022-1057: the tests on the statement and on the table, up
  to the schema and the database name. \<open>None\<close> is the return of nil.
\<close>

definition tryPointGetPlan_checks ::
  "pctx \<Rightarrow> SelectStmt \<Rightarrow> (TableName \<times> CIStr \<times> TableInfo \<times> Column list \<times> FieldName list \<times> string) option" where
  "tryPointGetPlan_checks pc selStmt =
     (if ss_Having selStmt \<noteq> None \<or> ss_OrderBy selStmt \<noteq> None then None
      else if (case ss_Limit selStmt of
                 None \<Rightarrow> False
               | Some lim \<Rightarrow>
                  (case pc_extractLimitCountOffset pc lim of
                     Inl err \<Rightarrow> True
                   | Inr (count, offset) \<Rightarrow> count = 0 \<or> offset \<noteq> 0))
      then None
      else
        (case getSingleTableNameAndAlias (ss_From selStmt) of
           None \<Rightarrow> None
         | Some (tblName, tblAlias) \<Rightarrow>
            (case tn_TableInfo tblName of
               None \<Rightarrow> None
             | Some tbl \<Rightarrow>
                if list_ex (\<lambda>col. IsGenerated col \<or> col_State col \<noteq> StatePublic) (tbl_Columns tbl)
                then None
                else
                  (case buildSchemaFromFields pc (tn_Schema tblName) tbl tblAlias (ss_Fields selStmt) of
                     None \<Rightarrow> None
                   | Some (schema, names) \<Rightarrow>
                       Some (tblName, tblAlias, tbl, schema, names,
                             if ci_L (tn_Schema tblName) = [] then pc_CurrentDB pc
                             else ci_L (tn_Schema tblName))))))"

text \<open>
  \<open>tryPointGetPlan\<close>, lines 1087-1106: the handle path, then the unique indices.
\<close>

definition tryPointGetPlan_key ::
  "pctx \<Rightarrow> bool \<Rightarrow> TableName \<Rightarrow> TableInfo \<Rightarrow> Column list \<Rightarrow> FieldName list \<Rightarrow> string
     \<Rightarrow> nameValuePair list \<Rightarrow> bool \<Rightarrow> PartitionDefinition option \<Rightarrow> nat \<Rightarrow> error + PointGetPlan option" where
  "tryPointGetPlan_key pc check tblName tbl schema names dbName pairs isTableDual partitionDef pairIdx =
     (case findPKHandle tbl pairs of
        (handlePair, fieldType) \<Rightarrow>
          if d_k (nv_value handlePair) \<noteq> KindNull \<and> length pairs = 1 \<and>
             indexIsAvailableByHints None (tn_IndexHints tblName)
          then
            (if isTableDual
             then Inr (Some ((newPointGetPlan pc (ci_O (tn_Schema tblName)) schema tbl names)
                               \<lparr>p_IsTableDual := True\<rparr>))
             else Inr (Some ((newPointGetPlan pc dbName schema tbl names)
                               \<lparr>p_Handle := Some (IntHandle (GetInt64 (nv_value handlePair))),
                                p_UnsignedHandle := (case fieldType of
                                                       None \<Rightarrow> False
                                                     | Some ft \<Rightarrow> ft_HasUnsignedFlag ft),
                                p_handleFieldType := fieldType,
                                p_HandleConstant := nv_con handlePair,
                                p_PartitionDef := partitionDef\<rparr>)))
          else if d_k (nv_value handlePair) \<noteq> KindNull then Inr None
          else checkTblIndexForPointPlan pc tblName schema names pairs partitionDef pairIdx False
                 isTableDual check)"

text \<open>
  \<open>tryPointGetPlan\<close>, lines 1065-1106: the partition of the row, where the flag
  \<open>isTableDual\<close> is assigned again from \<open>getPartitionDef\<close>, then the key.
\<close>

definition tryPointGetPlan_resolve ::
  "pctx \<Rightarrow> bool \<Rightarrow> TableName \<Rightarrow> TableInfo \<Rightarrow> Column list \<Rightarrow> FieldName list \<Rightarrow> string
     \<Rightarrow> nameValuePair list \<Rightarrow> bool \<Rightarrow> error + PointGetPlan option" where
  "tryPointGetPlan_resolve pc check tblName tbl schema names dbName pairs isTableDual =
     (case tbl_Partition tbl of
        None \<Rightarrow> tryPointGetPlan_key pc check tblName tbl schema names dbName pairs isTableDual None 0
      | Some pi \<Rightarrow>
         (case getPartitionDef pc tbl pairs of
            Inl err \<Rightarrow> Inl err
          | Inr (partitionDef, pairIdx, pos, isTableDual') \<Rightarrow>
              if isTableDual'
              then Inr (Some ((newPointGetPlan pc (ci_O (tn_Schema tblName)) schema tbl names)
                                \<lparr>p_IsTableDual := True\<rparr>))
              else
                (case partitionDef of
                   None \<Rightarrow> checkTblIndexForPointPlan pc tblName schema names pairs None pairIdx True
                             isTableDual' check
                 | Some def \<Rightarrow>
                     if tn_PartitionNames tblName \<noteq> [] \<and>
                        \<not> partitionNameInSet (pd_Name def) (tn_PartitionNames tblName)
                     then Inr (Some ((newPointGetPlan pc (ci_O (tn_Schema tblName)) schema tbl names)
                                       \<lparr>p_IsTableDual := True\<rparr>))
                     else tryPointGetPlan_key pc check tblName tbl schema names dbName pairs
                            isTableDual' partitionDef pairIdx)))"

text \<open>\<open>tryPointGetPlan\<close> (lines 1021-1107). A nil \<open>WHERE\<close> is not a binary operation.\<close>

definition tryPointGetPlan :: "pctx \<Rightarrow> SelectStmt \<Rightarrow> bool \<Rightarrow> error + PointGetPlan option" where
  "tryPointGetPlan pc selStmt check =
     (case tryPointGetPlan_checks pc selStmt of
        None \<Rightarrow> Inr None
      | Some (tblName, tblAlias, tbl, schema, names, dbName) \<Rightarrow>
         (case (case ss_Where selStmt of
                  None \<Rightarrow> (None, False)
                | Some expr \<Rightarrow> getNameValuePairs pc tbl tblAlias [] expr) of
            (pairs, isTableDual) \<Rightarrow>
              if pairs = None \<and> \<not> isTableDual then Inr None
              else tryPointGetPlan_resolve pc check tblName tbl schema names dbName
                     (case pairs of None \<Rightarrow> [] | Some ps \<Rightarrow> ps) isTableDual))"

subsection \<open>Building the batch plan\<close>

text \<open>\<open>BatchPointGetPlan\<close> (lines 311-351), with the schema and the names that \<open>Init\<close>
  attaches. \<open>None\<close> is a nil slice where the code tests for it.\<close>

record BatchPointGetPlan =
  bp_dbName :: string
  bp_schema :: "Column list"
  bp_names :: "FieldName list"
  bp_TblInfo :: TableInfo
  bp_IndexInfo :: "IndexInfo option"
  bp_PartitionDefs :: "PartitionDefinition list option"
  bp_Handles :: "Handle list"
  bp_HandleType :: "FieldType option"
  bp_HandleParams :: "Constant option list"
  bp_IndexValues :: "Datum list list"
  bp_IndexValueParams :: "Constant option list list"
  bp_IndexColTypes :: "FieldType option list option"
  bp_PartitionColPos :: int
  bp_PartitionExpr :: "PartitionExpr option"
  bp_Lock :: bool
  bp_LockWaitTime :: int64

text \<open>
  Modelled from the spec: \<open>BatchPointGetPlan.Init\<close> is defined outside the excerpt. The
  plan builder "assembles an immutable plan object from resolver output": the
  initialiser attaches the schema and the output names and leaves the resolved keys as
  they were built.
\<close>

definition BatchPointGetPlan_Init ::
  "Column list \<Rightarrow> FieldName list \<Rightarrow> BatchPointGetPlan \<Rightarrow> BatchPointGetPlan" where
  "BatchPointGetPlan_Init schema names p = p\<lparr>bp_schema := schema, bp_names := names\<rparr>"

definition unwrapParentheses :: "ExprNode \<Rightarrow> ExprNode" where
  "unwrapParentheses item = (case item of ParenthesesExpr x \<Rightarrow> x | _ \<Rightarrow> item)"

text \<open>
  The partition of one list element (lines 695-703 and 883-891), recorded in
  \<open>pos2PartitionDefinition\<close>, a map kept as an association list. \<open>Inr None\<close> is the
  return of nil.
\<close>

fun pos2def_update ::
  "nat \<Rightarrow> PartitionDefinition \<Rightarrow> (nat \<times> PartitionDefinition) list \<Rightarrow> (nat \<times> PartitionDefinition) list" where
  "pos2def_update pos def [] = [(pos, def)]"
| "pos2def_update pos def ((k, v) # m) =
     (if k = pos then (k, def) # m else (k, v) # pos2def_update pos def m)"

definition batchPartition ::
  "pctx \<Rightarrow> TableInfo \<Rightarrow> nameValuePair list \<Rightarrow> (nat \<times> PartitionDefinition) list
     \<Rightarrow> error + (nat \<times> PartitionDefinition) list option" where
  "batchPartition pc tbl pairs pos2PartitionDefinition =
     (if tbl_Partition tbl \<noteq> None then
        (case getPartitionDef pc tbl pairs of
           Inl err \<Rightarrow> Inl err
         | Inr (tmpPartitionDefinition, pairIdx, pos, isTableDual) \<Rightarrow>
             if isTableDual then Inr None
             else
               (case tmpPartitionDefinition of
                  Some def \<Rightarrow> Inr (Some (pos2def_update pos def pos2PartitionDefinition))
                | None \<Rightarrow> Inr (Some pos2PartitionDefinition)))
      else Inr (Some pos2PartitionDefinition))"

text \<open>The partition definitions in the order of their positions (lines 706-718 and
  894-906).\<close>

definition sortedPartitionDefs :: "(nat \<times> PartitionDefinition) list \<Rightarrow> PartitionDefinition list option" where
  "sortedPartitionDefs pos2PartitionDefinition =
     (if pos2PartitionDefinition = [] then None
      else Some (map snd (sort_key fst pos2PartitionDefinition)))"

text \<open>
  One element of the IN-list on the handle path (lines 663-694): its handle, its
  parameter and its pair; \<open>None\<close> is the return of nil.
\<close>

definition batchHandleValue ::
  "pctx \<Rightarrow> ColumnInfo \<Rightarrow> ExprNode \<Rightarrow> Datum \<Rightarrow> Constant option
     \<Rightarrow> (Handle \<times> Constant option \<times> nameValuePair list) option" where
  "batchHandleValue pc handleCol item d con =
     (if IsNull d then None
      else
        (case getPointGetValue pc handleCol d of
           (None, d') \<Rightarrow> None
         | (Some intDatum, d') \<Rightarrow>
             Some (IntHandle (GetInt64 intDatum), con,
                   [\<lparr>nv_colName = ci_L (col_Name handleCol), nv_colFieldType = pc_GetType pc item,
                     nv_value = intDatum, nv_con = con\<rparr>])))"

definition batchHandleItem ::
  "pctx \<Rightarrow> ColumnInfo \<Rightarrow> ExprNode \<Rightarrow> (Handle \<times> Constant option \<times> nameValuePair list) option" where
  "batchHandleItem pc handleCol item0 =
     (let item = unwrapParentheses item0 in
      case item of
        ValueExpr d \<Rightarrow> batchHandleValue pc handleCol item d None
      | ParamMarkerExpr d0 ord \<Rightarrow>
          (case pc_ParamMarkerExpression pc d0 ord True of
             Inl err \<Rightarrow> None
           | Inr con \<Rightarrow>
              (case pc_Eval pc con of
                 Inl err \<Rightarrow> None
               | Inr d \<Rightarrow> batchHandleValue pc handleCol item d (Some con)))
      | _ \<Rightarrow> None)"

text \<open>The loop over the IN-list on the handle path (lines 662-704).\<close>

fun batchHandle_loop ::
  "pctx \<Rightarrow> TableInfo \<Rightarrow> ColumnInfo \<Rightarrow> ExprNode list
     \<Rightarrow> Handle list \<times> Constant option list \<times> (nat \<times> PartitionDefinition) list
     \<Rightarrow> error + (Handle list \<times> Constant option list \<times> (nat \<times> PartitionDefinition) list) option" where
  "batchHandle_loop pc tbl handleCol [] acc = Inr (Some acc)"
| "batchHandle_loop pc tbl handleCol (item # items) (handles, handleParams, pos2def) =
     (case batchHandleItem pc handleCol item of
        None \<Rightarrow> Inr None
      | Some (h, con, pairs) \<Rightarrow>
         (case batchPartition pc tbl pairs pos2def of
            Inl err \<Rightarrow> Inl err
          | Inr None \<Rightarrow> Inr None
          | Inr (Some pos2def') \<Rightarrow>
              batchHandle_loop pc tbl handleCol items (handles @ [h], handleParams @ [con], pos2def')))"

text \<open>
  The search of the unique index that covers the columns of the IN expression (lines
  742-770). \<open>permutations\<close> is left, at the index that matches, with the position of
  every column of the expression in the index; what the candidates before wrote into it
  is overwritten.
\<close>

fun columnPos_from :: "nat \<Rightarrow> string \<Rightarrow> IndexColumn list \<Rightarrow> nat option" where
  "columnPos_from i name [] = None"
| "columnPos_from i name (col # cols) =
     (if name = ci_L (ic_Name col) then Some i else columnPos_from (Suc i) name cols)"

fun matchPermutations :: "IndexInfo \<Rightarrow> string list \<Rightarrow> nat list option" where
  "matchPermutations idxInfo [] = Some []"
| "matchPermutations idxInfo (innerCol # innerCols) =
     (case columnPos_from 0 innerCol (idx_Columns idxInfo) of
        None \<Rightarrow> None
      | Some i \<Rightarrow>
         (case matchPermutations idxInfo innerCols of
            None \<Rightarrow> None
          | Some perm \<Rightarrow> Some (i # perm)))"

fun batchMatchIndex :: "IndexInfo list \<Rightarrow> string list \<Rightarrow> IndexHint list \<Rightarrow> (IndexInfo \<times> nat list) option" where
  "batchMatchIndex [] whereColNames indexHints = None"
| "batchMatchIndex (idxInfo # indices) whereColNames indexHints =
     (if \<not> idx_Unique idxInfo \<or> idx_State idxInfo \<noteq> StatePublic \<or> idx_Invisible idxInfo \<or>
         idx_MVIndex idxInfo \<or> \<not> indexIsAvailableByHints (Some idxInfo) indexHints
      then batchMatchIndex indices whereColNames indexHints
      else if length (idx_Columns idxInfo) \<noteq> length whereColNames \<or> HasPrefixIndex idxInfo
      then batchMatchIndex indices whereColNames indexHints
      else
        (case matchPermutations idxInfo whereColNames of
           Some perm \<Rightarrow> Some (idxInfo, perm)
         | None \<Rightarrow> batchMatchIndex indices whereColNames indexHints))"

text \<open>
  \<open>getColumnPosInIndex\<close> (lines 2029-2042) and \<open>getPartitionColumnPos\<close> (lines
  1982-2025). \<open>ErrOther 0\<close> is the error "unsupported partition type in BatchGet";
  \<open>GlobalWithoutColumnPos\<close> is -1.
\<close>

definition getColumnPosInIndex :: "IndexInfo \<Rightarrow> CIStr \<Rightarrow> error + int" where
  "getColumnPosInIndex idx colName =
     (case columnPos_from 0 (ci_L colName) (idx_Columns idx) of
        Some i \<Rightarrow> Inr (int i)
      | None \<Rightarrow> if idx_Global idx then Inr (- 1) else Inl ErrPanic)"

definition getPartitionColumnPos :: "IndexInfo \<Rightarrow> PartitionExpr option \<Rightarrow> TableInfo \<Rightarrow> error + int" where
  "getPartitionColumnPos idx partitionExpr tbl =
     (case partitionExpr of
        None \<Rightarrow> Inr 0
      | Some pe \<Rightarrow>
         (case tbl_Partition tbl of
            None \<Rightarrow> Inr 0
          | Some pi \<Rightarrow>
             (case pi_Type pi of
                PartitionTypeHash \<Rightarrow>
                  (case pe_OrigExpr pe of
                     ColumnNameExpr col \<Rightarrow> getColumnPosInIndex idx (cn_Name col)
                   | _ \<Rightarrow> Inl (ErrOther 0))
              | PartitionTypeKey \<Rightarrow>
                  (case pe_KeyPartCols pe of
                     [kc] \<Rightarrow>
                       (case findColNameByColID (tbl_Columns tbl) kc of
                          None \<Rightarrow> Inl ErrPanic
                        | Some colInfo \<Rightarrow> getColumnPosInIndex idx (col_Name colInfo))
                   | _ \<Rightarrow> Inl (ErrOther 0))
              | PartitionTypeRange \<Rightarrow>
                  (case pe_Expr pe of
                     Some (ExprColumn col) \<Rightarrow>
                       if pi_Columns pi \<noteq> [] then Inl (ErrOther 0)
                       else
                         (case findColNameByColID (tbl_Columns tbl) col of
                            None \<Rightarrow> Inl ErrPanic
                          | Some colInfo \<Rightarrow> getColumnPosInIndex idx (col_Name colInfo))
                   | _ \<Rightarrow> Inl (ErrOther 0))
              | PartitionTypeList \<Rightarrow>
                  (case lp_LocateExpr (pe_ForListPruning pe) of
                     ExprColumn locateExpr \<Rightarrow>
                       if lp_ColPrunes (pe_ForListPruning pe) \<noteq> None then Inl (ErrOther 0)
                       else
                         (case findColNameByColID (tbl_Columns tbl) locateExpr of
                            None \<Rightarrow> Inl ErrPanic
                          | Some colInfo \<Rightarrow> getColumnPosInIndex idx (col_Name colInfo))
                   | _ \<Rightarrow> Inl (ErrOther 0))
              | PartitionTypeNone \<Rightarrow> getColumnPosInIndex idx \<lparr>ci_O = [], ci_L = []\<rparr>)))"

text \<open>
  One value of a row of the IN-list (lines 808-841), at position \<open>index\<close> of the row:
  the arrays \<open>values\<close>, \<open>valuesParams\<close> and \<open>indexTypes\<close> (as it is filled when this row
  initialises it) and the pairs. A column of the expression that the table does not
  have is a nil \<open>colInfos[index]\<close>, and its use panics.
\<close>

definition batchRowValue ::
  "pctx \<Rightarrow> ColumnInfo option list \<Rightarrow> string list \<Rightarrow> nat list \<Rightarrow> nat \<Rightarrow> ExprNode
     \<Rightarrow> Datum list \<times> Constant option list \<times> FieldType option list \<times> nameValuePair list
     \<Rightarrow> error + (Datum list \<times> Constant option list \<times> FieldType option list \<times> nameValuePair list) option" where
  "batchRowValue pc colInfos whereColNames permutations index inner acc =
     (case acc of
        (values, valuesParams, indexTypes, pairs) \<Rightarrow>
         (let permIndex = permutations ! index in
          case inner of
            ValueExpr d \<Rightarrow>
              (case colInfos ! index of
                 None \<Rightarrow> Inl ErrPanic
               | Some col \<Rightarrow>
                  (case getPointGetValue pc col d of
                     (None, d') \<Rightarrow> Inr None
                   | (Some dval, d') \<Rightarrow>
                       Inr (Some (values[permIndex := d'], valuesParams, indexTypes,
                                  pairs @ [\<lparr>nv_colName = whereColNames ! index, nv_colFieldType = None,
                                            nv_value = d', nv_con = None\<rparr>]))))
          | ParamMarkerExpr d0 ord \<Rightarrow>
              (case pc_ParamMarkerExpression pc d0 ord True of
                 Inl err \<Rightarrow> Inr None
               | Inr con \<Rightarrow>
                  (case pc_Eval pc con of
                     Inl err \<Rightarrow> Inr None
                   | Inr d \<Rightarrow>
                      (case colInfos ! index of
                         None \<Rightarrow> Inl ErrPanic
                       | Some col \<Rightarrow>
                          (case getPointGetValue pc col d of
                             (None, d') \<Rightarrow> Inr None
                           | (Some dval, d') \<Rightarrow>
                               Inr (Some (values[permIndex := d0], valuesParams[permIndex := Some con],
                                          indexTypes[permIndex := Some (col_FieldType col)],
                                          pairs @ [\<lparr>nv_colName = whereColNames ! index,
                                                    nv_colFieldType = None, nv_value = d0,
                                                    nv_con = None\<rparr>]))))))
          | _ \<Rightarrow> Inr None))"

fun batchRow_loop ::
  "pctx \<Rightarrow> ColumnInfo option list \<Rightarrow> string list \<Rightarrow> nat list \<Rightarrow> nat \<Rightarrow> ExprNode list
     \<Rightarrow> Datum list \<times> Constant option list \<times> FieldType option list \<times> nameValuePair list
     \<Rightarrow> error + (Datum list \<times> Constant option list \<times> FieldType option list \<times> nameValuePair list) option" where
  "batchRow_loop pc colInfos whereColNames permutations index [] acc = Inr (Some acc)"
| "batchRow_loop pc colInfos whereColNames permutations index (inner # inners) acc =
     (case batchRowValue pc colInfos whereColNames permutations index inner acc of
        Inl err \<Rightarrow> Inl err
      | Inr None \<Rightarrow> Inr None
      | Inr (Some acc') \<Rightarrow>
          batchRow_loop pc colInfos whereColNames permutations (Suc index) inners acc')"

text \<open>
  One element of the IN-list on the index path (lines 786-880): its values, their
  parameters, its pairs, and the \<open>indexTypes\<close> it sets when \<open>indexTypes\<close> is still nil
  (\<open>None\<close> when it leaves \<open>indexTypes\<close> alone).
\<close>

definition batchIndexItem ::
  "pctx \<Rightarrow> ColumnInfo option list \<Rightarrow> string list \<Rightarrow> nat list \<Rightarrow> ExprNode
     \<Rightarrow> error + (Datum list \<times> Constant option list \<times> nameValuePair list \<times> FieldType option list option) option" where
  "batchIndexItem pc colInfos whereColNames permutations item0 =
     (case unwrapParentheses item0 of
        RowExpr xValues \<Rightarrow>
          if length xValues \<noteq> length whereColNames then Inr None
          else
            (case batchRow_loop pc colInfos whereColNames permutations 0 xValues
                    (replicate (length xValues) zeroDatum, replicate (length xValues) None,
                     replicate (length xValues) None, []) of
               Inl err \<Rightarrow> Inl err
             | Inr None \<Rightarrow> Inr None
             | Inr (Some (values, valuesParams, indexTypes, pairs)) \<Rightarrow>
                 Inr (Some (values, valuesParams, pairs, Some indexTypes)))
      | ValueExpr d \<Rightarrow>
          if length whereColNames \<noteq> 1 then Inr None
          else
            (case colInfos ! 0 of
               None \<Rightarrow> Inl ErrPanic
             | Some col \<Rightarrow>
                (case getPointGetValue pc col d of
                   (None, d') \<Rightarrow> Inr None
                 | (Some dval, d') \<Rightarrow>
                     Inr (Some ([dval], [None],
                                [\<lparr>nv_colName = whereColNames ! 0, nv_colFieldType = None,
                                  nv_value = dval, nv_con = None\<rparr>], None))))
      | ParamMarkerExpr d0 ord \<Rightarrow>
          if length whereColNames \<noteq> 1 then Inr None
          else
            (case pc_ParamMarkerExpression pc d0 ord True of
               Inl err \<Rightarrow> Inr None
             | Inr con \<Rightarrow>
                (case pc_Eval pc con of
                   Inl err \<Rightarrow> Inr None
                 | Inr d \<Rightarrow>
                    (case colInfos ! 0 of
                       None \<Rightarrow> Inl ErrPanic
                     | Some col \<Rightarrow>
                        (case getPointGetValue pc col d of
                           (None, d') \<Rightarrow> Inr None
                         | (Some dval, d') \<Rightarrow>
                             Inr (Some ([dval], [Some con],
                                        [\<lparr>nv_colName = whereColNames ! 0, nv_colFieldType = None,
                                          nv_value = dval, nv_con = None\<rparr>],
                                        Some [Some (col_FieldType col)]))))))
      | _ \<Rightarrow> Inr None)"

text \<open>The loop over the IN-list on the index path (lines 786-892).\<close>

fun batchIndex_loop ::
  "pctx \<Rightarrow> TableInfo \<Rightarrow> ColumnInfo option list \<Rightarrow> string list \<Rightarrow> nat list \<Rightarrow> ExprNode list
     \<Rightarrow> Datum list list \<times> Constant option list list \<times> FieldType option list option
         \<times> (nat \<times> PartitionDefinition) list
     \<Rightarrow> error + (Datum list list \<times> Constant option list list \<times> FieldType option list option
                  \<times> (nat \<times> PartitionDefinition) list) option" where
  "batchIndex_loop pc tbl colInfos whereColNames permutations [] acc = Inr (Some acc)"
| "batchIndex_loop pc tbl colInfos whereColNames permutations (item # items)
       (indexValues, indexValueParams, indexTypes, pos2def) =
     (case batchIndexItem pc colInfos whereColNames permutations item of
        Inl err \<Rightarrow> Inl err
      | Inr None \<Rightarrow> Inr None
      | Inr (Some (values, valuesParams, pairs, itemTypes)) \<Rightarrow>
         (case batchPartition pc tbl pairs pos2def of
            Inl err \<Rightarrow> Inl err
          | Inr None \<Rightarrow> Inr None
          | Inr (Some pos2def') \<Rightarrow>
              batchIndex_loop pc tbl colInfos whereColNames permutations items
                (indexValues @ [values], indexValueParams @ [valuesParams],
                 (case indexTypes of None \<Rightarrow> itemTypes | Some ts \<Rightarrow> Some ts), pos2def')))"

text \<open>\<open>newBatchPointGetPlan\<close> (lines 634-919); \<open>patternInExprList\<close> is
  \<open>patternInExpr.List\<close>.\<close>

definition newBatchPointGetPlan ::
  "pctx \<Rightarrow> ExprNode list \<Rightarrow> ColumnInfo option \<Rightarrow> TableInfo \<Rightarrow> Column list \<Rightarrow> FieldName list
     \<Rightarrow> string list \<Rightarrow> IndexHint list \<Rightarrow> error + BatchPointGetPlan option" where
  "newBatchPointGetPlan pc patternInExprList handleCol tbl schema names whereColNames indexHints =
     (let partitionExpr = (if tbl_Partition tbl \<noteq> None then pc_getPartitionExpr pc tbl else None) in
      if tbl_Partition tbl \<noteq> None \<and>
         (case partitionExpr of
            None \<Rightarrow> True
          | Some pe \<Rightarrow> (case pe_Expr pe of Some (ExprColumn c) \<Rightarrow> False | _ \<Rightarrow> True))
      then Inr None
      else
        (case handleCol of
           Some hc \<Rightarrow>
             (case batchHandle_loop pc tbl hc patternInExprList ([], [], []) of
                Inl err \<Rightarrow> Inl err
              | Inr None \<Rightarrow> Inr None
              | Inr (Some (handles, handleParams, pos2def)) \<Rightarrow>
                  Inr (Some (BatchPointGetPlan_Init schema names
                    \<lparr>bp_dbName = [], bp_schema = [], bp_names = [], bp_TblInfo = tbl,
                     bp_IndexInfo = None, bp_PartitionDefs = sortedPartitionDefs pos2def,
                     bp_Handles = handles, bp_HandleType = Some (col_FieldType hc),
                     bp_HandleParams = handleParams, bp_IndexValues = [], bp_IndexValueParams = [],
                     bp_IndexColTypes = None, bp_PartitionColPos = 0,
                     bp_PartitionExpr = partitionExpr, bp_Lock = False, bp_LockWaitTime = 0\<rparr>)))
         | None \<Rightarrow>
             (case batchMatchIndex (tbl_Indices tbl) whereColNames indexHints of
                None \<Rightarrow> Inr None
              | Some (matchIdxInfo, permutations) \<Rightarrow>
                 (case getPartitionColumnPos matchIdxInfo partitionExpr tbl of
                    Inl err \<Rightarrow> if err = ErrPanic then Inl ErrPanic else Inr None
                  | Inr pos \<Rightarrow>
                     (case batchIndex_loop pc tbl
                             (map (\<lambda>innerCol. find (\<lambda>col. ci_L (col_Name col) = innerCol)
                                                  (rev (tbl_Columns tbl))) whereColNames)
                             whereColNames permutations patternInExprList ([], [], None, []) of
                        Inl err \<Rightarrow> Inl err
                      | Inr None \<Rightarrow> Inr None
                      | Inr (Some (indexValues, indexValueParams, indexTypes, pos2def)) \<Rightarrow>
                          Inr (Some (BatchPointGetPlan_Init schema names
                            \<lparr>bp_dbName = [], bp_schema = [], bp_names = [], bp_TblInfo = tbl,
                             bp_IndexInfo = Some matchIdxInfo,
                             bp_PartitionDefs = sortedPartitionDefs pos2def,
                             bp_Handles = [], bp_HandleType = None, bp_HandleParams = [],
                             bp_IndexValues = indexValues, bp_IndexValueParams = indexValueParams,
                             bp_IndexColTypes = indexTypes, bp_PartitionColPos = pos,
                             bp_PartitionExpr = partitionExpr, bp_Lock = False,
                             bp_LockWaitTime = 0\<rparr>)))))))"

text \<open>
  The columns of the IN expression in \<open>tryWhereIn2BatchPointGet\<close> (lines 964-1001): the
  handle column, if the expression is the integer primary key, and the names. \<open>None\<close>
  is the return of nil.
\<close>

definition whereInColumns ::
  "TableInfo \<Rightarrow> CIStr \<Rightarrow> ExprNode \<Rightarrow> (ColumnInfo option \<times> string list) option" where
  "whereInColumns tbl tblAlias colExpr0 =
     (case unwrapParentheses colExpr0 of
        ColumnNameExpr colName \<Rightarrow>
          if ci_L (cn_Table colName) \<noteq> [] \<and> ci_L (cn_Table colName) \<noteq> ci_L tblAlias then None
          else
            (case (if tbl_PKIsHandle tbl
                   then find (\<lambda>col. ft_HasPriKeyFlag (col_FieldType col) \<and>
                                     ci_L (col_Name col) = ci_L (cn_Name colName)) (tbl_Columns tbl)
                   else None) of
               Some col \<Rightarrow> Some (Some col, [ci_L (col_Name col)])
             | None \<Rightarrow> Some (None, [ci_L (cn_Name colName)]))
      | RowExpr cols \<Rightarrow>
          if list_all (\<lambda>col. case col of
                                ColumnNameExpr c \<Rightarrow>
                                  \<not> (ci_L (cn_Table c) \<noteq> [] \<and> ci_L (cn_Table c) \<noteq> ci_L tblAlias)
                              | _ \<Rightarrow> False) cols
          then Some (None, map (\<lambda>col. case col of ColumnNameExpr c \<Rightarrow> ci_L (cn_Name c) | _ \<Rightarrow> []) cols)
          else None
      | _ \<Rightarrow> None)"

text \<open>\<open>tryWhereIn2BatchPointGet\<close> (lines 921-1012).\<close>

definition tryWhereIn2BatchPointGet :: "pctx \<Rightarrow> SelectStmt \<Rightarrow> error + BatchPointGetPlan option" where
  "tryWhereIn2BatchPointGet pc selStmt =
     (if ss_OrderBy selStmt \<noteq> None \<or> ss_GroupBy selStmt \<noteq> None \<or> ss_Limit selStmt \<noteq> None \<or>
         ss_Having selStmt \<noteq> None \<or> ss_Distinct selStmt \<or> ss_WindowSpecs selStmt \<noteq> []
      then Inr None
      else
        (case ss_Where selStmt of
           Some (PatternInExpr inExpr inList inNot) \<Rightarrow>
             if inNot \<or> length inList < 1 then Inr None
             else
               (case getSingleTableNameAndAlias (ss_From selStmt) of
                  None \<Rightarrow> Inr None
                | Some (tblName, tblAlias) \<Rightarrow>
                   (case tn_TableInfo tblName of
                      None \<Rightarrow> Inr None
                    | Some tbl \<Rightarrow>
                       if tn_PartitionNames tblName \<noteq> [] then Inr None
                       else if list_ex (\<lambda>col. IsGenerated col \<or> col_State col \<noteq> StatePublic) (tbl_Columns tbl)
                       then Inr None
                       else
                         (case buildSchemaFromFields pc (tn_Schema tblName) tbl tblAlias (ss_Fields selStmt) of
                            None \<Rightarrow> Inr None
                          | Some (schema, names) \<Rightarrow>
                             (case whereInColumns tbl tblAlias inExpr of
                                None \<Rightarrow> Inr None
                              | Some (handleCol, whereColNames) \<Rightarrow>
                                 (case newBatchPointGetPlan pc inList handleCol tbl schema names
                                         whereColNames (tn_IndexHints tblName) of
                                    Inl err \<Rightarrow> Inl err
                                  | Inr None \<Rightarrow> Inr None
                                  | Inr (Some p) \<Rightarrow>
                                      Inr (Some (p\<lparr>bp_dbName :=
                                                    (if ci_L (tn_Schema tblName) = [] then pc_CurrentDB pc
                                                     else ci_L (tn_Schema tblName))\<rparr>)))))))
         | _ \<Rightarrow> Inr None))"

subsection \<open>The conditions that the properties speak of\<close>

text \<open>A LIMIT clause whose count is 0 or whose offset is not 0.\<close>

definition limit_zero_or_offset :: "pctx \<Rightarrow> SelectStmt \<Rightarrow> bool" where
  "limit_zero_or_offset pc selStmt =
     (case ss_Limit selStmt of
        None \<Rightarrow> False
      | Some lim \<Rightarrow>
         (case pc_extractLimitCountOffset pc lim of
            Inl err \<Rightarrow> False
          | Inr (count, offset) \<Rightarrow> count = 0 \<or> offset \<noteq> 0))"


text \<open>
  The value of \<open>check\<close> with which the loop of \<open>checkTblIndexForPointPlan\<close> starts (lines
  1127-1128), whether the lookup of the latest schema fails when it is made, and
  whether the latest schema makes the loop pass over an index.
\<close>

definition latestSchemaChecked :: "pctx \<Rightarrow> bool \<Rightarrow> bool" where
  "latestSchemaChecked pc check = ((check \<or> pc_IsReadCommitted pc) \<and> pc_ConnectionID pc \<noteq> 0)"

definition latestSchemaFails :: "pctx \<Rightarrow> TableInfo \<Rightarrow> bool \<Rightarrow> bool" where
  "latestSchemaFails pc tbl check =
     (latestSchemaChecked pc check \<and> isl (pc_getLatestIndexInfo pc (tbl_ID tbl)))"

definition latestSchemaSkips :: "pctx \<Rightarrow> TableInfo \<Rightarrow> bool \<Rightarrow> IndexInfo \<Rightarrow> bool" where
  "latestSchemaSkips pc tbl check idxInfo =
     (latestSchemaChecked pc check \<and>
      (case pc_getLatestIndexInfo pc (tbl_ID tbl) of
         Inl err \<Rightarrow> False
       | Inr (latest, check') \<Rightarrow>
           check' \<and> (case (case latest of None \<Rightarrow> None | Some m \<Rightarrow> m (idx_ID idxInfo)) of
                       None \<Rightarrow> True
                     | Some latestIndex \<Rightarrow> idx_State latestIndex \<noteq> StatePublic)))"

text \<open>
  The tests that an index passes in the loop before its plan is built, with
  \<open>isTableDual\<close> false.
\<close>

definition index_accepted ::
  "pctx \<Rightarrow> TableName \<Rightarrow> TableInfo \<Rightarrow> nameValuePair list \<Rightarrow> bool \<Rightarrow> bool \<Rightarrow> IndexInfo \<Rightarrow> bool" where
  "index_accepted pc tblName tbl pairs globalIndexCheck check idxInfo =
     (idx_Unique idxInfo \<and> idx_State idxInfo = StatePublic \<and> \<not> idx_Invisible idxInfo \<and>
      \<not> idx_MVIndex idxInfo \<and> indexIsAvailableByHints (Some idxInfo) (tn_IndexHints tblName) \<and>
      (globalIndexCheck \<longrightarrow> idx_Global idxInfo) \<and>
      getIndexValues idxInfo pairs \<noteq> None \<and>
      \<not> latestSchemaSkips pc tbl check idxInfo)"

text \<open>
  The conditions on an index as the specification lists them: unique, public, visible,
  not multi-valued, without a prefix column, not filtered out by the hints, and with
  the column set of the pairs, in size and in identity.
\<close>

definition index_qualifies :: "IndexHint list \<Rightarrow> nameValuePair list \<Rightarrow> IndexInfo \<Rightarrow> bool" where
  "index_qualifies hints pairs idxInfo =
     (idx_Unique idxInfo \<and> idx_State idxInfo = StatePublic \<and> \<not> idx_Invisible idxInfo \<and>
      \<not> idx_MVIndex idxInfo \<and> \<not> HasPrefixIndex idxInfo \<and>
      indexIsAvailableByHints (Some idxInfo) hints \<and>
      length (idx_Columns idxInfo) = length pairs \<and>
      set (map (\<lambda>c. ci_L (ic_Name c)) (idx_Columns idxInfo)) = set (map nv_colName pairs))"

text \<open>
  The tests that an index passes in the loop when \<open>isTableDual\<close> is set and
  \<open>globalIndexCheck\<close> is not: the columns of the index are not compared with the pairs.
\<close>

definition dual_accepted :: "pctx \<Rightarrow> TableName \<Rightarrow> TableInfo \<Rightarrow> bool \<Rightarrow> IndexInfo \<Rightarrow> bool" where
  "dual_accepted pc tblName tbl check idxInfo =
     (idx_Unique idxInfo \<and> idx_State idxInfo = StatePublic \<and> \<not> idx_Invisible idxInfo \<and>
      \<not> idx_MVIndex idxInfo \<and> indexIsAvailableByHints (Some idxInfo) (tn_IndexHints tblName) \<and>
      \<not> latestSchemaSkips pc tbl check idxInfo)"

text \<open>The plan for a statement that provably selects no row (lines 1068-1070, 1090-1092
  and 1158-1160).\<close>

definition tableDualPlan :: "pctx \<Rightarrow> TableName \<Rightarrow> Column list \<Rightarrow> TableInfo \<Rightarrow> FieldName list \<Rightarrow> PointGetPlan" where
  "tableDualPlan pc tblName schema tbl names =
     (newPointGetPlan pc (ci_O (tn_Schema tblName)) schema tbl names)\<lparr>p_IsTableDual := True\<rparr>"

text \<open>
  An equality \<open>col = d\<close> that \<open>getNameValuePairs\<close> takes up to the conversion of the
  constant, and whose constant overflows the declared type of the column.
\<close>

definition convertible :: "pctx \<Rightarrow> TableInfo \<Rightarrow> CIStr \<Rightarrow> ColumnName \<Rightarrow> ColumnInfo \<Rightarrow> Datum \<Rightarrow> bool" where
  "convertible pc tbl tblName cn col d =
     (\<not> IsNull d \<and> \<not> tbl_IsView tbl \<and>
      (ci_L (cn_Table cn) = [] \<or> ci_L (cn_Table cn) = ci_L tblName) \<and>
      FindColumnInfo (pc_Cols pc tbl) (ci_L (cn_Name cn)) = Some col \<and>
      \<not> (ft_tp (col_FieldType col) = TypeString \<and> ft_collate (col_FieldType col) = ''binary'') \<and>
      checkCanConvertInPointGet col (setColumnCollation col d))"

definition overflows :: "pctx \<Rightarrow> ColumnInfo \<Rightarrow> Datum \<Rightarrow> bool" where
  "overflows pc col d =
     (snd (pc_ConvertTo pc (setColumnCollation col d) (col_FieldType col)) = Some ErrOverflow)"

text \<open>
  The columns for which \<open>EncodeUniqueIndexValuesForKey\<close> casts the value (the last
  branch of its loop), and the errors of the cast that it turns into \<open>kv.ErrNotExist\<close>.
\<close>

definition cast_applies :: "ColumnInfo \<Rightarrow> Datum \<Rightarrow> bool" where
  "cast_applies colInfo d =
     (ft_tp (col_FieldType colInfo) \<noteq> TypeString \<and> ft_tp (col_FieldType colInfo) \<noteq> TypeVarString \<and>
      ft_tp (col_FieldType colInfo) \<noteq> TypeVarchar \<and>
      \<not> (ft_tp (col_FieldType colInfo) = TypeEnum \<and>
         (d_k d = KindString \<or> d_k d = KindBytes \<or> d_k d = KindBinaryLiteral)))"

definition cast_rejects :: "error option \<Rightarrow> bool" where
  "cast_rejects err =
     (err = Some ErrOverflow \<or> err = Some ErrDataTooLong \<or> err = Some ErrTruncated \<or>
      err = Some ErrTruncatedWrongVal)"

text \<open>The pair that \<open>getNameValuePairs\<close> appends for an equality whose constant
  overflows (lines 1488-1491): it keeps the constant as it was written.\<close>

definition overflowPair :: "ColumnName \<Rightarrow> ColumnInfo \<Rightarrow> Datum \<Rightarrow> nameValuePair" where
  "overflowPair cn col d =
     \<lparr>nv_colName = ci_L (cn_Name cn), nv_colFieldType = Some (col_FieldType col),
      nv_value = setColumnCollation col d, nv_con = None\<rparr>"

text \<open>The column of position \<open>i\<close> of an index (line 541), and whether the two indexings
  are in range.\<close>

definition idxColumn :: "TableInfo \<Rightarrow> IndexInfo \<Rightarrow> nat \<Rightarrow> ColumnInfo" where
  "idxColumn tbl idx i = tbl_Columns tbl ! ic_Offset (idx_Columns idx ! i)"

definition idxColumn_ok :: "TableInfo \<Rightarrow> IndexInfo \<Rightarrow> nat \<Rightarrow> bool" where
  "idxColumn_ok tbl idx i =
     (i < length (idx_Columns idx) \<and> ic_Offset (idx_Columns idx ! i) < length (tbl_Columns tbl))"


text \<open>
  The two sides of an equality as \<open>getNameValuePairs\<close> reads them (lines 1430-1457): the
  column name, on the left or else on the right, and the other side. An equality
  overflows when its other side has a value that \<open>getNameValuePairs\<close> takes up to the
  conversion and that overflows the declared type of the column.
\<close>

definition eqOperands :: "ExprNode \<Rightarrow> ExprNode \<Rightarrow> (ColumnName \<times> ExprNode) option" where
  "eqOperands l r =
     (case l of
        ColumnNameExpr cn \<Rightarrow> Some (cn, r)
      | _ \<Rightarrow> (case r of ColumnNameExpr cn \<Rightarrow> Some (cn, l) | _ \<Rightarrow> None))"

definition overflowing_eq :: "pctx \<Rightarrow> TableInfo \<Rightarrow> CIStr \<Rightarrow> ExprNode \<Rightarrow> ExprNode \<Rightarrow> bool" where
  "overflowing_eq pc tbl tblName l r =
     (case eqOperands l r of
        None \<Rightarrow> False
      | Some (cn, other) \<Rightarrow>
         (case constValue pc False other of
            Inl err \<Rightarrow> False
          | Inr (d, con) \<Rightarrow>
             (case FindColumnInfo (pc_Cols pc tbl) (ci_L (cn_Name cn)) of
                None \<Rightarrow> False
              | Some col \<Rightarrow> convertible pc tbl tblName cn col d \<and> overflows pc col d)))"

text \<open>The pairs that \<open>tryPointGetPlan\<close> resolves (line 1059): none for the nil slice.\<close>

definition pairsOf :: "nameValuePair list option \<times> bool \<Rightarrow> nameValuePair list" where
  "pairsOf r = (case fst r of None \<Rightarrow> [] | Some ps \<Rightarrow> ps)"


section \<open>A sample table and session\<close>

text \<open>
  The table \<open>t(a int primary key, b int, unique key ib(b))\<close> of the scenarios, and a
  session under repeatable read whose snapshot holds the index entry \<open>b = 7\<close>, pointing
  to handle 9, but no row for handle 9. Index keys start with the byte 105, row keys
  with 114.
\<close>

definition ex_ci :: "string \<Rightarrow> CIStr" where
  "ex_ci s = \<lparr>ci_O = s, ci_L = s\<rparr>"

definition ex_int :: "bool \<Rightarrow> FieldType" where
  "ex_int pk = \<lparr>ft_tp = TypeLong, ft_HasPriKeyFlag = pk, ft_HasUnsignedFlag = False,
                ft_collate = ''binary'', ft_elems = [], ft_evalType = ETInt\<rparr>"

definition ex_col :: "int64 \<Rightarrow> string \<Rightarrow> nat \<Rightarrow> bool \<Rightarrow> ColumnInfo" where
  "ex_col i n off pk = \<lparr>col_ID = i, col_Name = ex_ci n, col_Offset = int off, col_FieldType = ex_int pk,
                        col_State = StatePublic, col_GeneratedExprString = []\<rparr>"

definition ex_idx :: "int64 \<Rightarrow> string \<Rightarrow> (string \<times> nat) list \<Rightarrow> IndexInfo" where
  "ex_idx i n cols =
     \<lparr>idx_ID = i, idx_Name = ex_ci n,
      idx_Columns = map (\<lambda>(c, off). \<lparr>ic_Name = ex_ci c, ic_Offset = off, ic_Length = - 1\<rparr>) cols,
      idx_State = StatePublic, idx_Unique = True, idx_Primary = False, idx_Invisible = False,
      idx_Global = False, idx_MVIndex = False\<rparr>"

definition ex_ib :: IndexInfo where
  "ex_ib = ex_idx 1 ''ib'' [(''b'', 1)]"

definition ex_tbl :: TableInfo where
  "ex_tbl = \<lparr>tbl_ID = 1, tbl_Name = ex_ci ''t'',
             tbl_Columns = [ex_col 1 ''a'' 0 True, ex_col 2 ''b'' 1 False],
             tbl_Indices = [ex_ib], tbl_PKIsHandle = True, tbl_IsCommonHandle = False,
             tbl_IsView = False, tbl_TempTableType = TempTableNone, tbl_Lock = None,
             tbl_Partition = None\<rparr>"

definition ex_datum :: "int64 \<Rightarrow> Datum" where
  "ex_datum v = \<lparr>d_k = KindInt64, d_i = v, d_b = [], d_collation = []\<rparr>"

definition ex_sc :: sctx where
  "ex_sc = \<lparr>sc_IsPessimisticReadConsistency = False, sc_WeakConsistency = False,
            sc_EnablePointGetCache = False, sc_txnValid = True, sc_txnIsReadOnly = False,
            sc_IsErrNotFound = (\<lambda>err. err = ErrNotExist),
            sc_memBufferGet = (\<lambda>tr k. Inl ErrNotExist),
            sc_snapshotGet = (\<lambda>tr k. if k = [105, 7] then Inr [9] else Inl ErrNotExist),
            sc_unionGet = (\<lambda>tr t k. Inl ErrNotExist),
            sc_newLockCtx = (\<lambda>tr w. None),
            sc_doLockKeys = (\<lambda>tr w b k. Inr []),
            sc_isCommonHandleRead = (\<lambda>t i. tbl_IsCommonHandle t \<and> idx_Primary i),
            sc_ToString = (\<lambda>d. Inr (d_b d)),
            sc_ParseEnumName = (\<lambda>elems s c. Inl (ErrOther 0)),
            sc_CastValue = (\<lambda>d c. (d, None)),
            sc_EncodeKey = (\<lambda>ds. (map (\<lambda>d. ucast (d_i d)) ds, None)),
            sc_HandleError = (\<lambda>err. err),
            sc_NewCommonHandle = (\<lambda>b. Inr (CommonHandle b)),
            sc_EncodeIndexSeekKey = (\<lambda>t i b. 105 # b),
            sc_DecodeHandleInUniqueIndexValue =
              (\<lambda>b c. case b of [x] \<Rightarrow> Inr (IntHandle (ucast x)) | _ \<Rightarrow> Inl (ErrOther 1)),
            sc_DecodePartitionID = (\<lambda>b. Inl (ErrOther 2)),
            sc_EncodeRowKeyWithHandle =
              (\<lambda>t h. case h of IntHandle i \<Rightarrow> [114, ucast i] | CommonHandle b \<Rightarrow> 114 # b),
            sc_ReportLookupInconsistent = (\<lambda>tr h k ik. Some (ErrOther 8141)),
            sc_IsNewFormat = (\<lambda>b. True),
            sc_DecodeToChunk = (\<lambda>b h. Inr []),
            sc_decodeOldRowValToChunk = (\<lambda>t h b. Inr []),
            sc_FillVirtualColumnValue = (\<lambda>r. Inr r)\<rparr>"

definition ex_plan :: PointGetPlan where
  "ex_plan = \<lparr>p_dbName = ''test'', p_schema = [], p_TblInfo = ex_tbl, p_IndexInfo = Some ex_ib,
              p_PartitionDef = None, p_Handle = None, p_HandleConstant = None,
              p_handleFieldType = None, p_IndexValues = [ex_datum 7], p_IndexConstants = [None],
              p_ColsFieldType = [Some (ex_int False)], p_UnsignedHandle = False,
              p_IsTableDual = False, p_Lock = True, p_outputNames = [], p_LockWaitTime = 0,
              p_partitionColumnPos = 0, p_Columns = []\<rparr>"

definition ex_exec :: PointGetExecutor where
  "ex_exec = \<lparr>pg_tblInfo = ex_tbl, pg_handle = None, pg_idxInfo = Some ex_ib,
              pg_partitionDef = None, pg_idxKey = [], pg_handleVal = [],
              pg_idxVals = [ex_datum 7], pg_done = False, pg_lock = True, pg_lockWaitTime = 0,
              pg_columns = [], pg_lockCache = Map.empty, pg_trace = []\<rparr>"

text \<open>The same executor after the index stage found the entry.\<close>

definition ex_exec_row :: PointGetExecutor where
  "ex_exec_row = ex_exec\<lparr>pg_handle := Some (IntHandle 9), pg_idxKey := [105, 7], pg_handleVal := [9]\<rparr>"

text \<open>
  A planning context for the sample table: a tinyint column takes the values up to 127
  and an int column those up to 2147483647 (the sample constants are not negative), a
  comparison orders the integer payloads, the public columns are listed in the order of
  the table (the sample columns have their positions as offsets), the table is
  hash-partitioned on \<open>a\<close> when it has a partition, and the latest schema is not consulted.
\<close>

definition ex_pe :: PartitionExpr where
  "ex_pe = \<lparr>pe_Expr = Some (ExprColumn (colInfoToColumn (ex_col 1 ''a'' 0 True) 0)),
            pe_OrigExpr = ColumnNameExpr \<lparr>cn_Table = ex_ci [], cn_Name = ex_ci ''a''\<rparr>,
            pe_KeyPartCols = [],
            pe_LocateKeyPartition = (\<lambda>n ds. Inl (ErrOther 4)),
            pe_ForRangePruning = \<lparr>rp_LessThan = [], rp_Compare = (\<lambda>i v u. 0)\<rparr>,
            pe_ForListPruning = \<lparr>lp_ColPrunes = None, lp_LocateExpr = ExprOther 0,
                                 lp_LocatePartition = (\<lambda>v n. - 1)\<rparr>\<rparr>"

definition ex_pc :: pctx where
  "ex_pc = \<lparr>pc_CurrentDB = ''test'', pc_LockWaitTimeout = 50000, pc_IsReadCommitted = False,
            pc_ConnectionID = 1,
            pc_extractLimitCountOffset =
              (\<lambda>lim. Inr ((case lim_Count lim of Some (ValueExpr d) \<Rightarrow> d_i d | _ \<Rightarrow> 0),
                          (case lim_Offset lim of Some (ValueExpr d) \<Rightarrow> d_i d | _ \<Rightarrow> 0))),
            pc_ParamMarkerExpression = (\<lambda>d ord needParam. Inr ord),
            pc_Eval = (\<lambda>con. Inl (ErrOther 3)),
            pc_ConvertTo =
              (\<lambda>d ft. if ft_tp ft = TypeTiny \<and> 127 < d_i d then (d, Some ErrOverflow)
                       else if ft_tp ft = TypeLong \<and> 2147483647 < d_i d then (d, Some ErrOverflow)
                       else (d, None)),
            pc_Compare = (\<lambda>a b c. Inr (if d_i a < d_i b then - 1 else if d_i a = d_i b then 0 else 1)),
            pc_Cols = (\<lambda>tbl. filter (\<lambda>c. col_State c = StatePublic) (tbl_Columns tbl)),
            pc_getPartitionExpr = (\<lambda>tbl. case tbl_Partition tbl of None \<Rightarrow> None | Some pi \<Rightarrow> Some ex_pe),
            pc_getLatestIndexInfo = (\<lambda>tid. Inr (None, False)),
            pc_GetType = (\<lambda>x. None),
            pc_checksumRetType = ex_int False,
            pc_ExtraRowChecksumID = - 4,
            pc_NewExtraHandleColInfo = ex_col (- 1) ''_tidb_rowid'' 0 True\<rparr>"

definition ex_from :: "TableInfo \<Rightarrow> IndexHint list \<Rightarrow> CIStr list \<Rightarrow> TableRefsClause option" where
  "ex_from tbl hints pnames =
     Some \<lparr>trc_TableRefs = Some
       \<lparr>j_Left = TableSource (SrcTableName \<lparr>tn_Schema = ex_ci [], tn_Name = ex_ci ''t'',
                                            tn_TableInfo = Some tbl, tn_IndexHints = hints,
                                            tn_PartitionNames = pnames\<rparr>) (ex_ci []),
        j_Right = None\<rparr>\<rparr>"

definition ex_eq :: "string \<Rightarrow> int64 \<Rightarrow> ExprNode" where
  "ex_eq c v = BinaryOperationExpr EQ (ColumnNameExpr \<lparr>cn_Table = ex_ci [], cn_Name = ex_ci c\<rparr>)
                 (ValueExpr (ex_datum v))"

text \<open>\<open>SELECT * FROM t [hints] [PARTITION (pnames)] WHERE w\<close>.\<close>

definition ex_select :: "TableInfo \<Rightarrow> IndexHint list \<Rightarrow> CIStr list \<Rightarrow> ExprNode \<Rightarrow> SelectStmt" where
  "ex_select tbl hints pnames w =
     \<lparr>ss_Distinct = False, ss_From = ex_from tbl hints pnames, ss_Where = Some w,
      ss_Fields = [\<lparr>sf_WildCard = Some \<lparr>wc_Table = ex_ci []\<rparr>, sf_Expr = None, sf_AsName = ex_ci []\<rparr>],
      ss_GroupBy = None, ss_Having = None, ss_WindowSpecs = [], ss_OrderBy = None, ss_Limit = None\<rparr>"

text \<open>The sample table with a tinyint primary key, and hash-partitioned into four.\<close>

definition ex_tbl_tiny :: TableInfo where
  "ex_tbl_tiny = ex_tbl\<lparr>tbl_Columns :=
      [(ex_col 1 ''a'' 0 True)\<lparr>col_FieldType := (ex_int True)\<lparr>ft_tp := TypeTiny\<rparr>\<rparr>,
       ex_col 2 ''b'' 1 False]\<rparr>"

definition ex_part :: "TableInfo \<Rightarrow> TableInfo" where
  "ex_part tbl = tbl\<lparr>tbl_Partition := Some
      \<lparr>pi_Type = PartitionTypeHash, pi_Num = 4, pi_Columns = [],
       pi_Definitions = [\<lparr>pd_ID = 10, pd_Name = ex_ci ''p0''\<rparr>, \<lparr>pd_ID = 11, pd_Name = ex_ci ''p1''\<rparr>,
                         \<lparr>pd_ID = 12, pd_Name = ex_ci ''p2''\<rparr>, \<lparr>pd_ID = 13, pd_Name = ex_ci ''p3''\<rparr>],
       pi_AddingDefinitions = [], pi_DroppingDefinitions = []\<rparr>\<rparr>"

text \<open>A pair on an int column, the table name of a statement, and an IN-list of integers.\<close>

definition ex_pair :: "string \<Rightarrow> int64 \<Rightarrow> nameValuePair" where
  "ex_pair c v = \<lparr>nv_colName = c, nv_colFieldType = Some (ex_int False), nv_value = ex_datum v,
                  nv_con = None\<rparr>"

definition ex_tn :: "TableInfo \<Rightarrow> IndexHint list \<Rightarrow> CIStr list \<Rightarrow> TableName" where
  "ex_tn tbl hints pnames = \<lparr>tn_Schema = ex_ci [], tn_Name = ex_ci ''t'', tn_TableInfo = Some tbl,
                             tn_IndexHints = hints, tn_PartitionNames = pnames\<rparr>"

definition ex_in :: "int64 list \<Rightarrow> ExprNode list" where
  "ex_in vs = map (\<lambda>v. ValueExpr (ex_datum v)) vs"


text \<open>
  More indices on the sample table, a conjunction, the hint \<open>USE INDEX (ib)\<close>, a
  planning context in which the table is hash-partitioned on the expression \<open>a + 1\<close>,
  and a session whose cast of an index value overflows.
\<close>

definition ex_iab :: IndexInfo where
  "ex_iab = ex_idx 2 ''iab'' [(''a'', 0), (''b'', 1)]"

definition ex_ib2 :: IndexInfo where
  "ex_ib2 = ex_idx 3 ''ib2'' [(''b'', 1)]"

definition ex_and :: "ExprNode \<Rightarrow> ExprNode \<Rightarrow> ExprNode" where
  "ex_and l r = BinaryOperationExpr LogicAnd l r"

definition ex_use_ib :: IndexHint where
  "ex_use_ib = \<lparr>ih_IndexNames = Some [ex_ci ''ib''], ih_HintType = HintUse, ih_HintScope = HintForScan\<rparr>"

definition ex_pc_expr :: pctx where
  "ex_pc_expr = ex_pc\<lparr>pc_getPartitionExpr :=
      (\<lambda>tbl. Some (ex_pe\<lparr>pe_Expr := Some (ExprOther 0),
                           pe_OrigExpr := BinaryOperationExpr (OtherOp 0)
                             (ColumnNameExpr \<lparr>cn_Table = ex_ci [], cn_Name = ex_ci ''a''\<rparr>)
                             (ValueExpr (ex_datum 1))\<rparr>))\<rparr>"

definition ex_sc_overflow :: sctx where
  "ex_sc_overflow = ex_sc\<lparr>sc_CastValue := (\<lambda>d c. if 2147483647 < d_i d then (d, Some ErrOverflow) else (d, None))\<rparr>"










section \<open>Properties of the executor\<close>

lemma frame_refl: "frame e e"
  by (simp add: frame_def new_events_def)

lemma frameI: "e' = e\<lparr>pg_lockCache := c, pg_trace := pg_trace e @ evs\<rparr> \<Longrightarrow> frame e e'"
  by (simp add: frame_def new_events_def)

lemma frame_trace: "frame e e' \<Longrightarrow> pg_trace e' = pg_trace e @ new_events e e'"
proof -
  assume "frame e e'"
  then have "pg_trace e' = pg_trace (e\<lparr>pg_lockCache := pg_lockCache e', pg_trace := pg_trace e @ new_events e e'\<rparr>)"
    unfolding frame_def by simp
  then show ?thesis by simp
qed

lemma frame_trans: "frame e e1 \<Longrightarrow> frame e1 e2 \<Longrightarrow> frame e e2"
proof -
  assume a: "frame e e1" and b: "frame e1 e2"
  from a have 1: "e1 = e\<lparr>pg_lockCache := pg_lockCache e1, pg_trace := pg_trace e @ new_events e e1\<rparr>"
    unfolding frame_def .
  from b have 2: "e2 = e1\<lparr>pg_lockCache := pg_lockCache e2, pg_trace := pg_trace e1 @ new_events e1 e2\<rparr>"
    unfolding frame_def .
  have "e2 = e\<lparr>pg_lockCache := pg_lockCache e2, pg_trace := pg_trace e @ (new_events e e1 @ new_events e1 e2)\<rparr>"
    by (subst 2, subst 1) (simp add: frame_trace[OF a])
  then show ?thesis by (rule frameI)
qed

lemma new_events_trans:
  "frame e e1 \<Longrightarrow> frame e1 e2 \<Longrightarrow> new_events e e2 = new_events e e1 @ new_events e1 e2"
  by (simp add: new_events_def[of e e2] frame_trace)

lemma frame_emit: "frame e (emit ev e)" and new_events_emit: "new_events e (emit ev e) = [ev]"
  by (simp_all add: frame_def new_events_def emit_def)

lemma frame_cache: "frame e (SetPessimisticLockCache k v e)"
  and new_events_cache: "new_events e (SetPessimisticLockCache k v e) = []"
  by (simp_all add: frame_def new_events_def SetPessimisticLockCache_def)

lemma iterate_frame: "frame e (IterateValuesNotLocked vs e) \<and> new_events e (IterateValuesNotLocked vs e) = []"
proof (induction vs arbitrary: e)
  case Nil
  show ?case by (simp add: frame_refl new_events_def)
next
  case (Cons a vs)
  obtain k v where a: "a = (k, v)" by (cases a)
  let ?e1 = "if \<not> rv_AlreadyLocked v then SetPessimisticLockCache k (rv_Value v) e else e"
  have 1: "frame e ?e1" "new_events e ?e1 = []"
    by (simp_all add: frame_cache new_events_cache frame_refl) (simp add: new_events_def)
  from Cons.IH[of ?e1] have 2: "frame ?e1 (IterateValuesNotLocked vs ?e1)"
    "new_events ?e1 (IterateValuesNotLocked vs ?e1) = []" by blast+
  have "frame e (IterateValuesNotLocked vs ?e1)" using frame_trans[OF 1(1) 2(1)] .
  moreover have "new_events e (IterateValuesNotLocked vs ?e1) = []"
    using new_events_trans[OF 1(1) 2(1)] 1(2) 2(2) by simp
  ultimately show ?case unfolding a by simp
qed

lemma get_frame: "frame e (snd (get sc e key))"
  by (simp add: frame_def new_events_def get_def get_from_store_def emit_def Let_def split: sum.split option.split)

lemma get_reads: "list_all (is_read_of key) (new_events e (snd (get sc e key)))"
  by (simp add: new_events_def get_def get_from_store_def emit_def Let_def is_read_of_def split: sum.split option.split)

lemma gv_frame: "frame e (snd (getValueFromLockCtx sc e vals key))"
  using get_frame[of e sc key]
  by (auto simp: getValueFromLockCtx_def frame_refl split: option.split prod.split sum.split)

lemma gv_reads: "list_all (is_read_of key) (new_events e (snd (getValueFromLockCtx sc e vals key)))"
  using get_reads[of key e sc]
  by (auto simp: getValueFromLockCtx_def new_events_def split: option.split prod.split sum.split)

lemma lk_nolock: "\<not> pg_lock e \<Longrightarrow> lockKeyBase sc e k b = (Inr [], e)"
  by (simp add: lockKeyBase_def)

lemma lk_all:
  "frame e (snd (lockKeyBase sc e k b)) \<and>
   lock_shape k b (pg_lockWaitTime e) (new_events e (snd (lockKeyBase sc e k b))) \<and>
   (new_events e (snd (lockKeyBase sc e k b)) \<noteq> [] \<longrightarrow> pg_lock e) \<and>
   (pg_lock e \<and> k \<noteq> [] \<and> \<not> isl (fst (lockKeyBase sc e k b)) \<longrightarrow> new_events e (snd (lockKeyBase sc e k b)) \<noteq> [])"
proof (cases "k = [] \<or> \<not> pg_lock e")
  case True
  then have "lockKeyBase sc e k b = (Inr [], e)" by (auto simp: lockKeyBase_def)
  then show ?thesis using True by (auto simp: frame_refl new_events_def lock_shape_def)
next
  case False
  then have k: "k \<noteq> []" and l: "pg_lock e" by auto
  show ?thesis
  proof (cases "sc_newLockCtx sc (pg_trace e) (pg_lockWaitTime e)")
    case (Some err)
    then have "lockKeyBase sc e k b = (Inl err, e)" using k l by (simp add: lockKeyBase_def)
    then show ?thesis by (simp add: frame_refl new_events_def lock_shape_def)
  next
    case None
    let ?ev = "EvLockKeys k b (pg_lockWaitTime e)"
    let ?e1 = "emit ?ev e"
    have f1: "frame e ?e1" "new_events e ?e1 = [?ev]" by (rule frame_emit, rule new_events_emit)
    show ?thesis
    proof (cases "sc_doLockKeys sc (pg_trace e) (pg_lockWaitTime e) b k")
      case (Inl err)
      then have "lockKeyBase sc e k b = (Inl err, ?e1)" using k l None by (simp add: lockKeyBase_def)
      then show ?thesis using f1 k l by (simp add: lock_shape_def)
    next
      case (Inr vals)
      let ?e2 = "IterateValuesNotLocked vals ?e1"
      let ?e3 = "if pg_handleVal ?e2 \<noteq> [] then SetPessimisticLockCache (pg_idxKey ?e2) (pg_handleVal ?e2) ?e2 else ?e2"
      have f2: "frame ?e1 ?e2" "new_events ?e1 ?e2 = []" using iterate_frame[of ?e1 vals] by blast+
      have f23: "frame ?e2 ?e3" "new_events ?e2 ?e3 = []"
        by (simp_all add: frame_cache new_events_cache frame_refl) (simp add: new_events_def)
      have f12: "frame e ?e2" "new_events e ?e2 = [?ev]"
        using frame_trans[OF f1(1) f2(1)] new_events_trans[OF f1(1) f2(1)] f1(2) f2(2) by simp_all
      have f3: "frame e ?e3" "new_events e ?e3 = [?ev]"
        using frame_trans[OF f12(1) f23(1)] new_events_trans[OF f12(1) f23(1)] f12(2) f23(2) by simp_all
      show ?thesis
      proof (cases b)
        case False
        then have "lockKeyBase sc e k b = (Inr [], ?e3)"
          using k l None Inr by (simp add: lockKeyBase_def Let_def)
        then show ?thesis using f3 k l False by (simp add: lock_shape_def)
      next
        case True
        let ?r = "getValueFromLockCtx sc ?e3 vals k"
        have r: "lockKeyBase sc e k b = ?r"
          using k l None Inr True by (simp add: lockKeyBase_def Let_def)
        have g: "frame ?e3 (snd ?r)" by (rule gv_frame)
        have gr: "list_all (is_read_of k) (new_events ?e3 (snd ?r))" by (rule gv_reads)
        have "frame e (snd ?r)" using frame_trans[OF f3(1) g] .
        moreover have "new_events e (snd ?r) = ?ev # new_events ?e3 (snd ?r)"
          using new_events_trans[OF f3(1) g] f3(2) by simp
        ultimately show ?thesis unfolding r using gr k l True by (simp add: lock_shape_def)
      qed
    qed
  qed
qed

lemma frame_wframe: "frame e e' \<Longrightarrow> wframe e e'"
proof -
  assume a: "frame e e'"
  then have "e' = e\<lparr>pg_lockCache := pg_lockCache e', pg_trace := pg_trace e @ new_events e e'\<rparr>"
    unfolding frame_def .
  then have "pg_lock e' = pg_lock e \<and> pg_lockWaitTime e' = pg_lockWaitTime e \<and> pg_done e' = pg_done e \<and>
      pg_tblInfo e' = pg_tblInfo e \<and> pg_idxInfo e' = pg_idxInfo e"
    by (metis PointGetExecutor.select_convs PointGetExecutor.surjective PointGetExecutor.update_convs(12) PointGetExecutor.update_convs(13))
  then show ?thesis using frame_trace[OF a] by (simp add: wframe_def)
qed

lemma wframe_refl: "wframe e e"
  by (simp add: wframe_def new_events_def)

lemma wframe_trans: "wframe e e1 \<Longrightarrow> wframe e1 e2 \<Longrightarrow> wframe e e2"
  by (simp add: wframe_def new_events_def[of e e2])

lemma wframe_events: "wframe e e1 \<Longrightarrow> wframe e1 e2 \<Longrightarrow> new_events e e2 = new_events e e1 @ new_events e1 e2"
  by (simp add: wframe_def new_events_def[of e e2])

lemma frame_fields:
  "frame e e' \<Longrightarrow> pg_idxKey e' = pg_idxKey e \<and> pg_handleVal e' = pg_handleVal e \<and> pg_handle e' = pg_handle e
     \<and> pg_lock e' = pg_lock e \<and> pg_lockWaitTime e' = pg_lockWaitTime e \<and> pg_idxInfo e' = pg_idxInfo e
     \<and> pg_tblInfo e' = pg_tblInfo e \<and> pg_done e' = pg_done e"
proof -
  assume a: "frame e e'"
  then have "e' = e\<lparr>pg_lockCache := pg_lockCache e', pg_trace := pg_trace e @ new_events e e'\<rparr>"
    unfolding frame_def .
  then show ?thesis
    by (metis PointGetExecutor.select_convs PointGetExecutor.surjective PointGetExecutor.update_convs(12) PointGetExecutor.update_convs(13))
qed

lemma get_empty: "get sc e [] = (Inl ErrNotExist, e)"
  by (simp add: get_def)

lemma getAndLock_all:
  "frame e (snd (getAndLock sc e k)) \<and>
   step_ok (sc_IsPessimisticReadConsistency sc) (pg_lock e) k (pg_lockWaitTime e)
     (new_events e (snd (getAndLock sc e k)))"
proof (cases "sc_IsPessimisticReadConsistency sc")
  case True
  show ?thesis
  proof (cases "pg_lock e")
    case l: True
    have "snd (getAndLock sc e k) = snd (lockKeyBase sc e k True)"
      using True l by (simp add: getAndLock_def lockKeyIfExists_def split: prod.split sum.split)
    then show ?thesis using lk_all[of e sc k True] True l
      by (auto simp: step_ok_def lock_shape_def split: list.splits)
  next
    case l: False
    have "snd (getAndLock sc e k) = snd (get sc e k)"
      using True l by (simp add: getAndLock_def split: prod.split sum.split)
    then show ?thesis using get_frame[of e sc k] get_reads[of k e sc] True l
      by (auto simp: step_ok_def split: list.splits)
  qed
next
  case False
  obtain r1 e1 where r1: "lockKeyBase sc e k False = (r1, e1)" by (cases "lockKeyBase sc e k False")
  have f1: "frame e e1" and s1: "lock_shape k False (pg_lockWaitTime e) (new_events e e1)"
    and n1: "new_events e e1 \<noteq> [] \<longrightarrow> pg_lock e"
    and m1: "pg_lock e \<and> k \<noteq> [] \<and> \<not> isl r1 \<longrightarrow> new_events e e1 \<noteq> []"
    using lk_all[of e sc k False] r1 by simp_all
  show ?thesis
  proof (cases r1)
    case (Inl err)
    then have "snd (getAndLock sc e k) = e1"
      using False r1 by (simp add: getAndLock_def lockKeyIfNeeded_def)
    then show ?thesis using f1 s1 n1 False
      by (auto simp: step_ok_def lock_shape_def split: list.splits)
  next
    case (Inr v)
    then have g: "snd (getAndLock sc e k) = snd (get sc e1 k)"
      using False r1 by (simp add: getAndLock_def lockKeyIfNeeded_def split: prod.split sum.split)
    have f2: "frame e1 (snd (get sc e1 k))" by (rule get_frame)
    have r2: "list_all (is_read_of k) (new_events e1 (snd (get sc e1 k)))" by (rule get_reads)
    have ev: "new_events e (snd (get sc e1 k)) = new_events e e1 @ new_events e1 (snd (get sc e1 k))"
      using new_events_trans[OF f1 f2] .
    have fr: "frame e (snd (get sc e1 k))" using frame_trans[OF f1 f2] .
    have st: "step_ok False (pg_lock e) k (pg_lockWaitTime e) (new_events e (snd (get sc e1 k)))"
    proof (cases "k = []")
      case True
      then have "new_events e1 (snd (get sc e1 k)) = []" by (simp add: get_empty new_events_def)
      moreover have "new_events e e1 = []" using True r1 by (simp add: lockKeyBase_def new_events_def)
      ultimately show ?thesis using ev by (simp add: step_ok_def)
    next
      case kne: False
      show ?thesis
      proof (cases "pg_lock e")
        case True
        then have "new_events e e1 \<noteq> []" using m1 kne Inr by simp
        then show ?thesis using s1 r2 ev True
          by (auto simp: step_ok_def lock_shape_def split: list.splits)
      next
        case False
        then have "new_events e e1 = []" using n1 by blast
        then show ?thesis using r2 ev False by (auto simp: step_ok_def split: list.splits)
      qed
    qed
    show ?thesis using fr st g False by simp
  qed
qed

lemma lk_idxKey: "pg_idxKey (snd (lockKeyBase sc e k b)) = pg_idxKey e"
  using lk_all[of e sc k b] frame_fields by blast

lemma readIndexEntry_getAndLock:
  "(snd (readIndexEntry sc e))\<lparr>pg_handleVal := h\<rparr> = (snd (getAndLock sc e (pg_idxKey e)))\<lparr>pg_handleVal := h\<rparr>"
proof (cases "sc_IsPessimisticReadConsistency sc")
  case True
  show ?thesis
  proof (cases "pg_lock e")
    case l: True
    obtain r1 e1 where r1: "lockKeyBase sc e (pg_idxKey e) True = (r1, e1)"
      by (cases "lockKeyBase sc e (pg_idxKey e) True")
    show ?thesis using True l r1
      by (cases r1) (simp_all add: readIndexEntry_def getAndLock_def lockKeyIfExists_def)
  next
    case l: False
    obtain r1 e1 where r1: "get sc e (pg_idxKey e) = (r1, e1)"
      by (cases "get sc e (pg_idxKey e)")
    show ?thesis using True l r1
      by (cases r1) (simp_all add: readIndexEntry_def getAndLock_def)
  qed
next
  case False
  obtain r1 e1 where r1: "lockKeyBase sc e (pg_idxKey e) False = (r1, e1)"
    by (cases "lockKeyBase sc e (pg_idxKey e) False")
  have k1: "pg_idxKey e1 = pg_idxKey e" using lk_idxKey[of sc e "pg_idxKey e" False] r1 by simp
  show ?thesis
  proof (cases r1)
    case (Inl err)
    then show ?thesis using False r1
      by (simp add: readIndexEntry_def getAndLock_def lockKeyIfNeeded_def)
  next
    case (Inr v)
    obtain r2 e2 where r2: "get sc e1 (pg_idxKey e) = (r2, e2)"
      by (cases "get sc e1 (pg_idxKey e)")
    show ?thesis using False r1 Inr r2 k1
      by (cases r2) (simp_all add: readIndexEntry_def getAndLock_def lockKeyIfNeeded_def)
  qed
qed

lemma readIndexEntry_all:
  "wframe e (snd (readIndexEntry sc e)) \<and>
   step_ok (sc_IsPessimisticReadConsistency sc) (pg_lock e) (pg_idxKey e) (pg_lockWaitTime e)
     (new_events e (snd (readIndexEntry sc e)))"
proof -
  let ?X = "snd (readIndexEntry sc e)" and ?Y = "snd (getAndLock sc e (pg_idxKey e))"
  have eq: "?X\<lparr>pg_handleVal := []\<rparr> = ?Y\<lparr>pg_handleVal := []\<rparr>" by (rule readIndexEntry_getAndLock)
  have w: "wframe e ?Y" using getAndLock_all[of e sc "pg_idxKey e"] frame_wframe by blast
  have "pg_trace ?X = pg_trace (?X\<lparr>pg_handleVal := []\<rparr>)" by simp
  also have "\<dots> = pg_trace ?Y" unfolding eq by simp
  finally have t: "pg_trace ?X = pg_trace ?Y" .
  have "pg_lock ?X = pg_lock (?X\<lparr>pg_handleVal := []\<rparr>)" by simp
  also have "\<dots> = pg_lock ?Y" unfolding eq by simp
  finally have l: "pg_lock ?X = pg_lock ?Y" .
  have "pg_lockWaitTime ?X = pg_lockWaitTime (?X\<lparr>pg_handleVal := []\<rparr>)" by simp
  also have "\<dots> = pg_lockWaitTime ?Y" unfolding eq by simp
  finally have lw: "pg_lockWaitTime ?X = pg_lockWaitTime ?Y" .
  have "pg_done ?X = pg_done (?X\<lparr>pg_handleVal := []\<rparr>)" by simp
  also have "\<dots> = pg_done ?Y" unfolding eq by simp
  finally have d: "pg_done ?X = pg_done ?Y" .
  have "pg_tblInfo ?X = pg_tblInfo (?X\<lparr>pg_handleVal := []\<rparr>)" by simp
  also have "\<dots> = pg_tblInfo ?Y" unfolding eq by simp
  finally have ti: "pg_tblInfo ?X = pg_tblInfo ?Y" .
  have "pg_idxInfo ?X = pg_idxInfo (?X\<lparr>pg_handleVal := []\<rparr>)" by simp
  also have "\<dots> = pg_idxInfo ?Y" unfolding eq by simp
  finally have ii: "pg_idxInfo ?X = pg_idxInfo ?Y" .
  have ne: "new_events e ?X = new_events e ?Y" by (simp add: new_events_def t)
  have "wframe e ?X" using w t l lw d ti ii ne by (simp add: wframe_def)
  then show ?thesis using getAndLock_all[of e sc "pg_idxKey e"] ne by simp
qed

lemma wframe_upd_right:
  "wframe e e' \<Longrightarrow> wframe e (e'\<lparr>pg_handle := h\<rparr>)"
  "wframe e e' \<Longrightarrow> wframe e (e'\<lparr>pg_idxVals := vs\<rparr>)"
  "wframe e e' \<Longrightarrow> wframe e (e'\<lparr>pg_idxVals := vs, pg_handle := h\<rparr>)"
  "wframe e e' \<Longrightarrow> wframe e (e'\<lparr>pg_idxVals := vs, pg_idxKey := k\<rparr>)"
  by (simp_all add: wframe_def new_events_def)

lemma new_events_upd_right:
  "new_events e (e'\<lparr>pg_handle := h\<rparr>) = new_events e e'"
  "new_events e (e'\<lparr>pg_idxVals := vs\<rparr>) = new_events e e'"
  "new_events e (e'\<lparr>pg_idxVals := vs, pg_handle := h\<rparr>) = new_events e e'"
  "new_events e (e'\<lparr>pg_idxVals := vs, pg_idxKey := k\<rparr>) = new_events e e'"
  by (simp_all add: new_events_def)

lemma new_events_self: "new_events e e = []"
  by (simp add: new_events_def)

lemma step_ok_Nil: "step_ok rc lk k w []"
  by (simp add: step_ok_def)

lemma resolveHandle_all:
  "wframe e (snd (resolveHandle sc e tblID)) \<and>
   (\<exists>k. step_ok (sc_IsPessimisticReadConsistency sc) (pg_lock e) k (pg_lockWaitTime e)
          (new_events e (snd (resolveHandle sc e tblID))))"
proof (cases "pg_idxInfo e")
  case None
  then have "resolveHandle sc e tblID = (Inr tblID, e)" by (simp add: resolveHandle_def)
  then show ?thesis by (auto simp: wframe_refl new_events_self step_ok_Nil)
next
  case (Some idx)
  show ?thesis
  proof (cases "sc_isCommonHandleRead sc (pg_tblInfo e) idx")
    case True
    have "wframe e (snd (resolveHandle sc e tblID)) \<and> new_events e (snd (resolveHandle sc e tblID)) = []"
      using Some True
      by (simp add: resolveHandle_def wframe_upd_right wframe_refl new_events_upd_right new_events_self
               split: prod.split sum.split)
    then show ?thesis by (auto simp: step_ok_Nil)
  next
    case False
    obtain r vals where enc: "EncodeUniqueIndexKey sc (pg_tblInfo e) idx (pg_idxVals e) tblID = (r, vals)"
      by (cases "EncodeUniqueIndexKey sc (pg_tblInfo e) idx (pg_idxVals e) tblID")
    define e1 where "e1 = e\<lparr>pg_idxVals := vals, pg_idxKey := (case r of Inl _ \<Rightarrow> [] | Inr k \<Rightarrow> k)\<rparr>"
    have w1: "wframe e e1" and n1: "new_events e e1 = []"
      unfolding e1_def by (simp_all add: wframe_upd_right wframe_refl new_events_upd_right new_events_self)
    have l1: "pg_lock e1 = pg_lock e" "pg_lockWaitTime e1 = pg_lockWaitTime e" by (simp_all add: e1_def)
    show ?thesis
    proof (cases "case r of Inl err \<Rightarrow> err \<noteq> ErrNotExist | Inr _ \<Rightarrow> False")
      case True
      then have "snd (resolveHandle sc e tblID) = e1"
        using Some False enc by (simp add: resolveHandle_def e1_def Let_def)
      then show ?thesis using w1 n1 by (auto simp: step_ok_Nil)
    next
      case ok: False
      obtain ro e2 where ri: "readIndexEntry sc e1 = (ro, e2)" by (cases "readIndexEntry sc e1")
      have w2: "wframe e1 e2"
        and s2: "step_ok (sc_IsPessimisticReadConsistency sc) (pg_lock e) (pg_idxKey e1) (pg_lockWaitTime e) (new_events e1 e2)"
        using readIndexEntry_all[of e1 sc] ri l1 by simp_all
      have w: "wframe e e2" using wframe_trans[OF w1 w2] .
      have n: "new_events e e2 = new_events e1 e2" using wframe_events[OF w1 w2] n1 by simp
      have "snd (resolveHandle sc e tblID) = e2 \<or> (\<exists>iv. snd (resolveHandle sc e tblID) = e2\<lparr>pg_handle := Some iv\<rparr>)"
        using Some False enc ok ri
        by (auto simp add: resolveHandle_def e1_def[symmetric] Let_def split: option.split sum.split)
      then show ?thesis using w n s2 by (auto simp: wframe_upd_right new_events_upd_right)
    qed
  qed
qed

lemma readRow_all:
  "wframe e (snd (snd (readRow sc e tblID))) \<and>
   (\<exists>k s rp. new_events e (snd (snd (readRow sc e tblID))) = s @ rp \<and>
      step_ok (sc_IsPessimisticReadConsistency sc) (pg_lock e) k (pg_lockWaitTime e) s \<and> is_report rp)"
proof (cases "pg_handle e")
  case None
  then have "readRow sc e tblID = (Some ErrPanic, [], e)" by (simp add: readRow_def)
  then show ?thesis by (auto simp: wframe_refl new_events_self step_ok_Nil is_report_def)
next
  case (Some h)
  let ?key = "sc_EncodeRowKeyWithHandle sc tblID h"
  obtain r e1 where g: "getAndLock sc e ?key = (r, e1)" by (cases "getAndLock sc e ?key")
  have f1: "frame e e1"
    and s1: "step_ok (sc_IsPessimisticReadConsistency sc) (pg_lock e) ?key (pg_lockWaitTime e) (new_events e e1)"
    using getAndLock_all[of e sc ?key] g by simp_all
  have w1: "wframe e e1" using frame_wframe[OF f1] .
  let ?e2 = "emit (EvReportInconsistent ?key (pg_idxKey e1)) e1"
  have w12: "wframe e1 ?e2" using frame_wframe[OF frame_emit] .
  have w2: "wframe e ?e2" using wframe_trans[OF w1 w12] .
  have n2: "new_events e ?e2 = new_events e e1 @ [EvReportInconsistent ?key (pg_idxKey e1)]"
    using wframe_events[OF w1 w12] by (simp add: new_events_emit)
  have "snd (snd (readRow sc e tblID)) = e1 \<or> snd (snd (readRow sc e tblID)) = ?e2"
    using Some g by (simp add: readRow_def Let_def split: sum.split option.split)
  then show ?thesis
  proof
    assume a: "snd (snd (readRow sc e tblID)) = e1"
    have "new_events e e1 = new_events e e1 @ []" by simp
    then show ?thesis unfolding a using w1 s1 by (metis is_report_def list.simps(4))
  next
    assume a: "snd (snd (readRow sc e tblID)) = ?e2"
    have "is_report [EvReportInconsistent ?key (pg_idxKey e1)]" by (simp add: is_report_def)
    then show ?thesis unfolding a using w2 s1 n2 by blast
  qed
qed

lemma ltr_append:
  "lock_then_read c (a @ b) = (lock_then_read c a \<and> lock_then_read (last_lock c a) b)"
  by (induction c a rule: lock_then_read.induct) auto

lemma ltr_reads: "list_all (is_read_of k) rs \<Longrightarrow> lock_then_read (Some k) rs \<and> last_lock c rs = c"
  by (induction rs) (auto simp: is_read_of_def)

lemma ltr_step: "step_ok False True k w s \<Longrightarrow> lock_then_read c s"
  using ltr_reads by (cases s) (auto simp: step_ok_def)

lemma ltr_report: "is_report rp \<Longrightarrow> lock_then_read c rp"
  by (auto simp: is_report_def split: list.splits event.splits)

lemma read_props:
  "is_read_of k ev \<Longrightarrow> lock_only_if_exists ev \<and> \<not> is_lock ev \<and> \<not> is_report_ev ev"
  by (auto simp: is_read_of_def)

lemma reads_props:
  "list_all (is_read_of k) rs \<Longrightarrow> list_all lock_only_if_exists rs \<and> list_all (\<lambda>ev. \<not> is_lock ev) rs
     \<and> list_all (\<lambda>ev. \<not> is_report_ev ev) rs"
  using read_props unfolding list_all_iff by blast

lemma loe_step: "step_ok True lk k w s \<Longrightarrow> list_all lock_only_if_exists s"
proof (cases s)
  case Nil
  then show ?thesis by simp
next
  case (Cons ev rs)
  assume a: "step_ok True lk k w s"
  show ?thesis
  proof (cases lk)
    case True
    then have "ev = EvLockKeys k True w" "list_all (is_read_of k) rs"
      using a Cons by (simp_all add: step_ok_def)
    then show ?thesis using Cons reads_props[of k rs] by simp
  next
    case False
    then have "list_all (is_read_of k) s" using a Cons by (simp add: step_ok_def)
    then show ?thesis using reads_props by blast
  qed
qed

lemma loe_report: "is_report rp \<Longrightarrow> list_all lock_only_if_exists rp \<and> list_all (\<lambda>ev. \<not> is_lock ev) rp"
  by (auto simp: is_report_def split: list.splits event.splits)

lemma nolock_step: "step_ok rc False k w s \<Longrightarrow> list_all (\<lambda>ev. \<not> is_lock ev) s"
proof (cases s)
  case Nil
  then show ?thesis by simp
next
  case (Cons ev rs)
  assume "step_ok rc False k w s"
  then have "list_all (is_read_of k) s" using Cons by (simp add: step_ok_def)
  then show ?thesis using reads_props by blast
qed

lemma next_shape_rr: "next_shape False True w evs \<Longrightarrow> lock_then_read None evs"
  unfolding next_shape_def by (auto simp: ltr_append ltr_step ltr_report)

lemma next_shape_rc: "next_shape True lk w evs \<Longrightarrow> list_all lock_only_if_exists evs"
  unfolding next_shape_def using loe_step loe_report by auto

lemma next_shape_nolock: "next_shape rc False w evs \<Longrightarrow> list_all (\<lambda>ev. \<not> is_lock ev) evs"
  unfolding next_shape_def using nolock_step loe_report by auto

lemma next_shapeI:
  "evs = u @ s1 @ s2 @ rp \<Longrightarrow> u = [] \<or> (\<exists>t. u = [EvUpdateDelta t]) \<Longrightarrow>
   step_ok rc lk k1 w s1 \<Longrightarrow> step_ok rc lk k2 w s2 \<Longrightarrow> is_report rp \<Longrightarrow> next_shape rc lk w evs"
  unfolding next_shape_def by blast

lemma is_report_Nil: "is_report []"
  by (simp add: is_report_def)

lemma Next_all:
  assumes nd: "\<not> pg_done e"
  shows "pg_done (snd (snd (Next sc e))) \<and> pg_lock (snd (snd (Next sc e))) = pg_lock e \<and>
         pg_trace (snd (snd (Next sc e))) = pg_trace e @ new_events e (snd (snd (Next sc e))) \<and>
         next_shape (sc_IsPessimisticReadConsistency sc) (pg_lock e) (pg_lockWaitTime e)
            (new_events e (snd (snd (Next sc e))))"
proof -
  define e0 where "e0 = e\<lparr>pg_done := True\<rparr>"
  define tblID where "tblID = (case pg_partitionDef e0 of Some pd \<Rightarrow> pd_ID pd | None \<Rightarrow> tbl_ID (pg_tblInfo e0))"
  define e1 where "e1 = (if pg_lock e0 then emit (EvUpdateDelta tblID) e0 else e0)"
  define u where "u = (if pg_lock e then [EvUpdateDelta tblID] else [])"
  have b0: "pg_done e0" "pg_lock e0 = pg_lock e" "pg_lockWaitTime e0 = pg_lockWaitTime e" "pg_trace e0 = pg_trace e"
    by (simp_all add: e0_def)
  have ne0: "\<And>x. new_events e x = new_events e0 x" by (simp add: new_events_def b0)
  have w01: "wframe e0 e1" and n01: "new_events e0 e1 = u"
    unfolding e1_def u_def using b0
    by (auto simp: wframe_refl new_events_self new_events_emit intro: frame_wframe[OF frame_emit])
  have l1: "pg_lock e1 = pg_lock e" "pg_lockWaitTime e1 = pg_lockWaitTime e"
    using w01 b0 by (simp_all add: wframe_def)
  have uok: "u = [] \<or> (\<exists>t. u = [EvUpdateDelta t])" by (simp add: u_def)
  obtain rr e2 where rh: "resolveHandle sc e1 tblID = (rr, e2)" by (cases "resolveHandle sc e1 tblID")
  from resolveHandle_all[of e1 sc tblID] rh l1 obtain k1 where
    w12: "wframe e1 e2" and s1: "step_ok (sc_IsPessimisticReadConsistency sc) (pg_lock e) k1 (pg_lockWaitTime e) (new_events e1 e2)"
    by auto
  have w02: "wframe e0 e2" using wframe_trans[OF w01 w12] .
  have n02: "new_events e0 e2 = u @ new_events e1 e2" using wframe_events[OF w01 w12] n01 by simp
  have l2: "pg_lock e2 = pg_lock e" "pg_lockWaitTime e2 = pg_lockWaitTime e"
    using w02 b0 by (simp_all add: wframe_def)
  have "Next sc e = (case resolveHandle sc e1 tblID of (Inl r, e2) \<Rightarrow> (r, [], e2) | (Inr t, e2) \<Rightarrow> readRow sc e2 t)"
    unfolding Next_def e1_def tblID_def e0_def Let_def using nd by (simp only: if_False)
  then have nx: "Next sc e = (case rr of Inl r \<Rightarrow> (r, [], e2) | Inr t \<Rightarrow> readRow sc e2 t)"
    using rh by (simp split: sum.split)
  show ?thesis
  proof (cases rr)
    case (Inl r)
    then have fin: "snd (snd (Next sc e)) = e2" using nx by simp
    have "new_events e e2 = u @ new_events e1 e2 @ [] @ []" using n02 ne0 by simp
    then have "next_shape (sc_IsPessimisticReadConsistency sc) (pg_lock e) (pg_lockWaitTime e) (new_events e e2)"
      by (rule next_shapeI[OF _ uok s1 step_ok_Nil[of _ _ k1] is_report_Nil])
    then show ?thesis unfolding fin using w02 b0 ne0 by (simp add: wframe_def)
  next
    case (Inr t)
    let ?e3 = "snd (snd (readRow sc e2 t))"
    have fin: "snd (snd (Next sc e)) = ?e3" using nx Inr by simp
    from readRow_all[of e2 sc t] l2 obtain k2 s rp where
      w23: "wframe e2 ?e3" and n23: "new_events e2 ?e3 = s @ rp"
      and s2: "step_ok (sc_IsPessimisticReadConsistency sc) (pg_lock e) k2 (pg_lockWaitTime e) s"
      and rp: "is_report rp" by auto
    have w03: "wframe e0 ?e3" using wframe_trans[OF w02 w23] .
    have "new_events e ?e3 = u @ new_events e1 e2 @ s @ rp"
      using wframe_events[OF w02 w23] n02 n23 ne0 by simp
    then have "next_shape (sc_IsPessimisticReadConsistency sc) (pg_lock e) (pg_lockWaitTime e) (new_events e ?e3)"
      by (rule next_shapeI[OF _ uok s1 s2 rp])
    then show ?thesis unfolding fin using w03 b0 ne0 by (simp add: wframe_def)
  qed
qed

text \<open>
  Claim C10. \<open>get\<close> on an empty key returns \<open>kv.ErrNotExist\<close> and leaves the state as it
  is (no collaborator is called). On a non-empty key in a valid transaction that is not
  read-only, the first access is the transaction's memory buffer; the pessimistic lock
  cache is looked up exactly when the buffer misses and the executor locks; the store
  (snapshot, or the point-get cache over it) is read exactly when the buffer misses and
  the lock cache gave nothing; the accesses come in this order, all on the same key, and
  the value returned is that of the first source that answered.
\<close>

theorem get_read_precedence:
  assumes "key \<noteq> []" and "sc_txnValid sc" and "\<not> sc_txnIsReadOnly sc"
  shows "get sc e [] = (Inl ErrNotExist, e) \<and>
         take 1 (new_events e (snd (get sc e key))) = [EvMemBufferGet key] \<and>
         sorted_wrt (<) (map read_rank (new_events e (snd (get sc e key)))) \<and>
         list_all (is_read_of key) (new_events e (snd (get sc e key))) \<and>
         (EvLockCacheGet key \<in> set (new_events e (snd (get sc e key)))) = (memBuffer_miss sc e key \<and> pg_lock e) \<and>
         list_ex is_store_read (new_events e (snd (get sc e key))) =
            (memBuffer_miss sc e key \<and> \<not> (pg_lock e \<and> pg_lockCache e key \<noteq> None)) \<and>
         fst (get sc e key) =
            (if \<not> memBuffer_miss sc e key then sc_memBufferGet sc (pg_trace e) key
             else if pg_lock e \<and> pg_lockCache e key \<noteq> None then Inr (the (pg_lockCache e key))
             else fst (get_from_store sc
                        (e\<lparr>pg_trace := pg_trace e @ EvMemBufferGet key # (if pg_lock e then [EvLockCacheGet key] else [])\<rparr>) key))"
proof -
  let ?M = "EvMemBufferGet key" and ?L = "EvLockCacheGet key"
  have st: "get_from_store sc x key =
              (if (tbl_Lock (pg_tblInfo x) = Some TableLockRead \<or> tbl_Lock (pg_tblInfo x) = Some TableLockReadOnly)
                  \<and> sc_EnablePointGetCache sc
               then (sc_unionGet sc (pg_trace x) (tbl_ID (pg_tblInfo x)) key, x\<lparr>pg_trace := pg_trace x @ [EvUnionGet key]\<rparr>)
               else (sc_snapshotGet sc (pg_trace x) key, x\<lparr>pg_trace := pg_trace x @ [EvSnapshotGet key]\<rparr>))" for x
    by (simp add: get_from_store_def emit_def)
  have r: "is_read_of key ?M" "is_read_of key ?L" "is_read_of key (EvSnapshotGet key)" "is_read_of key (EvUnionGet key)"
    by (simp_all add: is_read_of_def)
  have 0: "get sc e [] = (Inl ErrNotExist, e)" by (simp add: get_def)
  show ?thesis
  proof (cases "sc_memBufferGet sc (pg_trace e) key")
    case (Inr v)
    then have "get sc e key = (Inr v, e\<lparr>pg_trace := pg_trace e @ [?M]\<rparr>)"
      using assms by (simp add: get_def emit_def)
    then show ?thesis using 0 Inr r by (simp add: new_events_def memBuffer_miss_def)
  next
    case (Inl err)
    show ?thesis
    proof (cases "sc_IsErrNotFound sc err")
      case False
      then have "get sc e key = (Inl err, e\<lparr>pg_trace := pg_trace e @ [?M]\<rparr>)"
        using assms Inl by (simp add: get_def emit_def)
      then show ?thesis using 0 Inl False r by (simp add: new_events_def memBuffer_miss_def)
    next
      case True
      then have miss: "memBuffer_miss sc e key" using Inl by (simp add: memBuffer_miss_def)
      show ?thesis
      proof (cases "pg_lock e")
        case nolock: False
        have "get sc e key = get_from_store sc (e\<lparr>pg_trace := pg_trace e @ [?M]\<rparr>) key"
          using assms Inl True nolock by (simp add: get_def emit_def)
        then show ?thesis using 0 miss nolock r
          by (simp add: st new_events_def)
      next
        case lk: True
        show ?thesis
        proof (cases "pg_lockCache e key")
          case (Some v)
          then have "get sc e key = (Inr v, e\<lparr>pg_trace := pg_trace e @ [?M, ?L]\<rparr>)"
            using assms Inl True lk by (simp add: get_def emit_def)
          then show ?thesis using 0 miss lk Some r by (simp add: new_events_def)
        next
          case None
          then have "get sc e key = get_from_store sc (e\<lparr>pg_trace := pg_trace e @ [?M, ?L]\<rparr>) key"
            using assms Inl True lk by (simp add: get_def emit_def)
          then show ?thesis using 0 miss lk None r
            by (simp add: st new_events_def)
        qed
      qed
    qed
  qed
qed

lemma lk_first:
  assumes "pg_lock e" and "k \<noteq> []" and nl: "sc_newLockCtx sc (pg_trace e) (pg_lockWaitTime e) = None"
  shows "take 1 (new_events e (snd (lockKeyBase sc e k b))) = [EvLockKeys k b (pg_lockWaitTime e)]"
proof -
  let ?ev = "EvLockKeys k b (pg_lockWaitTime e)"
  let ?e1 = "emit ?ev e"
  have f1: "frame e ?e1" "new_events e ?e1 = [?ev]" by (rule frame_emit, rule new_events_emit)
  have "\<exists>e2. frame ?e1 e2 \<and> snd (lockKeyBase sc e k b) = e2"
  proof (cases "sc_doLockKeys sc (pg_trace e) (pg_lockWaitTime e) b k")
    case (Inl err)
    then have "snd (lockKeyBase sc e k b) = ?e1" using assms by (simp add: lockKeyBase_def)
    then show ?thesis using frame_refl by simp
  next
    case (Inr vals)
    let ?e2 = "IterateValuesNotLocked vals ?e1"
    let ?e3 = "if pg_handleVal ?e2 \<noteq> [] then SetPessimisticLockCache (pg_idxKey ?e2) (pg_handleVal ?e2) ?e2 else ?e2"
    have f2: "frame ?e1 ?e2" using iterate_frame[of ?e1 vals] by blast
    have f23: "frame ?e2 ?e3" by (simp add: frame_cache frame_refl)
    have f13: "frame ?e1 ?e3" using frame_trans[OF f2 f23] .
    have "snd (lockKeyBase sc e k b) = ?e3 \<or> snd (lockKeyBase sc e k b) = snd (getValueFromLockCtx sc ?e3 vals k)"
      using assms Inr by (simp add: lockKeyBase_def Let_def)
    then show ?thesis using f13 frame_trans[OF f13 gv_frame[of ?e3 sc vals k]] by auto
  qed
  then obtain e2 where e2: "frame ?e1 e2" "snd (lockKeyBase sc e k b) = e2" by blast
  have "new_events e e2 = ?ev # new_events ?e1 e2" using new_events_trans[OF f1(1) e2(1)] f1(2) by simp
  then show ?thesis using e2(2) by simp
qed

lemma getAndLock_first:
  assumes "pg_lock e" and "k \<noteq> []" and nl: "sc_newLockCtx sc (pg_trace e) (pg_lockWaitTime e) = None"
  shows "take 1 (new_events e (snd (getAndLock sc e k))) =
           [EvLockKeys k (sc_IsPessimisticReadConsistency sc) (pg_lockWaitTime e)]"
proof (cases "sc_IsPessimisticReadConsistency sc")
  case True
  have "snd (getAndLock sc e k) = snd (lockKeyBase sc e k True)"
    using True assms(1) by (simp add: getAndLock_def lockKeyIfExists_def split: prod.split sum.split)
  then show ?thesis using lk_first[OF assms, of True] True by simp
next
  case False
  obtain r1 e1 where r1: "lockKeyBase sc e k False = (r1, e1)" by (cases "lockKeyBase sc e k False")
  have f1: "frame e e1" using lk_all[of e sc k False] r1 by simp
  have t1: "take 1 (new_events e e1) = [EvLockKeys k False (pg_lockWaitTime e)]"
    using lk_first[OF assms, of False] r1 by simp
  have "snd (getAndLock sc e k) = e1 \<or> snd (getAndLock sc e k) = snd (get sc e1 k)"
    using False r1 by (simp add: getAndLock_def lockKeyIfNeeded_def split: prod.split sum.split)
  then show ?thesis
  proof
    assume "snd (getAndLock sc e k) = e1" then show ?thesis using t1 False by simp
  next
    assume a: "snd (getAndLock sc e k) = snd (get sc e1 k)"
    have "new_events e (snd (get sc e1 k)) = new_events e e1 @ new_events e1 (snd (get sc e1 k))"
      using new_events_trans[OF f1 get_frame] .
    then show ?thesis using t1 False a by (cases "new_events e e1") simp_all
  qed
qed

lemma readIndexEntry_events:
  "new_events e (snd (readIndexEntry sc e)) = new_events e (snd (getAndLock sc e (pg_idxKey e)))"
proof -
  let ?X = "snd (readIndexEntry sc e)" and ?Y = "snd (getAndLock sc e (pg_idxKey e))"
  have eq: "?X\<lparr>pg_handleVal := []\<rparr> = ?Y\<lparr>pg_handleVal := []\<rparr>" by (rule readIndexEntry_getAndLock)
  have "pg_trace ?X = pg_trace (?X\<lparr>pg_handleVal := []\<rparr>)" by simp
  also have "\<dots> = pg_trace ?Y" unfolding eq by simp
  finally show ?thesis by (simp add: new_events_def)
qed

text \<open>
  Claim C9. For a plan on a temporary table \<open>Init\<close> clears the lock flag and the lock wait
  time whatever the plan says, \<open>lockKeyBase\<close> then returns without any request, and
  \<open>Next\<close> issues no lock request.
\<close>

theorem temp_table_never_locks:
  assumes "tbl_TempTableType (p_TblInfo p) \<noteq> TempTableNone"
  shows "\<not> pg_lock (Init p e) \<and> pg_lockWaitTime (Init p e) = 0 \<and>
         lockKeyBase sc (Init p e) k b = (Inr [], Init p e) \<and>
         list_all (\<lambda>ev. \<not> is_lock ev) (new_events (Init p e) (snd (snd (Next sc (Init p e)))))"
proof -
  have i: "\<not> pg_lock (Init p e)" "pg_lockWaitTime (Init p e) = 0" "\<not> pg_done (Init p e)"
    using assms by (simp_all add: Init_def Let_def)
  have "next_shape (sc_IsPessimisticReadConsistency sc) False (pg_lockWaitTime (Init p e))
          (new_events (Init p e) (snd (snd (Next sc (Init p e)))))"
    using Next_all[OF i(3), of sc] i(1) by simp
  then show ?thesis using i lk_nolock[OF i(1)] next_shape_nolock by blast
qed



lemma step_no_report: "step_ok rc lk k w s \<Longrightarrow> list_all (\<lambda>ev. \<not> is_report_ev ev) s"
proof (cases s)
  case Nil
  then show ?thesis by simp
next
  case (Cons ev rs)
  assume a: "step_ok rc lk k w s"
  show ?thesis
  proof (cases lk)
    case True
    then have "ev = EvLockKeys k rc w" "list_all (is_read_of k) rs"
      using a Cons by (simp_all add: step_ok_def)
    then show ?thesis using Cons reads_props[of k rs] by simp
  next
    case False
    then have "list_all (is_read_of k) s" using a Cons by (simp add: step_ok_def)
    then show ?thesis using reads_props by blast
  qed
qed

lemma getAndLock_no_report: "list_all (\<lambda>ev. \<not> is_report_ev ev) (new_events e (snd (getAndLock sc e k)))"
  using getAndLock_all[of e sc k] step_no_report by blast

lemma resolveHandle_no_report:
  "list_all (\<lambda>ev. \<not> is_report_ev ev) (new_events e (snd (resolveHandle sc e t)))"
  using resolveHandle_all[of e sc t] step_no_report by blast

lemma resolveHandle_continue:
  assumes "pg_idxInfo e = Some idx" and "\<not> sc_isCommonHandleRead sc (pg_tblInfo e) idx"
    and "resolveHandle sc e t = (Inr t', e2)"
  shows "pg_handleVal e2 \<noteq> []"
  using assms
  by (auto simp: resolveHandle_def Let_def split: prod.splits sum.splits option.splits if_splits)

lemma readRow_cases:
  "snd (snd (readRow sc e t)) = e \<or>
   (\<exists>h. pg_handle e = Some h \<and>
     (snd (snd (readRow sc e t)) = snd (getAndLock sc e (sc_EncodeRowKeyWithHandle sc t h)) \<or>
      (\<not> sc_WeakConsistency sc \<and>
       (\<exists>idx. pg_idxInfo e = Some idx \<and> \<not> sc_isCommonHandleRead sc (pg_tblInfo e) idx) \<and>
       fst (snd (readRow sc e t)) = [] \<and>
       snd (snd (readRow sc e t)) =
         emit (EvReportInconsistent (sc_EncodeRowKeyWithHandle sc t h)
                 (pg_idxKey (snd (getAndLock sc e (sc_EncodeRowKeyWithHandle sc t h)))))
              (snd (getAndLock sc e (sc_EncodeRowKeyWithHandle sc t h))))))"
proof (cases "pg_handle e")
  case None
  then show ?thesis by (simp add: readRow_def)
next
  case (Some h)
  let ?key = "sc_EncodeRowKeyWithHandle sc t h"
  obtain r e1 where g: "getAndLock sc e ?key = (r, e1)" by (cases "getAndLock sc e ?key")
  have f: "pg_idxInfo e1 = pg_idxInfo e" "pg_tblInfo e1 = pg_tblInfo e"
    using getAndLock_all[of e sc ?key] g frame_fields[of e e1] by simp_all
  show ?thesis
  proof (cases r)
    case (Inl err)
    then show ?thesis using Some g by (simp add: readRow_def Let_def)
  next
    case (Inr val)
    show ?thesis
    proof (cases "val = []")
      case False
      then show ?thesis using Some g Inr by (simp add: readRow_def Let_def split: sum.split)
    next
      case True
      then show ?thesis using Some g Inr f
        by (cases "pg_idxInfo e") (simp_all add: readRow_def Let_def)
    qed
  qed
qed

lemma readRow_handleVal: "pg_handleVal (snd (snd (readRow sc e t))) = pg_handleVal e"
proof -
  have "\<And>k. pg_handleVal (snd (getAndLock sc e k)) = pg_handleVal e"
    using getAndLock_all frame_fields by blast
  then show ?thesis using readRow_cases[of sc e t] by (auto simp: emit_def)
qed

lemma readRow_report:
  assumes "list_ex is_report_ev (new_events e (snd (snd (readRow sc e t))))"
  shows "\<not> sc_WeakConsistency sc \<and> (\<exists>idx. pg_idxInfo e = Some idx \<and> \<not> sc_isCommonHandleRead sc (pg_tblInfo e) idx)
         \<and> fst (snd (readRow sc e t)) = []"
proof -
  have nr: "\<And>k. \<not> list_ex is_report_ev (new_events e (snd (getAndLock sc e k)))"
    using getAndLock_no_report[of e sc] by (simp add: list_all_iff list_ex_iff)
  have ns: "\<not> list_ex is_report_ev (new_events e e)" by (simp add: new_events_self)
  from readRow_cases[of sc e t] assms nr ns show ?thesis by metis
qed

lemma Next_unfold:
  assumes "\<not> pg_done e"
  shows "\<exists>e1 t. wframe (e\<lparr>pg_done := True\<rparr>) e1 \<and>
           list_all (\<lambda>ev. \<not> is_report_ev ev) (new_events e e1) \<and>
           Next sc e = (case resolveHandle sc e1 t of (Inl r, e2) \<Rightarrow> (r, [], e2) | (Inr t', e2) \<Rightarrow> readRow sc e2 t')"
proof -
  define e0 where "e0 = e\<lparr>pg_done := True\<rparr>"
  define tblID where "tblID = (case pg_partitionDef e0 of Some pd \<Rightarrow> pd_ID pd | None \<Rightarrow> tbl_ID (pg_tblInfo e0))"
  define e1 where "e1 = (if pg_lock e0 then emit (EvUpdateDelta tblID) e0 else e0)"
  have t0: "pg_trace e0 = pg_trace e" by (simp add: e0_def)
  have w01: "wframe e0 e1"
    unfolding e1_def by (auto simp: wframe_refl intro: frame_wframe[OF frame_emit])
  have "new_events e0 e1 = [] \<or> new_events e0 e1 = [EvUpdateDelta tblID]"
    unfolding e1_def by (auto simp: new_events_self new_events_emit)
  then have nr: "list_all (\<lambda>ev. \<not> is_report_ev ev) (new_events e e1)"
    by (auto simp: new_events_def t0)
  have "Next sc e = (case resolveHandle sc e1 tblID of (Inl r, e2) \<Rightarrow> (r, [], e2) | (Inr t, e2) \<Rightarrow> readRow sc e2 t)"
    unfolding Next_def e1_def tblID_def e0_def Let_def using assms by (simp only: if_False)
  then show ?thesis using w01 nr unfolding e0_def by blast
qed

lemma Next_report:
  assumes nd: "\<not> pg_done e"
    and rep: "list_ex is_report_ev (new_events e (snd (snd (Next sc e))))"
  shows "\<not> sc_WeakConsistency sc \<and> (\<exists>idx. pg_idxInfo e = Some idx \<and> \<not> sc_isCommonHandleRead sc (pg_tblInfo e) idx)
         \<and> pg_handleVal (snd (snd (Next sc e))) \<noteq> [] \<and> fst (snd (Next sc e)) = []"
proof -
  from Next_unfold[OF nd, of sc] obtain e1 t where
    w01: "wframe (e\<lparr>pg_done := True\<rparr>) e1" and nr1: "list_all (\<lambda>ev. \<not> is_report_ev ev) (new_events e e1)"
    and nx: "Next sc e = (case resolveHandle sc e1 t of (Inl r, e2) \<Rightarrow> (r, [], e2) | (Inr t', e2) \<Rightarrow> readRow sc e2 t')"
    by blast
  obtain rr e2 where rh: "resolveHandle sc e1 t = (rr, e2)" by (cases "resolveHandle sc e1 t")
  have w12: "wframe e1 e2" using resolveHandle_all[of e1 sc t] rh by simp
  have nr2: "list_all (\<lambda>ev. \<not> is_report_ev ev) (new_events e1 e2)"
    using resolveHandle_no_report[of e1 sc t] rh by simp
  have w02: "wframe (e\<lparr>pg_done := True\<rparr>) e2" using wframe_trans[OF w01 w12] .
  have ne: "\<And>x. new_events e x = new_events (e\<lparr>pg_done := True\<rparr>) x" by (simp add: new_events_def)
  have n02: "new_events e e2 = new_events e e1 @ new_events e1 e2"
    using wframe_events[OF w01 w12] ne by simp
  have i1: "pg_idxInfo e1 = pg_idxInfo e" "pg_tblInfo e1 = pg_tblInfo e" using w01 by (simp_all add: wframe_def)
  have i2: "pg_idxInfo e2 = pg_idxInfo e" "pg_tblInfo e2 = pg_tblInfo e" using w02 by (simp_all add: wframe_def)
  show ?thesis
  proof (cases rr)
    case (Inl r)
    then have "snd (snd (Next sc e)) = e2" using nx rh by simp
    then have "\<not> list_ex is_report_ev (new_events e (snd (snd (Next sc e))))"
      using n02 nr1 nr2 by (auto simp add: list_all_iff list_ex_iff)
    then show ?thesis using rep by simp
  next
    case (Inr t')
    then have fin: "Next sc e = readRow sc e2 t'" using nx rh by simp
    let ?e3 = "snd (snd (readRow sc e2 t'))"
    have w23: "wframe e2 ?e3" using readRow_all[of e2 sc t'] by simp
    have "new_events e ?e3 = new_events e e1 @ new_events e1 e2 @ new_events e2 ?e3"
      using wframe_events[OF w02 w23] ne n02 by simp
    then have "list_ex is_report_ev (new_events e2 ?e3)"
      using rep fin nr1 nr2 by (auto simp: list_all_iff list_ex_iff)
    from readRow_report[OF this] obtain idx where
      a: "\<not> sc_WeakConsistency sc" "pg_idxInfo e2 = Some idx" "\<not> sc_isCommonHandleRead sc (pg_tblInfo e2) idx"
         "fst (snd (readRow sc e2 t')) = []" by blast
    have "pg_handleVal e2 \<noteq> []"
      using resolveHandle_continue[of e1 idx sc t t' e2] a i1 i2 rh Inr by simp
    then have "pg_handleVal ?e3 \<noteq> []" by (simp add: readRow_handleVal)
    then show ?thesis using a i2 fin by simp
  qed
qed

lemma Next_no_entry:
  assumes nd: "\<not> pg_done e" and idx: "pg_idxInfo e = Some idx"
    and nc: "\<not> sc_isCommonHandleRead sc (pg_tblInfo e) idx"
    and hv: "pg_handleVal (snd (snd (Next sc e))) = []"
  shows "fst (snd (Next sc e)) = []"
proof -
  from Next_unfold[OF nd, of sc] obtain e1 t where
    w01: "wframe (e\<lparr>pg_done := True\<rparr>) e1"
    and nx: "Next sc e = (case resolveHandle sc e1 t of (Inl r, e2) \<Rightarrow> (r, [], e2) | (Inr t', e2) \<Rightarrow> readRow sc e2 t')"
    by blast
  obtain rr e2 where rh: "resolveHandle sc e1 t = (rr, e2)" by (cases "resolveHandle sc e1 t")
  have i1: "pg_idxInfo e1 = Some idx" "pg_tblInfo e1 = pg_tblInfo e" using w01 idx by (simp_all add: wframe_def)
  show ?thesis
  proof (cases rr)
    case (Inl r)
    then show ?thesis using nx rh by simp
  next
    case (Inr t')
    then have "pg_handleVal e2 \<noteq> []"
      using resolveHandle_continue[of e1 idx sc t t' e2] i1 nc rh by simp
    moreover have "Next sc e = readRow sc e2 t'" using nx rh Inr by simp
    ultimately show ?thesis using hv by (simp add: readRow_handleVal)
  qed
qed


section \<open>The scenarios on the sample table\<close>

lemmas ex_defs = ex_sc_def ex_exec_def ex_exec_row_def ex_tbl_def ex_ib_def ex_idx_def ex_col_def
  ex_int_def ex_ci_def ex_datum_def ex_plan_def

lemmas exec_defs = Next_def resolveHandle_def readRow_def readIndexEntry_def getAndLock_def
  lockKeyIfNeeded_def lockKeyIfExists_def lockKeyBase_def getValueFromLockCtx_def get_def
  get_from_store_def emit_def SetPessimisticLockCache_def EncodeUniqueIndexKey_def
  EncodeUniqueIndexValuesForKey_def castIdxVal_def DecodeRowValToChunk_def new_events_def Let_def

theorem get_read_precedence_witness:
  "([105, 7] :: bytes) \<noteq> [] \<and> sc_txnValid ex_sc \<and> \<not> sc_txnIsReadOnly ex_sc \<and>
   get ex_sc ex_exec [] = (Inl ErrNotExist, ex_exec) \<and>
   take 1 (new_events ex_exec (snd (get ex_sc ex_exec [105, 7]))) = [EvMemBufferGet [105, 7]] \<and>
   sorted_wrt (<) (map read_rank (new_events ex_exec (snd (get ex_sc ex_exec [105, 7])))) \<and>
   (EvLockCacheGet [105, 7] \<in> set (new_events ex_exec (snd (get ex_sc ex_exec [105, 7])))) =
      (memBuffer_miss ex_sc ex_exec [105, 7] \<and> pg_lock ex_exec) \<and>
   new_events ex_exec (snd (get ex_sc ex_exec [105, 7])) =
      [EvMemBufferGet [105, 7], EvLockCacheGet [105, 7], EvSnapshotGet [105, 7]] \<and>
   fst (get ex_sc ex_exec [105, 7]) = Inr [9]"
proof -
  have h: "([105, 7] :: bytes) \<noteq> []" "sc_txnValid ex_sc" "\<not> sc_txnIsReadOnly ex_sc"
    by (simp_all add: ex_sc_def)
  have c: "new_events ex_exec (snd (get ex_sc ex_exec [105, 7])) =
             [EvMemBufferGet [105, 7], EvLockCacheGet [105, 7], EvSnapshotGet [105, 7]]"
          "fst (get ex_sc ex_exec [105, 7]) = Inr [9]"
    by (simp_all add: ex_defs exec_defs)
  show ?thesis using h c get_read_precedence[OF h, of ex_exec] by simp
qed

theorem temp_table_never_locks_witness:
  "tbl_TempTableType (p_TblInfo (ex_plan\<lparr>p_TblInfo := ex_tbl\<lparr>tbl_TempTableType := TempTableLocal\<rparr>\<rparr>)) \<noteq> TempTableNone \<and>
   p_Lock (ex_plan\<lparr>p_TblInfo := ex_tbl\<lparr>tbl_TempTableType := TempTableLocal\<rparr>\<rparr>) \<and>
   \<not> pg_lock (Init (ex_plan\<lparr>p_TblInfo := ex_tbl\<lparr>tbl_TempTableType := TempTableLocal\<rparr>\<rparr>) ex_exec) \<and>
   pg_lockWaitTime (Init (ex_plan\<lparr>p_TblInfo := ex_tbl\<lparr>tbl_TempTableType := TempTableLocal\<rparr>\<rparr>) ex_exec) = 0 \<and>
   list_all (\<lambda>ev. \<not> is_lock ev)
     (new_events (Init (ex_plan\<lparr>p_TblInfo := ex_tbl\<lparr>tbl_TempTableType := TempTableLocal\<rparr>\<rparr>) ex_exec)
        (snd (snd (Next ex_sc (Init (ex_plan\<lparr>p_TblInfo := ex_tbl\<lparr>tbl_TempTableType := TempTableLocal\<rparr>\<rparr>) ex_exec)))))"
proof -
  let ?p = "ex_plan\<lparr>p_TblInfo := ex_tbl\<lparr>tbl_TempTableType := TempTableLocal\<rparr>\<rparr>"
  have h: "tbl_TempTableType (p_TblInfo ?p) \<noteq> TempTableNone" by simp
  have l: "p_Lock ?p" by (simp add: ex_plan_def)
  show ?thesis using h l temp_table_never_locks[OF h, of ex_exec ex_sc "[114, 9]" False] by simp
qed

section \<open>The first call of \<open>Next\<close>\<close>

text \<open>
  The values shared with the plan: the plan reads what the executor holds, and before
  the executor has run that is what the plan held.
\<close>

lemma planAfter_idxVals: "p_IndexValues (planAfter p e) = pg_idxVals e"
  by (simp add: planAfter_def)

lemma planAfter_Init: "planAfter p (Init p e) = p"
  by (simp add: planAfter_def Init_def Let_def)

lemma started_fields:
  "pg_done (started e)" "pg_lock (started e) = pg_lock e" "pg_lockWaitTime (started e) = pg_lockWaitTime e"
  "pg_idxInfo (started e) = pg_idxInfo e" "pg_tblInfo (started e) = pg_tblInfo e"
  "pg_handle (started e) = pg_handle e" "pg_idxVals (started e) = pg_idxVals e"
  "pg_trace (started e) = pg_trace e @ (if pg_lock e then [EvUpdateDelta (tableID e)] else [])"
  "pg_idxKey (started e) = pg_idxKey e" "pg_handleVal (started e) = pg_handleVal e"
  "pg_lockCache (started e) = pg_lockCache e" "pg_partitionDef (started e) = pg_partitionDef e"
  by (simp_all add: started_def emit_def)

lemma new_events_started:
  "new_events e (started e) = (if pg_lock e then [EvUpdateDelta (tableID e)] else [])"
  by (simp add: new_events_def started_fields)

lemma new_events_via_started:
  "pg_trace x = pg_trace (started e) @ new_events (started e) x \<Longrightarrow>
     new_events e x = new_events e (started e) @ new_events (started e) x"
  by (simp add: new_events_def[of e x] started_fields new_events_started)

lemma Next_eq:
  assumes "\<not> pg_done e"
  shows "Next sc e =
           (case resolveHandle sc (started e) (tableID e) of
              (Inl r, e2) \<Rightarrow> (r, [], e2)
            | (Inr t', e2) \<Rightarrow> readRow sc e2 t')"
proof -
  define e0 where "e0 = e\<lparr>pg_done := True\<rparr>"
  define tblID where "tblID = (case pg_partitionDef e0 of Some pd \<Rightarrow> pd_ID pd | None \<Rightarrow> tbl_ID (pg_tblInfo e0))"
  define e1 where "e1 = (if pg_lock e0 then emit (EvUpdateDelta tblID) e0 else e0)"
  have a: "tblID = tableID e" by (simp add: tblID_def e0_def tableID_def split: option.split)
  have b: "e1 = started e" by (simp add: e1_def a started_def e0_def)
  have "Next sc e = (case resolveHandle sc e1 tblID of (Inl r, e2) \<Rightarrow> (r, [], e2) | (Inr t, e2) \<Rightarrow> readRow sc e2 t)"
    unfolding Next_def e1_def tblID_def e0_def Let_def using assms by (simp only: if_False)
  then show ?thesis unfolding a b .
qed

lemma resolveHandle_trace:
  "pg_trace (snd (resolveHandle sc e t)) = pg_trace e @ new_events e (snd (resolveHandle sc e t))"
  using resolveHandle_all[of e sc t] by (simp add: wframe_def)

lemma readRow_trace:
  "pg_trace (snd (snd (readRow sc e t))) = pg_trace e @ new_events e (snd (snd (readRow sc e t)))"
  using readRow_all[of e sc t] by (simp add: wframe_def)

lemma new_events_append:
  "pg_trace b = pg_trace a @ new_events a b \<Longrightarrow> pg_trace c = pg_trace b @ new_events b c \<Longrightarrow>
     new_events a c = new_events a b @ new_events b c"
  by (simp add: new_events_def[of a c])

text \<open>The trace of a first call of \<open>Next\<close>: the delta, the index stage, the row stage.\<close>

lemma Next_events:
  assumes nd: "\<not> pg_done e" and rh: "resolveHandle sc (started e) (tableID e) = (r, e2)"
  shows "new_events e (snd (snd (Next sc e))) =
           new_events e (started e) @ new_events (started e) e2 @
           (case r of Inl x \<Rightarrow> [] | Inr t' \<Rightarrow> new_events e2 (snd (snd (readRow sc e2 t'))))"
proof -
  have t2: "pg_trace e2 = pg_trace (started e) @ new_events (started e) e2"
    using resolveHandle_trace[of sc "started e" "tableID e"] rh by simp
  have ts: "pg_trace (started e) = pg_trace e @ new_events e (started e)"
    by (simp add: started_fields new_events_started)
  have n2: "new_events e e2 = new_events e (started e) @ new_events (started e) e2"
    using new_events_append[OF ts t2] .
  have t02: "pg_trace e2 = pg_trace e @ new_events e e2" using t2 ts n2 by simp
  show ?thesis
  proof (cases r)
    case (Inl x)
    then have "snd (snd (Next sc e)) = e2" using Next_eq[OF nd, of sc] rh by simp
    then show ?thesis using n2 Inl by simp
  next
    case (Inr t')
    then have fin: "snd (snd (Next sc e)) = snd (snd (readRow sc e2 t'))"
      using Next_eq[OF nd, of sc] rh by simp
    have "new_events e (snd (snd (readRow sc e2 t'))) =
            new_events e e2 @ new_events e2 (snd (snd (readRow sc e2 t')))"
      using new_events_append[OF t02 readRow_trace[of sc e2 t']] .
    then show ?thesis using fin n2 Inr by simp
  qed
qed

lemma get_some_read: "k \<noteq> [] \<Longrightarrow> new_events e (snd (get sc e k)) \<noteq> []"
  by (simp add: new_events_def get_def get_from_store_def emit_def Let_def split: sum.split option.split)

lemma step_lock_events:
  assumes "step_ok rc True k w evs" and "take 1 evs = [ev]"
  shows "evs = ev # drop 1 evs \<and> ev = EvLockKeys k rc w \<and> list_all (is_read_of k) (drop 1 evs)"
  using assms by (cases evs) (simp_all add: step_ok_def)

lemma getAndLock_rr_reads:
  assumes rr: "\<not> sc_IsPessimisticReadConsistency sc" and l: "pg_lock e" and k: "k \<noteq> []"
    and nl: "sc_newLockCtx sc (pg_trace e) (pg_lockWaitTime e) = None"
    and dl: "\<not> isl (sc_doLockKeys sc (pg_trace e) (pg_lockWaitTime e) False k)"
  shows "1 < length (new_events e (snd (getAndLock sc e k)))"
proof -
  obtain r1 e1 where r1: "lockKeyBase sc e k False = (r1, e1)" by (cases "lockKeyBase sc e k False")
  have ok: "\<not> isl r1" using r1 l k nl dl
    by (auto simp: lockKeyBase_def Let_def split: sum.splits)
  have f1: "frame e e1" and ne: "new_events e e1 \<noteq> []"
    using lk_all[of e sc k False] r1 ok l k by simp_all
  obtain v where v: "r1 = Inr v" using ok by (cases r1) auto
  have g: "snd (getAndLock sc e k) = snd (get sc e1 k)"
    using rr r1 v by (simp add: getAndLock_def lockKeyIfNeeded_def split: prod.split sum.split)
  have "new_events e (snd (get sc e1 k)) = new_events e e1 @ new_events e1 (snd (get sc e1 k))"
    using new_events_trans[OF f1 get_frame] .
  moreover have "new_events e1 (snd (get sc e1 k)) \<noteq> []" using get_some_read[OF k] .
  ultimately show ?thesis using ne g
    by (cases "new_events e e1"; cases "new_events e1 (snd (get sc e1 k))") simp_all
qed

text \<open>The events of one lock/read step when the executor locks and a lock context can
  be made: the lock request on the key, then reads of that key only.\<close>

lemma getAndLock_locked:
  assumes l: "pg_lock e" and k: "k \<noteq> []"
    and nl: "sc_newLockCtx sc (pg_trace e) (pg_lockWaitTime e) = None"
  shows "new_events e (snd (getAndLock sc e k)) =
           EvLockKeys k (sc_IsPessimisticReadConsistency sc) (pg_lockWaitTime e) #
             drop 1 (new_events e (snd (getAndLock sc e k))) \<and>
         list_all (is_read_of k) (drop 1 (new_events e (snd (getAndLock sc e k))))"
  using step_lock_events[of "sc_IsPessimisticReadConsistency sc" k "pg_lockWaitTime e"
          "new_events e (snd (getAndLock sc e k))"]
    getAndLock_all[of e sc k] getAndLock_first[OF l k nl] l by simp

lemma readIndexEntry_no_key:
  "pg_idxKey e = [] \<Longrightarrow> readIndexEntry sc e = (None, e\<lparr>pg_handleVal := []\<rparr>)"
  by (simp add: readIndexEntry_def lockKeyIfNeeded_def lockKeyIfExists_def lockKeyBase_def get_def)

lemma readRow_no_index:
  assumes "case pg_idxInfo e of None \<Rightarrow> True | Some idx \<Rightarrow> sc_isCommonHandleRead sc (pg_tblInfo e) idx"
    and "pg_handle e = Some h"
  shows "snd (snd (readRow sc e t)) = snd (getAndLock sc e (sc_EncodeRowKeyWithHandle sc t h))"
proof -
  let ?key = "sc_EncodeRowKeyWithHandle sc t h"
  obtain r e1 where g: "getAndLock sc e ?key = (r, e1)" by (cases "getAndLock sc e ?key")
  have f: "pg_idxInfo e1 = pg_idxInfo e" "pg_tblInfo e1 = pg_tblInfo e"
    using getAndLock_all[of e sc ?key] g frame_fields[of e e1] by simp_all
  show ?thesis using assms g f
    by (cases "pg_idxInfo e") (simp_all add: readRow_def Let_def split: sum.split)
qed

lemma resolveHandle_index_events:
  assumes i: "pg_idxInfo e = Some idx" and nc: "\<not> sc_isCommonHandleRead sc (pg_tblInfo e) idx"
    and enc: "EncodeUniqueIndexKey sc (pg_tblInfo e) idx (pg_idxVals e) t = (Inr ik, vals)"
  shows "new_events e (snd (resolveHandle sc e t)) =
           new_events (e\<lparr>pg_idxVals := vals, pg_idxKey := ik\<rparr>)
             (snd (getAndLock sc (e\<lparr>pg_idxVals := vals, pg_idxKey := ik\<rparr>) ik))"
proof -
  let ?e1 = "e\<lparr>pg_idxVals := vals, pg_idxKey := ik\<rparr>"
  obtain ro e2 where ri: "readIndexEntry sc ?e1 = (ro, e2)" by (cases "readIndexEntry sc ?e1")
  have "snd (resolveHandle sc e t) = e2 \<or> (\<exists>iv. snd (resolveHandle sc e t) = e2\<lparr>pg_handle := Some iv\<rparr>)"
    using i nc enc ri
    by (auto simp add: resolveHandle_def Let_def split: option.split sum.split)
  then have "pg_trace (snd (resolveHandle sc e t)) = pg_trace e2" by auto
  then have "new_events e (snd (resolveHandle sc e t)) = new_events ?e1 e2"
    by (simp add: new_events_def)
  then show ?thesis using readIndexEntry_events[of ?e1 sc] ri by simp
qed

lemma resolveHandle_stage:
  assumes l: "pg_lock e"
  shows "new_events e (snd (resolveHandle sc e t)) = [] \<or>
         (\<exists>ti i b. step_ok (sc_IsPessimisticReadConsistency sc) True (sc_EncodeIndexSeekKey sc ti i b)
                     (pg_lockWaitTime e) (new_events e (snd (resolveHandle sc e t))))"
proof (cases "pg_idxInfo e")
  case None
  then show ?thesis by (simp add: resolveHandle_def new_events_self)
next
  case (Some idx)
  show ?thesis
  proof (cases "sc_isCommonHandleRead sc (pg_tblInfo e) idx")
    case True
    then show ?thesis using Some
      by (simp add: resolveHandle_def new_events_upd_right new_events_self split: prod.split sum.split)
  next
    case False
    obtain r vals where enc: "EncodeUniqueIndexKey sc (pg_tblInfo e) idx (pg_idxVals e) t = (r, vals)"
      by (cases "EncodeUniqueIndexKey sc (pg_tblInfo e) idx (pg_idxVals e) t")
    show ?thesis
    proof (cases r)
      case (Inl err)
      let ?e1 = "e\<lparr>pg_idxVals := vals, pg_idxKey := []\<rparr>"
      have ri: "readIndexEntry sc ?e1 = (None, ?e1\<lparr>pg_handleVal := []\<rparr>)"
        using readIndexEntry_no_key[of ?e1 sc] by simp
      have "pg_trace (snd (resolveHandle sc e t)) = pg_trace e"
        using Some False enc Inl ri by (simp add: resolveHandle_def Let_def)
      then show ?thesis by (simp add: new_events_def)
    next
      case (Inr ik)
      let ?e1 = "e\<lparr>pg_idxVals := vals, pg_idxKey := ik\<rparr>"
      obtain b where ik: "ik = sc_EncodeIndexSeekKey sc t (idx_ID idx) b"
        using enc Inr by (auto simp: EncodeUniqueIndexKey_def split: prod.splits sum.splits)
      have "step_ok (sc_IsPessimisticReadConsistency sc) True ik (pg_lockWaitTime e)
              (new_events ?e1 (snd (getAndLock sc ?e1 ik)))"
        using getAndLock_all[of ?e1 sc ik] l by simp
      then show ?thesis
        using resolveHandle_index_events[OF Some False, of t ik vals] enc Inr ik by auto
    qed
  qed
qed

lemma readRow_stage:
  "\<exists>s rp. new_events e (snd (snd (readRow sc e t))) = s @ rp \<and> is_report rp \<and>
     (s = [] \<or> (\<exists>h. step_ok (sc_IsPessimisticReadConsistency sc) (pg_lock e)
                      (sc_EncodeRowKeyWithHandle sc t h) (pg_lockWaitTime e) s))"
proof (cases "pg_handle e")
  case None
  then have "readRow sc e t = (Some ErrPanic, [], e)" by (simp add: readRow_def)
  then show ?thesis by (simp add: new_events_self is_report_Nil)
next
  case (Some h)
  let ?key = "sc_EncodeRowKeyWithHandle sc t h"
  obtain r e1 where g: "getAndLock sc e ?key = (r, e1)" by (cases "getAndLock sc e ?key")
  have f1: "frame e e1"
    and s1: "step_ok (sc_IsPessimisticReadConsistency sc) (pg_lock e) ?key (pg_lockWaitTime e) (new_events e e1)"
    using getAndLock_all[of e sc ?key] g by simp_all
  have w1: "wframe e e1" using frame_wframe[OF f1] .
  let ?e2 = "emit (EvReportInconsistent ?key (pg_idxKey e1)) e1"
  have w12: "wframe e1 ?e2" using frame_wframe[OF frame_emit] .
  have n2: "new_events e ?e2 = new_events e e1 @ [EvReportInconsistent ?key (pg_idxKey e1)]"
    using wframe_events[OF w1 w12] by (simp add: new_events_emit)
  have "snd (snd (readRow sc e t)) = e1 \<or> snd (snd (readRow sc e t)) = ?e2"
    using Some g by (simp add: readRow_def Let_def split: sum.split option.split)
  then show ?thesis
  proof
    assume a: "snd (snd (readRow sc e t)) = e1"
    have "new_events e e1 = new_events e e1 @ [] \<and> is_report []" by (simp add: is_report_Nil)
    then show ?thesis unfolding a using s1 by blast
  next
    assume a: "snd (snd (readRow sc e t)) = ?e2"
    have "is_report [EvReportInconsistent ?key (pg_idxKey e1)]" by (simp add: is_report_def)
    then show ?thesis unfolding a using s1 n2 by blast
  qed
qed

lemma lf_report: "is_report rp \<Longrightarrow> lock_first seen cur rp"
  by (auto simp: is_report_def split: list.splits event.splits)

lemma lf_reads_then:
  assumes "list_all (is_read_of k) rs"
    and "\<And>sn. set sn \<subseteq> insert k (set seen) \<Longrightarrow> lock_first sn (Some k) rest"
  shows "lock_first seen (Some k) (rs @ rest)"
  using assms
proof (induction rs arbitrary: seen)
  case Nil
  have "set seen \<subseteq> insert k (set seen)" by auto
  then show ?case using Nil.prems(2) by simp
next
  case (Cons r rs)
  have r: "is_read_of k r" and rs: "list_all (is_read_of k) rs" using Cons.prems(1) by simp_all
  have "lock_first (k # seen) (Some k) (rs @ rest)"
  proof (rule Cons.IH[OF rs])
    fix sn assume "set sn \<subseteq> insert k (set (k # seen))"
    then have "set sn \<subseteq> insert k (set seen)" by auto
    then show "lock_first sn (Some k) rest" by (rule Cons.prems(2))
  qed
  then show ?case using r by (auto simp: is_read_of_def)
qed

lemma lf_stage:
  assumes s: "s = [] \<or> step_ok False True k w s" and k: "k \<notin> set seen"
    and r0: "lock_first seen cur rest"
    and r1: "\<And>sn. set sn \<subseteq> insert k (set seen) \<Longrightarrow> lock_first sn (Some k) rest"
  shows "lock_first seen cur (s @ rest)"
proof (cases s)
  case Nil
  then show ?thesis using r0 by simp
next
  case (Cons ev rs)
  then have ev: "ev = EvLockKeys k False w" and rs: "list_all (is_read_of k) rs"
    using s by (simp_all add: step_ok_def)
  have "lock_first seen (Some k) (rs @ rest)" using lf_reads_then[OF rs r1] .
  then show ?thesis using Cons ev k by simp
qed

lemma Next_lock_first:
  assumes nd: "\<not> pg_done e" and l: "pg_lock e" and rr: "\<not> sc_IsPessimisticReadConsistency sc"
    and keys: "\<forall>t i b t' h. sc_EncodeIndexSeekKey sc t i b \<noteq> sc_EncodeRowKeyWithHandle sc t' h"
  shows "lock_first [] None (new_events e (snd (snd (Next sc e))))"
proof -
  obtain r e2 where rh: "resolveHandle sc (started e) (tableID e) = (r, e2)"
    by (cases "resolveHandle sc (started e) (tableID e)")
  let ?S1 = "new_events (started e) e2"
  let ?S2 = "case r of Inl x \<Rightarrow> [] | Inr t' \<Rightarrow> new_events e2 (snd (snd (readRow sc e2 t')))"
  have ev: "new_events e (snd (snd (Next sc e))) = new_events e (started e) @ ?S1 @ ?S2"
    using Next_events[OF nd rh] .
  have l2: "pg_lock e2" "pg_lockWaitTime e2 = pg_lockWaitTime e"
    using resolveHandle_all[of "started e" sc "tableID e"] rh l
    by (simp_all add: wframe_def started_fields)
  obtain s rp where s2: "?S2 = s @ rp" and rp: "is_report rp"
    and sk: "s = [] \<or> (\<exists>t' h. step_ok False True (sc_EncodeRowKeyWithHandle sc t' h) (pg_lockWaitTime e) s)"
  proof (cases r)
    case (Inl x)
    then have "?S2 = [] @ []" by simp
    then show ?thesis using that[of "[]" "[]"] by (simp add: is_report_Nil)
  next
    case (Inr t')
    from readRow_stage[of e2 sc t'] obtain s rp where
      "new_events e2 (snd (snd (readRow sc e2 t'))) = s @ rp" "is_report rp"
      "s = [] \<or> (\<exists>h. step_ok (sc_IsPessimisticReadConsistency sc) (pg_lock e2)
                      (sc_EncodeRowKeyWithHandle sc t' h) (pg_lockWaitTime e2) s)"
      by blast
    then show ?thesis using that[of s rp] Inr rr l2 by auto
  qed
  have row: "lock_first sn c (s @ rp)" if "\<forall>t' h. sc_EncodeRowKeyWithHandle sc t' h \<notin> set sn" for sn c
  proof (cases "s = []")
    case True
    then show ?thesis using lf_report[OF rp] by simp
  next
    case False
    then obtain t' h where st: "step_ok False True (sc_EncodeRowKeyWithHandle sc t' h) (pg_lockWaitTime e) s"
      using sk by blast
    show ?thesis
      by (rule lf_stage[where k = "sc_EncodeRowKeyWithHandle sc t' h" and w = "pg_lockWaitTime e"])
         (use st that lf_report[OF rp] in auto)
  qed
  have idx: "lock_first [] None (?S1 @ s @ rp)"
  proof (cases "?S1 = []")
    case True
    then show ?thesis using row[of "[]" None] by simp
  next
    case False
    then obtain ti i b where
      st: "step_ok False True (sc_EncodeIndexSeekKey sc ti i b) (pg_lockWaitTime e) ?S1"
      using resolveHandle_stage[of "started e" sc "tableID e"] rh l rr by (auto simp: started_fields)
    show ?thesis
    proof (rule lf_stage[where k = "sc_EncodeIndexSeekKey sc ti i b" and w = "pg_lockWaitTime e"])
      show "?S1 = [] \<or> step_ok False True (sc_EncodeIndexSeekKey sc ti i b) (pg_lockWaitTime e) ?S1"
        using st by simp
      show "sc_EncodeIndexSeekKey sc ti i b \<notin> set []" by simp
      show "lock_first [] None (s @ rp)" using row[of "[]" None] by simp
      fix sn assume "set sn \<subseteq> insert (sc_EncodeIndexSeekKey sc ti i b) (set [])"
      then have "set sn \<subseteq> {sc_EncodeIndexSeekKey sc ti i b}" by simp
      then have "\<forall>t' h. sc_EncodeRowKeyWithHandle sc t' h \<notin> set sn" using keys by (metis singletonD subsetD)
      then show "lock_first sn (Some (sc_EncodeIndexSeekKey sc ti i b)) (s @ rp)" by (rule row)
    qed
  qed
  show ?thesis unfolding ev s2 using idx l by (simp add: new_events_started)
qed

lemma Next_row_first:
  assumes nd: "\<not> pg_done e" and l: "pg_lock e"
    and rh: "resolveHandle sc (started e) (tableID e) = (Inr t', e2)"
    and e2: "e2 = started e \<or> (\<exists>vals. e2 = (started e)\<lparr>pg_idxVals := vals, pg_handle := Some h\<rparr>)"
    and i: "case pg_idxInfo e of None \<Rightarrow> True | Some idx \<Rightarrow> sc_isCommonHandleRead sc (pg_tblInfo e) idx"
    and h: "pg_handle e2 = Some h" and k: "sc_EncodeRowKeyWithHandle sc t' h \<noteq> []"
    and nl: "sc_newLockCtx sc (pg_trace e @ [EvUpdateDelta (tableID e)]) (pg_lockWaitTime e) = None"
  shows "take 2 (new_events e (snd (snd (Next sc e)))) =
           [EvUpdateDelta (tableID e),
            EvLockKeys (sc_EncodeRowKeyWithHandle sc t' h) (sc_IsPessimisticReadConsistency sc)
              (pg_lockWaitTime e)] \<and>
         list_all (is_read_of (sc_EncodeRowKeyWithHandle sc t' h))
           (drop 2 (new_events e (snd (snd (Next sc e))))) \<and>
         (\<not> sc_IsPessimisticReadConsistency sc \<and>
          \<not> isl (sc_doLockKeys sc (pg_trace e @ [EvUpdateDelta (tableID e)]) (pg_lockWaitTime e) False
                   (sc_EncodeRowKeyWithHandle sc t' h))
            \<longrightarrow> 2 < length (new_events e (snd (snd (Next sc e)))))"
proof -
  let ?key = "sc_EncodeRowKeyWithHandle sc t' h"
  let ?G = "new_events e2 (snd (getAndLock sc e2 ?key))"
  have f2: "pg_trace e2 = pg_trace (started e)" "pg_lock e2" "pg_lockWaitTime e2 = pg_lockWaitTime e"
    "pg_idxInfo e2 = pg_idxInfo e" "pg_tblInfo e2 = pg_tblInfo e"
    using e2 l by (auto simp: started_fields)
  have n2: "new_events (started e) e2 = []" using f2(1) by (simp add: new_events_def)
  have i2: "case pg_idxInfo e2 of None \<Rightarrow> True | Some idx \<Rightarrow> sc_isCommonHandleRead sc (pg_tblInfo e2) idx"
    using i f2 by (auto split: option.splits)
  have "snd (snd (readRow sc e2 t')) = snd (getAndLock sc e2 ?key)"
    using readRow_no_index[OF i2 h] .
  then have ev: "new_events e (snd (snd (Next sc e))) = EvUpdateDelta (tableID e) # ?G"
    using Next_events[OF nd rh] l n2 by (simp add: new_events_started)
  have ls: "sc_newLockCtx sc (pg_trace e2) (pg_lockWaitTime e2) = None"
    using l nl f2 by (simp add: started_fields)
  from getAndLock_locked[OF f2(2) k ls]
  have g: "?G = EvLockKeys ?key (sc_IsPessimisticReadConsistency sc) (pg_lockWaitTime e) # drop 1 ?G"
    and rs: "list_all (is_read_of ?key) (drop 1 ?G)"
    by (simp_all add: f2)
  have t2: "take 2 (EvUpdateDelta (tableID e) # ?G) =
              [EvUpdateDelta (tableID e),
               EvLockKeys ?key (sc_IsPessimisticReadConsistency sc) (pg_lockWaitTime e)]"
    by (subst g) simp
  have d2: "drop 2 (EvUpdateDelta (tableID e) # ?G) = drop 1 ?G" by simp
  have ln: "2 < length (EvUpdateDelta (tableID e) # ?G)"
    if "\<not> sc_IsPessimisticReadConsistency sc"
      "\<not> isl (sc_doLockKeys sc (pg_trace e @ [EvUpdateDelta (tableID e)]) (pg_lockWaitTime e) False ?key)"
    using getAndLock_rr_reads[OF that(1) f2(2) k ls] that(2) l f2 by (simp add: started_fields)
  show ?thesis unfolding ev using t2 d2 rs ln by simp
qed

lemma Next_handle_path:
  assumes nd: "\<not> pg_done e" and l: "pg_lock e" and i: "pg_idxInfo e = None"
    and h: "pg_handle e = Some h" and k: "sc_EncodeRowKeyWithHandle sc (tableID e) h \<noteq> []"
    and nl: "sc_newLockCtx sc (pg_trace e @ [EvUpdateDelta (tableID e)]) (pg_lockWaitTime e) = None"
  shows "take 2 (new_events e (snd (snd (Next sc e)))) =
           [EvUpdateDelta (tableID e),
            EvLockKeys (sc_EncodeRowKeyWithHandle sc (tableID e) h) (sc_IsPessimisticReadConsistency sc)
              (pg_lockWaitTime e)] \<and>
         list_all (is_read_of (sc_EncodeRowKeyWithHandle sc (tableID e) h))
           (drop 2 (new_events e (snd (snd (Next sc e))))) \<and>
         (\<not> sc_IsPessimisticReadConsistency sc \<and>
          \<not> isl (sc_doLockKeys sc (pg_trace e @ [EvUpdateDelta (tableID e)]) (pg_lockWaitTime e) False
                   (sc_EncodeRowKeyWithHandle sc (tableID e) h))
            \<longrightarrow> 2 < length (new_events e (snd (snd (Next sc e)))))"
proof -
  have rh: "resolveHandle sc (started e) (tableID e) = (Inr (tableID e), started e)"
    using i by (simp add: resolveHandle_def started_fields)
  show ?thesis
    by (rule Next_row_first[OF nd l rh _ _ _ k nl]) (simp_all add: i h started_fields)
qed

lemma Next_common_path:
  assumes nd: "\<not> pg_done e" and l: "pg_lock e" and i: "pg_idxInfo e = Some idx"
    and c: "sc_isCommonHandleRead sc (pg_tblInfo e) idx"
    and enc: "fst (EncodeUniqueIndexValuesForKey sc (pg_tblInfo e) idx (pg_idxVals e)) = Inr hb"
    and nh: "sc_NewCommonHandle sc hb = Inr h"
    and k: "sc_EncodeRowKeyWithHandle sc (tableID e) h \<noteq> []"
    and nl: "sc_newLockCtx sc (pg_trace e @ [EvUpdateDelta (tableID e)]) (pg_lockWaitTime e) = None"
  shows "take 2 (new_events e (snd (snd (Next sc e)))) =
           [EvUpdateDelta (tableID e),
            EvLockKeys (sc_EncodeRowKeyWithHandle sc (tableID e) h) (sc_IsPessimisticReadConsistency sc)
              (pg_lockWaitTime e)] \<and>
         list_all (is_read_of (sc_EncodeRowKeyWithHandle sc (tableID e) h))
           (drop 2 (new_events e (snd (snd (Next sc e))))) \<and>
         (\<not> sc_IsPessimisticReadConsistency sc \<and>
          \<not> isl (sc_doLockKeys sc (pg_trace e @ [EvUpdateDelta (tableID e)]) (pg_lockWaitTime e) False
                   (sc_EncodeRowKeyWithHandle sc (tableID e) h))
            \<longrightarrow> 2 < length (new_events e (snd (snd (Next sc e)))))"
proof -
  obtain vals where en: "EncodeUniqueIndexValuesForKey sc (pg_tblInfo e) idx (pg_idxVals e) = (Inr hb, vals)"
    using enc by (cases "EncodeUniqueIndexValuesForKey sc (pg_tblInfo e) idx (pg_idxVals e)") simp
  have rh: "resolveHandle sc (started e) (tableID e) =
              (Inr (tableID e), (started e)\<lparr>pg_idxVals := vals, pg_handle := Some h\<rparr>)"
    using i c en nh by (simp add: resolveHandle_def started_fields)
  show ?thesis
    by (rule Next_row_first[OF nd l rh _ _ _ k nl]) (auto simp: i c started_fields)
qed

lemma Next_index_path:
  assumes nd: "\<not> pg_done e" and l: "pg_lock e" and i: "pg_idxInfo e = Some idx"
    and nc: "\<not> sc_isCommonHandleRead sc (pg_tblInfo e) idx"
    and enc: "fst (EncodeUniqueIndexKey sc (pg_tblInfo e) idx (pg_idxVals e) (tableID e)) = Inr ik"
    and k: "ik \<noteq> []"
    and nl: "sc_newLockCtx sc (pg_trace e @ [EvUpdateDelta (tableID e)]) (pg_lockWaitTime e) = None"
  shows "take 2 (new_events e (snd (snd (Next sc e)))) =
           [EvUpdateDelta (tableID e),
            EvLockKeys ik (sc_IsPessimisticReadConsistency sc) (pg_lockWaitTime e)] \<and>
         (\<not> sc_IsPessimisticReadConsistency sc \<and>
          \<not> isl (sc_doLockKeys sc (pg_trace e @ [EvUpdateDelta (tableID e)]) (pg_lockWaitTime e) False ik)
            \<longrightarrow> 2 < length (new_events e (snd (snd (Next sc e)))) \<and>
                is_read_of ik (new_events e (snd (snd (Next sc e))) ! 2))"
proof -
  obtain vals where en: "EncodeUniqueIndexKey sc (pg_tblInfo e) idx (pg_idxVals e) (tableID e) = (Inr ik, vals)"
    using enc by (cases "EncodeUniqueIndexKey sc (pg_tblInfo e) idx (pg_idxVals e) (tableID e)") simp
  let ?e1 = "(started e)\<lparr>pg_idxVals := vals, pg_idxKey := ik\<rparr>"
  let ?G = "new_events ?e1 (snd (getAndLock sc ?e1 ik))"
  obtain r e2 where rh: "resolveHandle sc (started e) (tableID e) = (r, e2)"
    by (cases "resolveHandle sc (started e) (tableID e)")
  let ?S2 = "case r of Inl x \<Rightarrow> [] | Inr t' \<Rightarrow> new_events e2 (snd (snd (readRow sc e2 t')))"
  have s1: "new_events (started e) e2 = ?G"
    using resolveHandle_index_events[of "started e" idx sc "tableID e" ik vals] i nc en rh
    by (simp add: started_fields)
  have ev: "new_events e (snd (snd (Next sc e))) = EvUpdateDelta (tableID e) # ?G @ ?S2"
    using Next_events[OF nd rh] l s1 by (simp add: new_events_started)
  have ls: "pg_lock ?e1" "sc_newLockCtx sc (pg_trace ?e1) (pg_lockWaitTime ?e1) = None"
    using l nl by (simp_all add: started_fields)
  from getAndLock_locked[OF ls(1) k ls(2)]
  have g: "?G = EvLockKeys ik (sc_IsPessimisticReadConsistency sc) (pg_lockWaitTime e) # drop 1 ?G"
    and rs: "list_all (is_read_of ik) (drop 1 ?G)"
    by (simp_all add: started_fields)
  have t2: "take 2 (EvUpdateDelta (tableID e) # ?G @ ?S2) =
              [EvUpdateDelta (tableID e),
               EvLockKeys ik (sc_IsPessimisticReadConsistency sc) (pg_lockWaitTime e)]"
    by (subst g) simp
  have rd: "2 < length (EvUpdateDelta (tableID e) # ?G @ ?S2) \<and>
            is_read_of ik ((EvUpdateDelta (tableID e) # ?G @ ?S2) ! 2)"
    if "\<not> sc_IsPessimisticReadConsistency sc"
      "\<not> isl (sc_doLockKeys sc (pg_trace e @ [EvUpdateDelta (tableID e)]) (pg_lockWaitTime e) False ik)"
  proof -
    have ln: "1 < length ?G"
      using getAndLock_rr_reads[OF that(1) ls(1) k ls(2)] that(2) l by (simp add: started_fields)
    then have "is_read_of ik (drop 1 ?G ! 0)" using rs by (simp add: list_all_length)
    then have "is_read_of ik (?G ! 1)" using ln by simp
    then show ?thesis using ln by (simp add: nth_append)
  qed
  show ?thesis unfolding ev using t2 rd by simp
qed

text \<open>
  Claim C1. A first call of \<open>Next\<close> on an executor that locks, when a lock context can be
  made, starts its trace with the delta of the table and then the lock request: on the
  row key when the plan has no index or reads through the clustered primary key (all
  that follows are reads of the row key), on the index key when the plan reads through
  a secondary index. The request is unconditional under repeatable read,
  and when it succeeds a read of the same key comes next; it carries
  \<open>LockOnlyIfExists\<close> under read-committed, as every lock request of the call does.
  Under repeatable read, index keys and row keys being different keys, every read of
  the call is a read of the key of the latest lock request, and no key is locked after
  it has been read.
\<close>

theorem lock_before_read:
  assumes "\<not> pg_done e" and "pg_lock e"
  shows
    "(pg_idxInfo e = None \<and> pg_handle e = Some h \<and> sc_EncodeRowKeyWithHandle sc (tableID e) h \<noteq> [] \<and>
      sc_newLockCtx sc (pg_trace e @ [EvUpdateDelta (tableID e)]) (pg_lockWaitTime e) = None \<longrightarrow>
        take 2 (new_events e (snd (snd (Next sc e)))) =
          [EvUpdateDelta (tableID e),
           EvLockKeys (sc_EncodeRowKeyWithHandle sc (tableID e) h) (sc_IsPessimisticReadConsistency sc)
             (pg_lockWaitTime e)] \<and>
        list_all (is_read_of (sc_EncodeRowKeyWithHandle sc (tableID e) h))
          (drop 2 (new_events e (snd (snd (Next sc e))))) \<and>
        (\<not> sc_IsPessimisticReadConsistency sc \<and>
         \<not> isl (sc_doLockKeys sc (pg_trace e @ [EvUpdateDelta (tableID e)]) (pg_lockWaitTime e) False
                  (sc_EncodeRowKeyWithHandle sc (tableID e) h))
           \<longrightarrow> 2 < length (new_events e (snd (snd (Next sc e)))))) \<and>
     (pg_idxInfo e = Some idx \<and> sc_isCommonHandleRead sc (pg_tblInfo e) idx \<and>
      fst (EncodeUniqueIndexValuesForKey sc (pg_tblInfo e) idx (pg_idxVals e)) = Inr hb \<and>
      sc_NewCommonHandle sc hb = Inr h \<and> sc_EncodeRowKeyWithHandle sc (tableID e) h \<noteq> [] \<and>
      sc_newLockCtx sc (pg_trace e @ [EvUpdateDelta (tableID e)]) (pg_lockWaitTime e) = None \<longrightarrow>
        take 2 (new_events e (snd (snd (Next sc e)))) =
          [EvUpdateDelta (tableID e),
           EvLockKeys (sc_EncodeRowKeyWithHandle sc (tableID e) h) (sc_IsPessimisticReadConsistency sc)
             (pg_lockWaitTime e)] \<and>
        list_all (is_read_of (sc_EncodeRowKeyWithHandle sc (tableID e) h))
          (drop 2 (new_events e (snd (snd (Next sc e))))) \<and>
        (\<not> sc_IsPessimisticReadConsistency sc \<and>
         \<not> isl (sc_doLockKeys sc (pg_trace e @ [EvUpdateDelta (tableID e)]) (pg_lockWaitTime e) False
                  (sc_EncodeRowKeyWithHandle sc (tableID e) h))
           \<longrightarrow> 2 < length (new_events e (snd (snd (Next sc e)))))) \<and>
     (pg_idxInfo e = Some idx \<and> \<not> sc_isCommonHandleRead sc (pg_tblInfo e) idx \<and>
      fst (EncodeUniqueIndexKey sc (pg_tblInfo e) idx (pg_idxVals e) (tableID e)) = Inr ik \<and> ik \<noteq> [] \<and>
      sc_newLockCtx sc (pg_trace e @ [EvUpdateDelta (tableID e)]) (pg_lockWaitTime e) = None \<longrightarrow>
        take 2 (new_events e (snd (snd (Next sc e)))) =
          [EvUpdateDelta (tableID e),
           EvLockKeys ik (sc_IsPessimisticReadConsistency sc) (pg_lockWaitTime e)] \<and>
        (\<not> sc_IsPessimisticReadConsistency sc \<and>
         \<not> isl (sc_doLockKeys sc (pg_trace e @ [EvUpdateDelta (tableID e)]) (pg_lockWaitTime e) False ik)
           \<longrightarrow> 2 < length (new_events e (snd (snd (Next sc e)))) \<and>
               is_read_of ik (new_events e (snd (snd (Next sc e))) ! 2))) \<and>
     (sc_IsPessimisticReadConsistency sc \<longrightarrow>
        list_all lock_only_if_exists (new_events e (snd (snd (Next sc e))))) \<and>
     (\<not> sc_IsPessimisticReadConsistency sc \<and>
      (\<forall>t i b t' h'. sc_EncodeIndexSeekKey sc t i b \<noteq> sc_EncodeRowKeyWithHandle sc t' h') \<longrightarrow>
        lock_first [] None (new_events e (snd (snd (Next sc e)))))"
proof -
  have rc: "list_all lock_only_if_exists (new_events e (snd (snd (Next sc e))))"
    if "sc_IsPessimisticReadConsistency sc"
    using Next_all[OF assms(1), of sc] that next_shape_rc by metis
  show ?thesis
    using Next_handle_path[OF assms, of h sc] Next_common_path[OF assms, of idx sc hb h]
      Next_index_path[OF assms, of idx sc ik] rc
      Next_lock_first[OF assms, of sc]
    by blast
qed

lemmas next_defs = tableID_def started_def plain_read_def

theorem lock_before_read_witness:
  "new_events ex_exec (snd (snd (Next ex_sc ex_exec))) =
     [EvUpdateDelta 1, EvLockKeys [105, 7] False 0, EvMemBufferGet [105, 7], EvLockCacheGet [105, 7],
      EvSnapshotGet [105, 7], EvLockKeys [114, 9] False 0, EvMemBufferGet [114, 9],
      EvLockCacheGet [114, 9], EvSnapshotGet [114, 9], EvReportInconsistent [114, 9] [105, 7]] \<and>
   take 2 (new_events ex_exec (snd (snd (Next ex_sc ex_exec)))) =
     [EvUpdateDelta 1, EvLockKeys [105, 7] False 0] \<and>
   is_read_of [105, 7] (new_events ex_exec (snd (snd (Next ex_sc ex_exec))) ! 2) \<and>
   lock_first [] None (new_events ex_exec (snd (snd (Next ex_sc ex_exec)))) \<and>
   new_events (ex_exec\<lparr>pg_idxInfo := None, pg_handle := Some (IntHandle 9)\<rparr>)
     (snd (snd (Next ex_sc (ex_exec\<lparr>pg_idxInfo := None, pg_handle := Some (IntHandle 9)\<rparr>)))) =
     [EvUpdateDelta 1, EvLockKeys [114, 9] False 0, EvMemBufferGet [114, 9], EvLockCacheGet [114, 9],
      EvSnapshotGet [114, 9]] \<and>
   take 2 (new_events (ex_exec\<lparr>pg_idxInfo := None, pg_handle := Some (IntHandle 9)\<rparr>)
     (snd (snd (Next ex_sc (ex_exec\<lparr>pg_idxInfo := None, pg_handle := Some (IntHandle 9)\<rparr>))))) =
     [EvUpdateDelta 1, EvLockKeys [114, 9] False 0] \<and>
   new_events ex_exec (snd (snd (Next (ex_sc\<lparr>sc_IsPessimisticReadConsistency := True\<rparr>) ex_exec))) =
     [EvUpdateDelta 1, EvLockKeys [105, 7] True 0] \<and>
   list_all lock_only_if_exists
     (new_events ex_exec (snd (snd (Next (ex_sc\<lparr>sc_IsPessimisticReadConsistency := True\<rparr>) ex_exec))))"
proof -
  let ?rc = "ex_sc\<lparr>sc_IsPessimisticReadConsistency := True\<rparr>"
  let ?eh = "ex_exec\<lparr>pg_idxInfo := None, pg_handle := Some (IntHandle 9)\<rparr>"
  have h: "\<not> pg_done ex_exec" "pg_lock ex_exec" "\<not> pg_done ?eh" "pg_lock ?eh"
    by (simp_all add: ex_defs)
  have tr: "new_events ex_exec (snd (snd (Next ex_sc ex_exec))) =
     [EvUpdateDelta 1, EvLockKeys [105, 7] False 0, EvMemBufferGet [105, 7], EvLockCacheGet [105, 7],
      EvSnapshotGet [105, 7], EvLockKeys [114, 9] False 0, EvMemBufferGet [114, 9],
      EvLockCacheGet [114, 9], EvSnapshotGet [114, 9], EvReportInconsistent [114, 9] [105, 7]]"
    "new_events ?eh (snd (snd (Next ex_sc ?eh))) =
     [EvUpdateDelta 1, EvLockKeys [114, 9] False 0, EvMemBufferGet [114, 9], EvLockCacheGet [114, 9],
      EvSnapshotGet [114, 9]]"
    "new_events ex_exec (snd (snd (Next ?rc ex_exec))) = [EvUpdateDelta 1, EvLockKeys [105, 7] True 0]"
    by (simp_all add: ex_defs exec_defs)
  have i: "pg_idxInfo ex_exec = Some ex_ib" "\<not> sc_isCommonHandleRead ex_sc (pg_tblInfo ex_exec) ex_ib"
    "fst (EncodeUniqueIndexKey ex_sc (pg_tblInfo ex_exec) ex_ib (pg_idxVals ex_exec) (tableID ex_exec)) =
       Inr [105, 7]"
    "([105, 7] :: bytes) \<noteq> []"
    "sc_newLockCtx ex_sc (pg_trace ex_exec @ [EvUpdateDelta (tableID ex_exec)]) (pg_lockWaitTime ex_exec) = None"
    "\<not> sc_IsPessimisticReadConsistency ex_sc"
    "\<not> isl (sc_doLockKeys ex_sc (pg_trace ex_exec @ [EvUpdateDelta (tableID ex_exec)])
              (pg_lockWaitTime ex_exec) False [105, 7])"
    "tableID ex_exec = 1" "pg_lockWaitTime ex_exec = 0"
    by (simp_all add: ex_defs exec_defs next_defs)
  have ks: "\<forall>t i b t' h'. sc_EncodeIndexSeekKey ex_sc t i b \<noteq> sc_EncodeRowKeyWithHandle ex_sc t' h'"
    by (simp add: ex_sc_def split: Handle.split)
  have j: "pg_idxInfo ?eh = None" "pg_handle ?eh = Some (IntHandle 9)"
    "sc_EncodeRowKeyWithHandle ex_sc (tableID ?eh) (IntHandle 9) = [114, 9]"
    "sc_newLockCtx ex_sc (pg_trace ?eh @ [EvUpdateDelta (tableID ?eh)]) (pg_lockWaitTime ?eh) = None"
    "tableID ?eh = 1" "pg_lockWaitTime ?eh = 0"
    by (simp_all add: ex_defs next_defs)
  have r: "sc_IsPessimisticReadConsistency ?rc" by simp
  note a = lock_before_read[OF h(1,2), of "IntHandle 9" ex_sc ex_ib "[]" "[105, 7]"]
  note b = lock_before_read[OF h(3,4), of "IntHandle 9" ex_sc ex_ib "[]" "[105, 7]"]
  note c = lock_before_read[OF h(1,2), of "IntHandle 9" ?rc ex_ib "[]" "[105, 7]"]
  have a1: "take 2 (new_events ex_exec (snd (snd (Next ex_sc ex_exec)))) =
              [EvUpdateDelta 1, EvLockKeys [105, 7] False 0] \<and>
            is_read_of [105, 7] (new_events ex_exec (snd (snd (Next ex_sc ex_exec))) ! 2)"
    using a i by simp
  have a2: "lock_first [] None (new_events ex_exec (snd (snd (Next ex_sc ex_exec))))"
    using a i(6) ks by blast
  have b1: "take 2 (new_events ?eh (snd (snd (Next ex_sc ?eh)))) =
              [EvUpdateDelta 1, EvLockKeys [114, 9] False 0]"
    using b j i(6) by simp
  have c1: "list_all lock_only_if_exists (new_events ex_exec (snd (snd (Next ?rc ex_exec))))"
    using c r by blast
  show ?thesis using tr a1 a2 b1 c1 by simp
qed

lemma resolveHandle_fields:
  "pg_idxInfo (snd (resolveHandle sc e t)) = pg_idxInfo e \<and>
   pg_tblInfo (snd (resolveHandle sc e t)) = pg_tblInfo e \<and>
   pg_lock (snd (resolveHandle sc e t)) = pg_lock e"
  using resolveHandle_all[of e sc t] by (simp add: wframe_def)

lemma getAndLock_fields:
  "pg_idxInfo (snd (getAndLock sc e k)) = pg_idxInfo e \<and>
   pg_tblInfo (snd (getAndLock sc e k)) = pg_tblInfo e \<and>
   pg_trace (snd (getAndLock sc e k)) = pg_trace e @ new_events e (snd (getAndLock sc e k))"
  using getAndLock_all[of e sc k] frame_fields[of e "snd (getAndLock sc e k)"] frame_trace by blast

lemma secondary_read_fields:
  "pg_idxInfo e' = pg_idxInfo e \<Longrightarrow> pg_tblInfo e' = pg_tblInfo e \<Longrightarrow>
     secondary_read sc e' = secondary_read sc e"
  by (simp add: secondary_read_def split: option.split)

lemma readRow_missing:
  assumes h: "pg_handle e = Some h"
    and g: "getAndLock sc e (sc_EncodeRowKeyWithHandle sc t h) = (Inr [], e1)"
  shows "readRow sc e t =
           (if secondary_read sc e \<and> \<not> sc_WeakConsistency sc
            then (sc_ReportLookupInconsistent sc (pg_trace e1) h (sc_EncodeRowKeyWithHandle sc t h) (pg_idxKey e1),
                  [], emit (EvReportInconsistent (sc_EncodeRowKeyWithHandle sc t h) (pg_idxKey e1)) e1)
            else (None, [], e1))"
proof -
  have f: "pg_idxInfo e1 = pg_idxInfo e" "pg_tblInfo e1 = pg_tblInfo e"
    using getAndLock_fields[of sc e "sc_EncodeRowKeyWithHandle sc t h"] g by simp_all
  show ?thesis using h g f
    by (cases "pg_idxInfo e") (simp_all add: readRow_def Let_def secondary_read_def)
qed

lemma Next_row_missing:
  assumes nd: "\<not> pg_done e"
    and rh: "resolveHandle sc (started e) (tableID e) = (Inr t', e2)"
    and h: "pg_handle e2 = Some h"
    and g: "getAndLock sc e2 (sc_EncodeRowKeyWithHandle sc t' h) = (Inr [], e3)"
  shows "Next sc e =
           (if secondary_read sc e \<and> \<not> sc_WeakConsistency sc
            then (sc_ReportLookupInconsistent sc (pg_trace e3) h (sc_EncodeRowKeyWithHandle sc t' h) (pg_idxKey e3),
                  [], emit (EvReportInconsistent (sc_EncodeRowKeyWithHandle sc t' h) (pg_idxKey e3)) e3)
            else (None, [], e3))"
proof -
  have f: "pg_idxInfo e2 = pg_idxInfo e" "pg_tblInfo e2 = pg_tblInfo e"
    using resolveHandle_fields[of sc "started e" "tableID e"] rh by (simp_all add: started_fields)
  have s: "secondary_read sc e2 = secondary_read sc e" using secondary_read_fields[OF f] .
  have "Next sc e = readRow sc e2 t'" using Next_eq[OF nd, of sc] rh by simp
  then show ?thesis using readRow_missing[OF h g] s by simp
qed

lemma no_report_events: "list_all (\<lambda>ev. \<not> is_report_ev ev) evs \<Longrightarrow> \<not> list_ex is_report_ev evs"
  by (simp add: list_all_iff list_ex_iff)

lemma Next_report_iff:
  assumes nd: "\<not> pg_done e"
  shows "list_ex is_report_ev (new_events e (snd (snd (Next sc e)))) =
           (secondary_read sc e \<and> \<not> sc_WeakConsistency sc \<and> row_missing sc e)"
proof -
  obtain r e2 where rh: "resolveHandle sc (started e) (tableID e) = (r, e2)"
    by (cases "resolveHandle sc (started e) (tableID e)")
  have u: "\<not> list_ex is_report_ev (new_events e (started e))"
    by (simp add: new_events_started)
  have s1: "\<not> list_ex is_report_ev (new_events (started e) e2)"
    using resolveHandle_no_report[of "started e" sc "tableID e"] rh no_report_events by simp
  note ev = Next_events[OF nd rh]
  show ?thesis
  proof (cases r)
    case (Inl x)
    then have "\<not> row_missing sc e" using rh by (simp add: row_missing_def)
    then show ?thesis using ev Inl u s1 by simp
  next
    case (Inr t')
    show ?thesis
    proof (cases "pg_handle e2")
      case None
      then have "readRow sc e2 t' = (Some ErrPanic, [], e2)" by (simp add: readRow_def)
      moreover have "\<not> row_missing sc e" using rh Inr None by (simp add: row_missing_def)
      ultimately show ?thesis using ev Inr u s1 by (simp add: new_events_self)
    next
      case (Some h)
      let ?key = "sc_EncodeRowKeyWithHandle sc t' h"
      obtain rg e3 where g: "getAndLock sc e2 ?key = (rg, e3)" by (cases "getAndLock sc e2 ?key")
      have g3: "\<not> list_ex is_report_ev (new_events e2 e3)"
        using getAndLock_no_report[of e2 sc ?key] g no_report_events by simp
      have t3: "pg_trace e3 = pg_trace e2 @ new_events e2 e3"
        using getAndLock_fields[of sc e2 ?key] g by simp
      have rm: "row_missing sc e = (rg = Inr [])" using rh Inr Some g by (simp add: row_missing_def)
      show ?thesis
      proof (cases "rg = Inr []")
        case True
        have f: "pg_idxInfo e2 = pg_idxInfo e" "pg_tblInfo e2 = pg_tblInfo e"
          using resolveHandle_fields[of sc "started e" "tableID e"] rh by (simp_all add: started_fields)
        have s: "secondary_read sc e2 = secondary_read sc e" using secondary_read_fields[OF f] .
        have rr: "readRow sc e2 t' =
           (if secondary_read sc e \<and> \<not> sc_WeakConsistency sc
            then (sc_ReportLookupInconsistent sc (pg_trace e3) h ?key (pg_idxKey e3),
                  [], emit (EvReportInconsistent ?key (pg_idxKey e3)) e3)
            else (None, [], e3))"
          using readRow_missing[OF Some, of sc t' e3] g True s by simp
        have "new_events e2 (emit (EvReportInconsistent ?key (pg_idxKey e3)) e3) =
                new_events e2 e3 @ [EvReportInconsistent ?key (pg_idxKey e3)]"
          using new_events_append[OF t3, of "emit (EvReportInconsistent ?key (pg_idxKey e3)) e3"]
            frame_trace[OF frame_emit] by (simp add: new_events_emit)
        then show ?thesis using ev Inr u s1 g3 rr rm True by simp
      next
        case False
        have "snd (snd (readRow sc e2 t')) = e3"
        proof (cases rg)
          case (Inl err)
          then show ?thesis using Some g by (simp add: readRow_def Let_def)
        next
          case (Inr val)
          then have "val \<noteq> []" using False by simp
          then show ?thesis using Some g Inr by (simp add: readRow_def Let_def split: sum.split)
        qed
        then show ?thesis using ev Inr u s1 g3 rm False by simp
      qed
    qed
  qed
qed

lemma plain_read_upd:
  "pg_lock e' = pg_lock e \<Longrightarrow> pg_tblInfo e' = pg_tblInfo e \<Longrightarrow> plain_read sc e' = plain_read sc e"
  by (simp add: plain_read_def)

lemma get_plain:
  "plain_read sc e \<Longrightarrow> k \<noteq> [] \<Longrightarrow>
     get sc e k = (sc_snapshotGet sc (pg_trace e) k, emit (EvSnapshotGet k) e)"
  by (auto simp: plain_read_def get_def get_from_store_def)

lemma getAndLock_plain:
  assumes "plain_read sc e" and "k \<noteq> []"
  shows "getAndLock sc e k =
           (case sc_snapshotGet sc (pg_trace e) k of
              Inl err \<Rightarrow> if err \<noteq> ErrNotExist then Inl err else Inr []
            | Inr v \<Rightarrow> Inr v,
            emit (EvSnapshotGet k) e)"
proof -
  have l: "\<not> pg_lock e" using assms(1) by (simp add: plain_read_def)
  show ?thesis using l get_plain[OF assms] assms(2)
    by (cases "sc_snapshotGet sc (pg_trace e) k")
       (simp_all add: getAndLock_def lockKeyIfNeeded_def lockKeyBase_def)
qed

lemma readIndexEntry_plain:
  assumes "plain_read sc e" and "pg_idxKey e \<noteq> []"
  shows "readIndexEntry sc e =
           (case sc_snapshotGet sc (pg_trace e) (pg_idxKey e) of
              Inl err \<Rightarrow> (if err \<noteq> ErrNotExist then Some err else None,
                          (emit (EvSnapshotGet (pg_idxKey e)) e)\<lparr>pg_handleVal := []\<rparr>)
            | Inr v \<Rightarrow> (None, (emit (EvSnapshotGet (pg_idxKey e)) e)\<lparr>pg_handleVal := v\<rparr>))"
proof -
  have l: "\<not> pg_lock e" using assms(1) by (simp add: plain_read_def)
  show ?thesis using l get_plain[OF assms] assms(2)
    by (cases "sc_snapshotGet sc (pg_trace e) (pg_idxKey e)")
       (simp_all add: readIndexEntry_def lockKeyIfNeeded_def lockKeyBase_def)
qed

lemma resolveHandle_plain:
  assumes p: "plain_read sc e" and i: "pg_idxInfo e = Some idx"
    and nc: "\<not> sc_isCommonHandleRead sc (pg_tblInfo e) idx"
    and enc: "EncodeUniqueIndexKey sc (pg_tblInfo e) idx (pg_idxVals e) t = (Inr ik, vals)"
    and k: "ik \<noteq> []"
  shows "resolveHandle sc e t =
           (case sc_snapshotGet sc (pg_trace e) ik of
              Inl err \<Rightarrow>
                (Inl (if err \<noteq> ErrNotExist then Some err else None),
                 e\<lparr>pg_idxVals := vals, pg_idxKey := ik, pg_trace := pg_trace e @ [EvSnapshotGet ik],
                   pg_handleVal := []\<rparr>)
            | Inr hv \<Rightarrow>
                if hv = [] then
                  (Inl None, e\<lparr>pg_idxVals := vals, pg_idxKey := ik,
                               pg_trace := pg_trace e @ [EvSnapshotGet ik], pg_handleVal := []\<rparr>)
                else
                  (case sc_DecodeHandleInUniqueIndexValue sc hv (tbl_IsCommonHandle (pg_tblInfo e)) of
                     Inl err \<Rightarrow>
                       (Inl (Some err), e\<lparr>pg_idxVals := vals, pg_idxKey := ik,
                                          pg_trace := pg_trace e @ [EvSnapshotGet ik], pg_handleVal := hv\<rparr>)
                   | Inr h \<Rightarrow>
                       (if idx_Global idx
                        then (case sc_DecodePartitionID sc hv of
                                Inl err \<Rightarrow> Inl (Some err) | Inr pid \<Rightarrow> Inr pid)
                        else Inr t,
                        e\<lparr>pg_idxVals := vals, pg_idxKey := ik,
                          pg_trace := pg_trace e @ [EvSnapshotGet ik], pg_handleVal := hv,
                          pg_handle := Some h\<rparr>)))"
proof -
  let ?e1 = "e\<lparr>pg_idxVals := vals, pg_idxKey := ik\<rparr>"
  have p1: "plain_read sc ?e1" using p plain_read_upd[of ?e1 e sc] by simp
  have k1: "pg_idxKey ?e1 \<noteq> []" using k by simp
  note ri = readIndexEntry_plain[OF p1 k1]
  show ?thesis
  proof (cases "sc_snapshotGet sc (pg_trace e) ik")
    case (Inl err)
    then show ?thesis using i nc enc ri
      by (simp add: resolveHandle_def Let_def emit_def)
  next
    case (Inr hv)
    show ?thesis
    proof (cases "hv = []")
      case True
      then show ?thesis using i nc enc ri Inr
        by (simp add: resolveHandle_def Let_def emit_def)
    next
      case False
      then show ?thesis using i nc enc ri Inr
        by (simp add: resolveHandle_def Let_def emit_def split: sum.split)
    qed
  qed
qed

lemma started_plain: "plain_read sc e \<Longrightarrow> started e = e\<lparr>pg_done := True\<rparr>"
  by (simp add: started_def plain_read_def)

lemma Next_plain_index:
  assumes nd: "\<not> pg_done e" and p: "plain_read sc e" and i: "pg_idxInfo e = Some idx"
    and nc: "\<not> sc_isCommonHandleRead sc (pg_tblInfo e) idx" and ng: "\<not> idx_Global idx"
    and enc: "fst (EncodeUniqueIndexKey sc (pg_tblInfo e) idx (pg_idxVals e) (tableID e)) = Inr ik"
    and k: "ik \<noteq> []"
    and s1: "sc_snapshotGet sc (pg_trace e) ik = Inr hv" and hv: "hv \<noteq> []"
    and dh: "sc_DecodeHandleInUniqueIndexValue sc hv (tbl_IsCommonHandle (pg_tblInfo e)) = Inr h"
    and rk: "sc_EncodeRowKeyWithHandle sc (tableID e) h \<noteq> []"
    and s2: "sc_snapshotGet sc (pg_trace e @ [EvSnapshotGet ik]) (sc_EncodeRowKeyWithHandle sc (tableID e) h)
               = Inl ErrNotExist \<or>
             sc_snapshotGet sc (pg_trace e @ [EvSnapshotGet ik]) (sc_EncodeRowKeyWithHandle sc (tableID e) h)
               = Inr []"
  shows "fst (Next sc e) =
           (if sc_WeakConsistency sc then None
            else sc_ReportLookupInconsistent sc
                   (pg_trace e @ [EvSnapshotGet ik, EvSnapshotGet (sc_EncodeRowKeyWithHandle sc (tableID e) h)])
                   h (sc_EncodeRowKeyWithHandle sc (tableID e) h) ik) \<and>
         fst (snd (Next sc e)) = [] \<and>
         new_events e (snd (snd (Next sc e))) =
           EvSnapshotGet ik # EvSnapshotGet (sc_EncodeRowKeyWithHandle sc (tableID e) h) #
             (if sc_WeakConsistency sc then []
              else [EvReportInconsistent (sc_EncodeRowKeyWithHandle sc (tableID e) h) ik])"
proof -
  let ?rk = "sc_EncodeRowKeyWithHandle sc (tableID e) h"
  let ?e0 = "e\<lparr>pg_done := True\<rparr>"
  obtain vals where en: "EncodeUniqueIndexKey sc (pg_tblInfo e) idx (pg_idxVals e) (tableID e) = (Inr ik, vals)"
    using enc by (cases "EncodeUniqueIndexKey sc (pg_tblInfo e) idx (pg_idxVals e) (tableID e)") simp
  let ?e2 = "?e0\<lparr>pg_idxVals := vals, pg_idxKey := ik, pg_trace := pg_trace e @ [EvSnapshotGet ik],
                 pg_handleVal := hv, pg_handle := Some h\<rparr>"
  let ?e3 = "emit (EvSnapshotGet ?rk) ?e2"
  have st: "started e = ?e0" using started_plain[OF p] .
  have p0: "plain_read sc ?e0" using p plain_read_upd[of ?e0 e sc] by simp
  have rh: "resolveHandle sc (started e) (tableID e) = (Inr (tableID e), ?e2)"
    unfolding st
    using resolveHandle_plain[OF p0, of idx "tableID e" ik vals] i nc en k s1 hv dh ng by simp
  have p2: "plain_read sc ?e2" using p plain_read_upd[of ?e2 e sc] by simp
  have g: "getAndLock sc ?e2 ?rk = (Inr [], ?e3)"
    using getAndLock_plain[OF p2 rk] s2 by auto
  have sr: "secondary_read sc e" using i nc by (simp add: secondary_read_def)
  have h2: "pg_handle ?e2 = Some h" by simp
  have nx: "Next sc e =
           (if \<not> sc_WeakConsistency sc
            then (sc_ReportLookupInconsistent sc (pg_trace ?e3) h ?rk (pg_idxKey ?e3),
                  [], emit (EvReportInconsistent ?rk (pg_idxKey ?e3)) ?e3)
            else (None, [], ?e3))"
    using Next_row_missing[OF nd rh h2 g] sr by simp
  show ?thesis unfolding nx by (simp add: emit_def new_events_def)
qed

lemma Next_plain_no_entry:
  assumes nd: "\<not> pg_done e" and p: "plain_read sc e" and i: "pg_idxInfo e = Some idx"
    and nc: "\<not> sc_isCommonHandleRead sc (pg_tblInfo e) idx"
    and enc: "fst (EncodeUniqueIndexKey sc (pg_tblInfo e) idx (pg_idxVals e) (tableID e)) = Inr ik"
    and k: "ik \<noteq> []"
    and s1: "sc_snapshotGet sc (pg_trace e) ik = Inl ErrNotExist"
  shows "fst (Next sc e) = None \<and> fst (snd (Next sc e)) = [] \<and>
         new_events e (snd (snd (Next sc e))) = [EvSnapshotGet ik]"
proof -
  let ?e0 = "e\<lparr>pg_done := True\<rparr>"
  obtain vals where en: "EncodeUniqueIndexKey sc (pg_tblInfo e) idx (pg_idxVals e) (tableID e) = (Inr ik, vals)"
    using enc by (cases "EncodeUniqueIndexKey sc (pg_tblInfo e) idx (pg_idxVals e) (tableID e)") simp
  let ?e2 = "?e0\<lparr>pg_idxVals := vals, pg_idxKey := ik, pg_trace := pg_trace e @ [EvSnapshotGet ik],
                 pg_handleVal := []\<rparr>"
  have st: "started e = ?e0" using started_plain[OF p] .
  have p0: "plain_read sc ?e0" using p plain_read_upd[of ?e0 e sc] by simp
  have rh: "resolveHandle sc (started e) (tableID e) = (Inl None, ?e2)"
    unfolding st
    using resolveHandle_plain[OF p0, of idx "tableID e" ik vals] i nc en k s1 by simp
  have "Next sc e = (None, [], ?e2)" using Next_eq[OF nd, of sc] rh by simp
  then show ?thesis by (simp add: new_events_def)
qed

text \<open>
  Claim C2. When a first call of \<open>Next\<close> reaches the row read through a secondary index
  and \<open>getAndLock\<close> comes back with no value for the row key, \<open>Next\<close> leaves the chunk empty
  and, unless weak consistency is active, calls the consistency reporter with the handle,
  the row key and the index key and returns what the reporter returns; with weak
  consistency active it returns the nil error. The reporter is called in that case only.
  A call through such an index that ends with no index entry value in \<open>handleVal\<close> leaves
  the chunk empty. For an executor that reads the snapshot at once: when the snapshot
  has the index entry, pointing to a handle, but no row (or an empty row) for the row
  key of that handle, \<open>Next\<close> reads the index key, then the row key, and then reports,
  unless weak consistency is active; when the snapshot has no index entry, \<open>Next\<close> reads
  the index key only and returns the nil error and the empty chunk.
\<close>

theorem inconsistency_report:
  assumes "\<not> pg_done e" and "pg_idxInfo e = Some idx"
    and "\<not> sc_isCommonHandleRead sc (pg_tblInfo e) idx"
  shows
    "(resolveHandle sc (started e) (tableID e) = (Inr t', e2) \<and> pg_handle e2 = Some h \<and>
      getAndLock sc e2 (sc_EncodeRowKeyWithHandle sc t' h) = (Inr [], e3) \<longrightarrow>
        Next sc e =
          (if sc_WeakConsistency sc then (None, [], e3)
           else (sc_ReportLookupInconsistent sc (pg_trace e3) h (sc_EncodeRowKeyWithHandle sc t' h) (pg_idxKey e3),
                 [], emit (EvReportInconsistent (sc_EncodeRowKeyWithHandle sc t' h) (pg_idxKey e3)) e3))) \<and>
     list_ex is_report_ev (new_events e (snd (snd (Next sc e)))) =
       (\<not> sc_WeakConsistency sc \<and> row_missing sc e) \<and>
     (pg_handleVal (snd (snd (Next sc e))) = [] \<longrightarrow> fst (snd (Next sc e)) = []) \<and>
     (plain_read sc e \<and> \<not> idx_Global idx \<and>
      fst (EncodeUniqueIndexKey sc (pg_tblInfo e) idx (pg_idxVals e) (tableID e)) = Inr ik \<and> ik \<noteq> [] \<and>
      sc_snapshotGet sc (pg_trace e) ik = Inr hv \<and> hv \<noteq> [] \<and>
      sc_DecodeHandleInUniqueIndexValue sc hv (tbl_IsCommonHandle (pg_tblInfo e)) = Inr h \<and>
      sc_EncodeRowKeyWithHandle sc (tableID e) h \<noteq> [] \<and>
      (sc_snapshotGet sc (pg_trace e @ [EvSnapshotGet ik]) (sc_EncodeRowKeyWithHandle sc (tableID e) h)
         = Inl ErrNotExist \<or>
       sc_snapshotGet sc (pg_trace e @ [EvSnapshotGet ik]) (sc_EncodeRowKeyWithHandle sc (tableID e) h)
         = Inr []) \<longrightarrow>
        fst (Next sc e) =
          (if sc_WeakConsistency sc then None
           else sc_ReportLookupInconsistent sc
                  (pg_trace e @ [EvSnapshotGet ik, EvSnapshotGet (sc_EncodeRowKeyWithHandle sc (tableID e) h)])
                  h (sc_EncodeRowKeyWithHandle sc (tableID e) h) ik) \<and>
        fst (snd (Next sc e)) = [] \<and>
        new_events e (snd (snd (Next sc e))) =
          EvSnapshotGet ik # EvSnapshotGet (sc_EncodeRowKeyWithHandle sc (tableID e) h) #
            (if sc_WeakConsistency sc then []
             else [EvReportInconsistent (sc_EncodeRowKeyWithHandle sc (tableID e) h) ik])) \<and>
     (plain_read sc e \<and>
      fst (EncodeUniqueIndexKey sc (pg_tblInfo e) idx (pg_idxVals e) (tableID e)) = Inr ik \<and> ik \<noteq> [] \<and>
      sc_snapshotGet sc (pg_trace e) ik = Inl ErrNotExist \<longrightarrow>
        fst (Next sc e) = None \<and> fst (snd (Next sc e)) = [] \<and>
        new_events e (snd (snd (Next sc e))) = [EvSnapshotGet ik])"
proof -
  have sr: "secondary_read sc e" using assms(2,3) by (simp add: secondary_read_def)
  have 1: "Next sc e =
          (if sc_WeakConsistency sc then (None, [], e3)
           else (sc_ReportLookupInconsistent sc (pg_trace e3) h (sc_EncodeRowKeyWithHandle sc t' h) (pg_idxKey e3),
                 [], emit (EvReportInconsistent (sc_EncodeRowKeyWithHandle sc t' h) (pg_idxKey e3)) e3))"
    if "resolveHandle sc (started e) (tableID e) = (Inr t', e2)" "pg_handle e2 = Some h"
      "getAndLock sc e2 (sc_EncodeRowKeyWithHandle sc t' h) = (Inr [], e3)"
    using Next_row_missing[OF assms(1) that] sr by simp
  have 2: "list_ex is_report_ev (new_events e (snd (snd (Next sc e)))) =
             (\<not> sc_WeakConsistency sc \<and> row_missing sc e)"
    using Next_report_iff[OF assms(1), of sc] sr by simp
  show ?thesis
    using 1 2 Next_no_entry[OF assms, of] Next_plain_index[OF assms(1) _ assms(2,3), of ik hv h]
      Next_plain_no_entry[OF assms(1) _ assms(2,3), of ik]
    by blast
qed

theorem inconsistency_report_witness:
  "Next ex_sc ex_exec =
     (Some (ErrOther 8141), [],
      emit (EvReportInconsistent [114, 9] [105, 7])
        (snd (getAndLock ex_sc (snd (resolveHandle ex_sc (started ex_exec) 1)) [114, 9]))) \<and>
   fst (Next ex_sc ex_exec) = Some (ErrOther 8141) \<and>
   list_ex is_report_ev (new_events ex_exec (snd (snd (Next ex_sc ex_exec)))) \<and>
   row_missing ex_sc ex_exec \<and>
   \<not> list_ex is_report_ev
       (new_events ex_exec (snd (snd (Next (ex_sc\<lparr>sc_WeakConsistency := True\<rparr>) ex_exec)))) \<and>
   fst (Next (ex_sc\<lparr>sc_WeakConsistency := True\<rparr>) ex_exec) = None \<and>
   fst (Next (ex_sc\<lparr>sc_txnValid := False\<rparr>) (ex_exec\<lparr>pg_lock := False\<rparr>)) = Some (ErrOther 8141) \<and>
   new_events (ex_exec\<lparr>pg_lock := False\<rparr>)
     (snd (snd (Next (ex_sc\<lparr>sc_txnValid := False\<rparr>) (ex_exec\<lparr>pg_lock := False\<rparr>)))) =
     [EvSnapshotGet [105, 7], EvSnapshotGet [114, 9], EvReportInconsistent [114, 9] [105, 7]] \<and>
   fst (Next (ex_sc\<lparr>sc_txnValid := False\<rparr>) (ex_exec\<lparr>pg_lock := False, pg_idxVals := [ex_datum 8]\<rparr>)) = None \<and>
   fst (snd (Next (ex_sc\<lparr>sc_txnValid := False\<rparr>) (ex_exec\<lparr>pg_lock := False, pg_idxVals := [ex_datum 8]\<rparr>))) = [] \<and>
   new_events (ex_exec\<lparr>pg_lock := False, pg_idxVals := [ex_datum 8]\<rparr>)
     (snd (snd (Next (ex_sc\<lparr>sc_txnValid := False\<rparr>) (ex_exec\<lparr>pg_lock := False, pg_idxVals := [ex_datum 8]\<rparr>)))) =
     [EvSnapshotGet [105, 8]]"
proof -
  let ?w = "ex_sc\<lparr>sc_WeakConsistency := True\<rparr>"
  let ?p = "ex_sc\<lparr>sc_txnValid := False\<rparr>"
  let ?ep = "ex_exec\<lparr>pg_lock := False\<rparr>"
  let ?e8 = "ex_exec\<lparr>pg_lock := False, pg_idxVals := [ex_datum 8]\<rparr>"
  let ?e2 = "snd (resolveHandle ex_sc (started ex_exec) 1)"
  let ?e3 = "snd (getAndLock ex_sc ?e2 [114, 9])"
  have a: "\<not> pg_done ex_exec" "pg_idxInfo ex_exec = Some ex_ib"
    "\<not> sc_isCommonHandleRead ex_sc (pg_tblInfo ex_exec) ex_ib"
    "\<not> sc_isCommonHandleRead ?w (pg_tblInfo ex_exec) ex_ib"
    by (simp_all add: ex_defs)
  have b: "\<not> pg_done ?ep" "pg_idxInfo ?ep = Some ex_ib" "\<not> sc_isCommonHandleRead ?p (pg_tblInfo ?ep) ex_ib"
    "\<not> pg_done ?e8" "pg_idxInfo ?e8 = Some ex_ib" "\<not> sc_isCommonHandleRead ?p (pg_tblInfo ?e8) ex_ib"
    by (simp_all add: ex_defs)
  have r: "resolveHandle ex_sc (started ex_exec) (tableID ex_exec) = (Inr 1, ?e2)"
    "pg_handle ?e2 = Some (IntHandle 9)"
    "sc_EncodeRowKeyWithHandle ex_sc 1 (IntHandle 9) = [114, 9]"
    "getAndLock ex_sc ?e2 [114, 9] = (Inr [], ?e3)"
    "pg_idxKey ?e3 = [105, 7]" "\<not> sc_WeakConsistency ex_sc" "sc_WeakConsistency ?w"
    "sc_ReportLookupInconsistent ex_sc = (\<lambda>tr h k ik. Some (ErrOther 8141))"
    "row_missing ex_sc ex_exec"
    by (simp_all add: ex_defs exec_defs next_defs row_missing_def)
  have rw: "row_missing ?w ex_exec" "fst (Next ?w ex_exec) = None"
    by (simp_all add: ex_defs exec_defs next_defs row_missing_def)
  have p: "plain_read ?p ?ep" "\<not> idx_Global ex_ib"
    "fst (EncodeUniqueIndexKey ?p (pg_tblInfo ?ep) ex_ib (pg_idxVals ?ep) (tableID ?ep)) = Inr [105, 7]"
    "([105, 7] :: bytes) \<noteq> []" "sc_snapshotGet ?p (pg_trace ?ep) [105, 7] = Inr [9]" "([9] :: bytes) \<noteq> []"
    "sc_DecodeHandleInUniqueIndexValue ?p [9] (tbl_IsCommonHandle (pg_tblInfo ?ep)) = Inr (IntHandle 9)"
    "sc_EncodeRowKeyWithHandle ?p (tableID ?ep) (IntHandle 9) = [114, 9]"
    "sc_snapshotGet ?p (pg_trace ?ep @ [EvSnapshotGet [105, 7]]) [114, 9] = Inl ErrNotExist"
    "\<not> sc_WeakConsistency ?p"
    "sc_ReportLookupInconsistent ?p = (\<lambda>tr h k ik. Some (ErrOther 8141))"
    by (simp_all add: ex_defs exec_defs next_defs)
  have q: "plain_read ?p ?e8"
    "fst (EncodeUniqueIndexKey ?p (pg_tblInfo ?e8) ex_ib (pg_idxVals ?e8) (tableID ?e8)) = Inr [105, 8]"
    "([105, 8] :: bytes) \<noteq> []" "sc_snapshotGet ?p (pg_trace ?e8) [105, 8] = Inl ErrNotExist"
    by (simp_all add: ex_defs exec_defs next_defs)
  note t1 = inconsistency_report[OF a(1,2,3), where t' = 1 and ?e2.0 = ?e2 and h = "IntHandle 9"
      and ?e3.0 = ?e3 and ik = "[105, 7]" and hv = "[9]"]
  note t2 = inconsistency_report[OF a(1,2,4), where t' = 1 and ?e2.0 = ?e2 and h = "IntHandle 9"
      and ?e3.0 = ?e3 and ik = "[105, 7]" and hv = "[9]"]
  note t3 = inconsistency_report[OF b(1,2,3), where t' = 1 and ?e2.0 = ?e2 and h = "IntHandle 9"
      and ?e3.0 = ?e3 and ik = "[105, 7]" and hv = "[9]"]
  note t4 = inconsistency_report[OF b(4,5,6), where t' = 1 and ?e2.0 = ?e2 and h = "IntHandle 9"
      and ?e3.0 = ?e3 and ik = "[105, 8]" and hv = "[9]"]
  have c1: "Next ex_sc ex_exec =
     (Some (ErrOther 8141), [], emit (EvReportInconsistent [114, 9] [105, 7]) ?e3)"
    using t1 r by simp
  have c2: "list_ex is_report_ev (new_events ex_exec (snd (snd (Next ex_sc ex_exec))))"
    using conjunct1[OF conjunct2[OF t1]] r(6,9) by simp
  have c3: "\<not> list_ex is_report_ev (new_events ex_exec (snd (snd (Next ?w ex_exec))))"
    using conjunct1[OF conjunct2[OF t2]] r(7) by simp
  have c4: "fst (Next ?p ?ep) = Some (ErrOther 8141) \<and>
     new_events ?ep (snd (snd (Next ?p ?ep))) =
       [EvSnapshotGet [105, 7], EvSnapshotGet [114, 9], EvReportInconsistent [114, 9] [105, 7]]"
    using t3 p by simp
  have c5: "fst (Next ?p ?e8) = None \<and> fst (snd (Next ?p ?e8)) = [] \<and>
     new_events ?e8 (snd (snd (Next ?p ?e8))) = [EvSnapshotGet [105, 8]]"
    using t4 q by simp
  show ?thesis using c1 c2 c3 c4 c5 r(9) rw(2) by simp
qed





section \<open>Properties of the planner\<close>

lemmas ex_plan_defs = ex_pc_def ex_pe_def ex_from_def ex_eq_def ex_select_def ex_tbl_tiny_def ex_part_def
  ex_tbl_def ex_pair_def ex_tn_def ex_in_def ex_ib_def ex_idx_def ex_col_def ex_int_def ex_ci_def ex_datum_def

lemmas plan_defs = tryPointGetPlan_def tryPointGetPlan_checks_def tryPointGetPlan_resolve_def
  tryPointGetPlan_key_def checkTblIndexForPointPlan_def indexPointPlan_def latestIndexCheck_def newPointGetPlan_def
  getSingleTableNameAndAlias_def buildSchemaFromFields_def tryExtractRowChecksumColumn_def findCol_def
  colInfoToColumn_def getNameValuePairs_EQ_def constValue_def setColumnCollation_def
  checkCanConvertInPointGet_def FindColumnInfo_def IsNull_def IsGenerated_def GetInt64_def
  findPKHandle_def findInPairs_def getIndexValues_def HasPrefixIndex_def indexIsAvailableByHints_def
  hint_match_def partitionNameInSet_def getPartitionDef_def definitionAt_def go_rem_def Abs64_def
  findPartitionIdx_def zeroPair_def zeroDatum_def NewFieldType_Longlong_def Let_def

text \<open>
  Claim C6. A statement with a LIMIT clause of count 0 or of an offset other than 0,
  with ORDER BY or with HAVING gets no plan from \<open>tryPointGetPlan\<close> and none from
  \<open>tryWhereIn2BatchPointGet\<close>; a statement with GROUP BY or with a window specification
  gets none from \<open>tryWhereIn2BatchPointGet\<close>. \<open>tryPointGetPlan\<close> does not look at
  GROUP BY and at the window specifications.
\<close>

theorem fast_path_refusal:
  "(limit_zero_or_offset pc selStmt \<or> ss_OrderBy selStmt \<noteq> None \<or> ss_Having selStmt \<noteq> None \<longrightarrow>
      tryPointGetPlan pc selStmt check = Inr None \<and> tryWhereIn2BatchPointGet pc selStmt = Inr None) \<and>
   (ss_GroupBy selStmt \<noteq> None \<or> ss_WindowSpecs selStmt \<noteq> [] \<longrightarrow>
      tryWhereIn2BatchPointGet pc selStmt = Inr None)"
  by (auto simp: limit_zero_or_offset_def tryPointGetPlan_def tryPointGetPlan_checks_def
           tryWhereIn2BatchPointGet_def split: option.splits sum.splits)

theorem fast_path_refusal_witness:
  "ss_GroupBy ((ex_select ex_tbl [] [] (ex_eq ''a'' 5))\<lparr>ss_GroupBy := Some 0\<rparr>) \<noteq> None \<and>
   tryWhereIn2BatchPointGet ex_pc ((ex_select ex_tbl [] [] (ex_eq ''a'' 5))\<lparr>ss_GroupBy := Some 0\<rparr>) = Inr None \<and>
   limit_zero_or_offset ex_pc ((ex_select ex_tbl [] [] (ex_eq ''a'' 5))
      \<lparr>ss_Limit := Some \<lparr>lim_Count = Some (ValueExpr (ex_datum 0)), lim_Offset = None\<rparr>\<rparr>) \<and>
   tryPointGetPlan ex_pc ((ex_select ex_tbl [] [] (ex_eq ''a'' 5))
      \<lparr>ss_Limit := Some \<lparr>lim_Count = Some (ValueExpr (ex_datum 0)), lim_Offset = None\<rparr>\<rparr>) False = Inr None"
proof -
  let ?g = "(ex_select ex_tbl [] [] (ex_eq ''a'' 5))\<lparr>ss_GroupBy := Some 0\<rparr>"
  let ?l = "(ex_select ex_tbl [] [] (ex_eq ''a'' 5))
      \<lparr>ss_Limit := Some \<lparr>lim_Count = Some (ValueExpr (ex_datum 0)), lim_Offset = None\<rparr>\<rparr>"
  have h: "ss_GroupBy ?g \<noteq> None" "limit_zero_or_offset ex_pc ?l"
    by (simp_all add: limit_zero_or_offset_def ex_plan_defs)
  show ?thesis using h fast_path_refusal[of ex_pc ?g False] fast_path_refusal[of ex_pc ?l False] by simp
qed

theorem group_by_point_get_counterexample:
  "ss_GroupBy ((ex_select ex_tbl [] [] (ex_eq ''a'' 5))\<lparr>ss_GroupBy := Some 0\<rparr>) \<noteq> None \<and>
   (case tryPointGetPlan ex_pc ((ex_select ex_tbl [] [] (ex_eq ''a'' 5))\<lparr>ss_GroupBy := Some 0\<rparr>) False of
      Inr (Some p) \<Rightarrow> p_Handle p = Some (IntHandle 5) \<and> \<not> p_IsTableDual p
    | _ \<Rightarrow> False) \<and>
   ss_WindowSpecs ((ex_select ex_tbl [] [] (ex_eq ''a'' 5))\<lparr>ss_WindowSpecs := [0]\<rparr>) \<noteq> [] \<and>
   (case tryPointGetPlan ex_pc ((ex_select ex_tbl [] [] (ex_eq ''a'' 5))\<lparr>ss_WindowSpecs := [0]\<rparr>) False of
      Inr (Some p) \<Rightarrow> p_Handle p = Some (IntHandle 5) \<and> \<not> p_IsTableDual p
    | _ \<Rightarrow> False)"
  by (simp add: ex_plan_defs plan_defs)




lemma findInPairs_from_first:
  "findInPairs_from k name pairs = Some i \<Longrightarrow>
     k \<le> i \<and> i - k < length pairs \<and> nv_colName (pairs ! (i - k)) = name \<and>
     (\<forall>j < i - k. nv_colName (pairs ! j) \<noteq> name)"
proof (induction pairs arbitrary: k)
  case Nil
  then show ?case by simp
next
  case (Cons p ps)
  show ?case
  proof (cases "nv_colName p = name")
    case True
    then show ?thesis using Cons.prems by simp
  next
    case False
    then have "findInPairs_from (Suc k) name ps = Some i" using Cons.prems by simp
    from Cons.IH[OF this] have ih: "Suc k \<le> i" "i - Suc k < length ps"
      "nv_colName (ps ! (i - Suc k)) = name" "\<forall>j < i - Suc k. nv_colName (ps ! j) \<noteq> name" by auto
    have e: "i - k = Suc (i - Suc k)" using ih(1) by simp
    show ?thesis using ih False unfolding e by (auto simp: nth_Cons split: nat.splits)
  qed
qed

lemma findInPairs_first:
  "findInPairs name pairs = Some i \<Longrightarrow>
     i < length pairs \<and> nv_colName (pairs ! i) = name \<and> (\<forall>j < i. nv_colName (pairs ! j) \<noteq> name)"
  using findInPairs_from_first[of 0 name pairs i] by (simp add: findInPairs_def)

lemma findInPairs_from_None:
  "findInPairs_from k name pairs = None \<longleftrightarrow> name \<notin> set (map nv_colName pairs)"
  by (induction pairs arbitrary: k) auto
















lemma latestIndexCheck_state:
  assumes nf: "\<not> latestSchemaFails pc tbl check0"
    and inv: "(check = latestSchemaChecked pc check0 \<and> latest = None) \<or>
              (latestSchemaChecked pc check0 \<and> pc_getLatestIndexInfo pc (tbl_ID tbl) = Inr (latest, check))"
  shows "\<exists>latest' check'.
           latestIndexCheck pc tbl idxInfo check latest =
             Inr (latest', check', latestSchemaSkips pc tbl check0 idxInfo) \<and>
           ((check' = latestSchemaChecked pc check0 \<and> latest' = None) \<or>
            (latestSchemaChecked pc check0 \<and> pc_getLatestIndexInfo pc (tbl_ID tbl) = Inr (latest', check')))"
proof (cases "latestSchemaChecked pc check0")
  case False
  then have "check = False" "latest = None" using inv by auto
  then show ?thesis using False by (auto simp: latestIndexCheck_def latestSchemaSkips_def)
next
  case True
  then obtain l c where g: "pc_getLatestIndexInfo pc (tbl_ID tbl) = Inr (l, c)"
    using nf by (cases "pc_getLatestIndexInfo pc (tbl_ID tbl)") (auto simp: latestSchemaFails_def)
  from inv show ?thesis
  proof
    assume "check = latestSchemaChecked pc check0 \<and> latest = None"
    then show ?thesis using True g by (simp add: latestIndexCheck_def latestSchemaSkips_def)
  next
    assume "latestSchemaChecked pc check0 \<and> pc_getLatestIndexInfo pc (tbl_ID tbl) = Inr (latest, check)"
    then have "l = latest" "c = check" using g by simp_all
    then show ?thesis using True g by (auto simp: latestIndexCheck_def latestSchemaSkips_def)
  qed
qed

lemma checkTblIndex_loop_find:
  assumes nf: "\<not> latestSchemaFails pc tbl check0"
    and inv: "(check = latestSchemaChecked pc check0 \<and> latest = None) \<or>
              (latestSchemaChecked pc check0 \<and> pc_getLatestIndexInfo pc (tbl_ID tbl) = Inr (latest, check))"
  shows "checkTblIndex_loop pc tblName tbl dbName schema names pairs partitionDef pos g False check latest
           indices =
         (case find (index_accepted pc tblName tbl pairs g check0) indices of
            None \<Rightarrow> Inr None
          | Some idxInfo \<Rightarrow>
             (case getIndexValues idxInfo pairs of
                None \<Rightarrow> Inr None
              | Some (idxValues, idxConstant, colsFieldType) \<Rightarrow>
                  indexPointPlan pc dbName schema tbl names pairs partitionDef pos idxInfo
                    idxValues idxConstant colsFieldType))"
  using inv
proof (induction indices arbitrary: check latest)
  case Nil
  then show ?case by simp
next
  case (Cons idxInfo indices)
  let ?pre = "idx_Unique idxInfo \<and> idx_State idxInfo = StatePublic \<and> \<not> idx_Invisible idxInfo \<and>
      \<not> idx_MVIndex idxInfo \<and> indexIsAvailableByHints (Some idxInfo) (tn_IndexHints tblName) \<and>
      (g \<longrightarrow> idx_Global idxInfo) \<and> getIndexValues idxInfo pairs \<noteq> None"
  show ?case
  proof (cases ?pre)
    case False
    then have na: "\<not> index_accepted pc tblName tbl pairs g check0 idxInfo"
      by (auto simp: index_accepted_def)
    have step: "checkTblIndex_loop pc tblName tbl dbName schema names pairs partitionDef pos g False
                  check latest (idxInfo # indices) =
                checkTblIndex_loop pc tblName tbl dbName schema names pairs partitionDef pos g False
                  check latest indices"
      using False by (cases "getIndexValues idxInfo pairs") auto
    show ?thesis unfolding step using Cons.IH[OF Cons.prems] na by simp
  next
    case True
    then obtain vs cs ts where gv: "getIndexValues idxInfo pairs = Some (vs, cs, ts)" by auto
    from latestIndexCheck_state[OF nf Cons.prems, of idxInfo] obtain latest' check' where
      lc: "latestIndexCheck pc tbl idxInfo check latest =
             Inr (latest', check', latestSchemaSkips pc tbl check0 idxInfo)" and
      inv': "(check' = latestSchemaChecked pc check0 \<and> latest' = None) \<or>
             (latestSchemaChecked pc check0 \<and> pc_getLatestIndexInfo pc (tbl_ID tbl) = Inr (latest', check'))"
      by blast
    show ?thesis
    proof (cases "latestSchemaSkips pc tbl check0 idxInfo")
      case sk: True
      then have na: "\<not> index_accepted pc tblName tbl pairs g check0 idxInfo"
        by (simp add: index_accepted_def)
      have step: "checkTblIndex_loop pc tblName tbl dbName schema names pairs partitionDef pos g False
                    check latest (idxInfo # indices) =
                  checkTblIndex_loop pc tblName tbl dbName schema names pairs partitionDef pos g False
                    check' latest' indices"
        using True gv lc sk by auto
      show ?thesis unfolding step using Cons.IH[OF inv'] na by simp
    next
      case sk: False
      then have a: "index_accepted pc tblName tbl pairs g check0 idxInfo"
        using True by (simp add: index_accepted_def)
      have step: "checkTblIndex_loop pc tblName tbl dbName schema names pairs partitionDef pos g False
                    check latest (idxInfo # indices) =
                  indexPointPlan pc dbName schema tbl names pairs partitionDef pos idxInfo vs cs ts"
        using True gv lc sk by auto
      show ?thesis unfolding step using a gv by simp
    qed
  qed
qed

lemma checkTblIndex_loop_fails:
  assumes "latestSchemaFails pc tbl check0"
  shows "checkTblIndex_loop pc tblName tbl dbName schema names pairs partitionDef pos g dual
           (latestSchemaChecked pc check0) None indices = Inr None"
proof (induction indices arbitrary: g dual)
  case Nil
  then show ?case by simp
next
  case (Cons idxInfo indices)
  have l: "latestIndexCheck pc tbl idxInfo (latestSchemaChecked pc check0) None = Inl ()"
    using assms by (auto simp: latestIndexCheck_def latestSchemaFails_def split: sum.splits)
  show ?case using Cons.IH l by (simp split: option.splits)
qed

lemma getIndexValues_loop_Some:
  "(\<exists>r. getIndexValues_loop cols pairs (vs, cs, ts) = Some r) \<longleftrightarrow>
     (\<forall>c \<in> set cols. ci_L (ic_Name c) \<in> set (map nv_colName pairs))"
proof (induction cols arbitrary: vs cs ts)
  case Nil
  then show ?case by simp
next
  case (Cons c cols)
  show ?case
  proof (cases "findInPairs (ci_L (ic_Name c)) pairs")
    case None
    then have "ci_L (ic_Name c) \<notin> set (map nv_colName pairs)"
      by (simp add: findInPairs_def findInPairs_from_None)
    then show ?thesis using None by simp
  next
    case (Some i)
    from findInPairs_first[OF Some] have "ci_L (ic_Name c) \<in> set (map nv_colName pairs)"
      by (metis length_map nth_map nth_mem)
    then show ?thesis using Some Cons.IH by simp
  qed
qed

lemma getIndexValues_loop_length:
  "getIndexValues_loop cols pairs (vs, cs, ts) = Some (vs', cs', ts') \<Longrightarrow>
     length vs' = length vs + length cols"
proof (induction cols arbitrary: vs cs ts)
  case Nil
  then show ?case by simp
next
  case (Cons c cols)
  then show ?case by (auto split: option.splits)
qed

lemma getIndexValues_Some_iff:
  "getIndexValues idxInfo pairs \<noteq> None \<longleftrightarrow>
     length (idx_Columns idxInfo) = length pairs \<and> \<not> HasPrefixIndex idxInfo \<and>
     set (map (\<lambda>c. ci_L (ic_Name c)) (idx_Columns idxInfo)) \<subseteq> set (map nv_colName pairs) \<and>
     idx_Columns idxInfo \<noteq> []"
proof (cases "length (idx_Columns idxInfo) = length pairs \<and> \<not> HasPrefixIndex idxInfo")
  case False
  then show ?thesis by (auto simp: getIndexValues_def)
next
  case True
  show ?thesis
  proof (cases "getIndexValues_loop (idx_Columns idxInfo) pairs ([], [], [])")
    case None
    then have "\<not> (\<forall>c \<in> set (idx_Columns idxInfo). ci_L (ic_Name c) \<in> set (map nv_colName pairs))"
      using getIndexValues_loop_Some[of "idx_Columns idxInfo" pairs "[]" "[]" "[]"] by simp
    then show ?thesis using None True by (auto simp: getIndexValues_def)
  next
    case (Some r)
    obtain vs cs ts where r: "r = (vs, cs, ts)" by (metis prod_cases3)
    have s: "\<forall>c \<in> set (idx_Columns idxInfo). ci_L (ic_Name c) \<in> set (map nv_colName pairs)"
      using getIndexValues_loop_Some[of "idx_Columns idxInfo" pairs "[]" "[]" "[]"] Some by blast
    have l: "length vs = length (idx_Columns idxInfo)"
      using getIndexValues_loop_length[of "idx_Columns idxInfo" pairs "[]" "[]" "[]" vs cs ts] Some r by simp
    show ?thesis using Some r True s l by (auto simp: getIndexValues_def)
  qed
qed

lemma same_columns:
  assumes "distinct xs" and "set xs \<subseteq> set ys" and "length xs = length (ys :: 'a list)"
  shows "set xs = set ys"
proof -
  have "card (set ys) \<le> length ys" by (rule card_length)
  also have "\<dots> = card (set xs)" using assms(1,3) by (simp add: distinct_card)
  finally show ?thesis using assms(2) by (simp add: card_seteq)
qed

lemma indexPointPlan_index:
  "indexPointPlan pc dbName schema tbl names pairs partitionDef pos idxInfo vs cs ts = Inr (Some p) \<Longrightarrow>
     p_IndexInfo p = Some idxInfo \<and> p_IndexValues p = vs \<and> \<not> p_IsTableDual p"
  by (auto simp: indexPointPlan_def newPointGetPlan_def Let_def split: if_splits sum.splits)

lemma indexPointPlan_built:
  "partitionDef = None \<or> pos < length pairs \<Longrightarrow>
     \<exists>p. indexPointPlan pc dbName schema tbl names pairs partitionDef pos idxInfo vs cs ts = Inr (Some p)"
  by (auto simp: indexPointPlan_def findPartitionIdx_def Let_def)

text \<open>
  Claim C5. With \<open>isTableDual\<close> false, a plan of \<open>checkTblIndexForPointPlan\<close> carries
  the first index of \<open>tbl.Indices\<close>, in declaration order, that the loop accepts; when
  neither the tests before the loop nor the lookup of the latest schema stop the
  selection, the first accepted index is selected. An accepted index is unique, public,
  visible, not multi-valued, without a prefix column, not filtered out by the hints,
  has as many columns as there are pairs, and each of its columns is the column of a
  pair, so that with distinct index columns the two column sets are the same. Besides
  these conditions the loop asks that the index has a column, that it is a global index
  when \<open>globalIndexCheck\<close> is set, and that the latest schema, when it is checked, still
  has it public. No plan is returned, so no index is selected, when the lookup of the
  latest schema fails, and when \<open>globalIndexCheck\<close> is set and the statement names
  partitions or the table has partitions that are being added or dropped.
\<close>

theorem unique_index_selection:
  assumes t: "tn_TableInfo tblName = Some tbl"
  shows
    "(checkTblIndexForPointPlan pc tblName schema names pairs partitionDef pos g False check = Inr (Some p)
        \<longrightarrow> (case p_IndexInfo p of
               None \<Rightarrow> False
             | Some idxInfo \<Rightarrow>
                 find (index_accepted pc tblName tbl pairs g check) (tbl_Indices tbl) = Some idxInfo)) \<and>
     (find (index_accepted pc tblName tbl pairs g check) (tbl_Indices tbl) = Some idxInfo \<and>
      \<not> latestSchemaFails pc tbl check \<and>
      (g \<longrightarrow> tn_PartitionNames tblName = [] \<and>
             (case tbl_Partition tbl of
                None \<Rightarrow> False
              | Some pi \<Rightarrow> pi_AddingDefinitions pi = [] \<and> pi_DroppingDefinitions pi = [])) \<and>
      (partitionDef = None \<or> pos < length pairs)
        \<longrightarrow> (case checkTblIndexForPointPlan pc tblName schema names pairs partitionDef pos g False check of
               Inr (Some q) \<Rightarrow> p_IndexInfo q = Some idxInfo
             | _ \<Rightarrow> False)) \<and>
     (index_accepted pc tblName tbl pairs g check idxInfo \<longleftrightarrow>
        idx_Unique idxInfo \<and> idx_State idxInfo = StatePublic \<and> \<not> idx_Invisible idxInfo \<and>
        \<not> idx_MVIndex idxInfo \<and> \<not> HasPrefixIndex idxInfo \<and>
        indexIsAvailableByHints (Some idxInfo) (tn_IndexHints tblName) \<and>
        length (idx_Columns idxInfo) = length pairs \<and>
        set (map (\<lambda>c. ci_L (ic_Name c)) (idx_Columns idxInfo)) \<subseteq> set (map nv_colName pairs) \<and>
        idx_Columns idxInfo \<noteq> [] \<and> (g \<longrightarrow> idx_Global idxInfo) \<and>
        \<not> latestSchemaSkips pc tbl check idxInfo) \<and>
     (index_accepted pc tblName tbl pairs g check idxInfo \<and>
      distinct (map (\<lambda>c. ci_L (ic_Name c)) (idx_Columns idxInfo))
        \<longrightarrow> index_qualifies (tn_IndexHints tblName) pairs idxInfo) \<and>
     (latestSchemaFails pc tbl check \<and> (g \<longrightarrow> tbl_Partition tbl \<noteq> None)
        \<longrightarrow> checkTblIndexForPointPlan pc tblName schema names pairs partitionDef pos g False check = Inr None) \<and>
     (g \<and> (tn_PartitionNames tblName \<noteq> [] \<or>
           (case tbl_Partition tbl of
              None \<Rightarrow> False
            | Some pi \<Rightarrow> pi_AddingDefinitions pi \<noteq> [] \<or> pi_DroppingDefinitions pi \<noteq> []))
        \<longrightarrow> checkTblIndexForPointPlan pc tblName schema names pairs partitionDef pos g False check = Inr None)"
proof -
  let ?acc = "index_accepted pc tblName tbl pairs g check"
  let ?run = "checkTblIndexForPointPlan pc tblName schema names pairs partitionDef pos g False check"
  let ?db = "if ci_L (tn_Schema tblName) = [] then pc_CurrentDB pc else ci_L (tn_Schema tblName)"
  have loop: "?run = Inr (Some q) \<Longrightarrow>
      checkTblIndex_loop pc tblName tbl ?db schema names pairs partitionDef pos g False
        (latestSchemaChecked pc check) None (tbl_Indices tbl) = Inr (Some q)" for q
    using t by (auto simp: checkTblIndexForPointPlan_def latestSchemaChecked_def Let_def
                     split: if_splits option.splits)
  have c1: "(case p_IndexInfo p of None \<Rightarrow> False
             | Some idxInfo \<Rightarrow> find ?acc (tbl_Indices tbl) = Some idxInfo)"
    if r: "?run = Inr (Some p)"
  proof -
    have nf: "\<not> latestSchemaFails pc tbl check"
      using checkTblIndex_loop_fails[of pc tbl check tblName ?db schema names pairs partitionDef pos g
              False "tbl_Indices tbl"] loop[OF r] by auto
    from checkTblIndex_loop_find[OF nf, of "latestSchemaChecked pc check" None tblName ?db schema names
           pairs partitionDef pos g "tbl_Indices tbl"] loop[OF r]
    obtain i vs cs ts where f: "find ?acc (tbl_Indices tbl) = Some i" and
      ip: "indexPointPlan pc ?db schema tbl names pairs partitionDef pos i vs cs ts = Inr (Some p)"
      by (auto split: option.splits)
    from indexPointPlan_index[OF ip] f show ?thesis by simp
  qed
  have c2: "(case ?run of Inr (Some q) \<Rightarrow> p_IndexInfo q = Some idxInfo | _ \<Rightarrow> False)"
    if f: "find ?acc (tbl_Indices tbl) = Some idxInfo" and nf: "\<not> latestSchemaFails pc tbl check"
      and gc: "g \<longrightarrow> tn_PartitionNames tblName = [] \<and>
             (case tbl_Partition tbl of
                None \<Rightarrow> False
              | Some pi \<Rightarrow> pi_AddingDefinitions pi = [] \<and> pi_DroppingDefinitions pi = [])"
      and pd: "partitionDef = None \<or> pos < length pairs"
  proof -
    have run: "?run = checkTblIndex_loop pc tblName tbl ?db schema names pairs partitionDef pos g False
        (latestSchemaChecked pc check) None (tbl_Indices tbl)"
      using t gc by (auto simp: checkTblIndexForPointPlan_def latestSchemaChecked_def Let_def
                            split: option.splits)
    have "?acc idxInfo" using f by (metis find_Some_iff)
    then obtain vs cs ts where gv: "getIndexValues idxInfo pairs = Some (vs, cs, ts)"
      by (auto simp: index_accepted_def)
    from indexPointPlan_built[OF pd, of pc ?db schema tbl names idxInfo vs cs ts] obtain q where
      q: "indexPointPlan pc ?db schema tbl names pairs partitionDef pos idxInfo vs cs ts = Inr (Some q)"
      by blast
    have "?run = Inr (Some q)"
      unfolding run
      using checkTblIndex_loop_find[OF nf, of "latestSchemaChecked pc check" None tblName ?db schema names
           pairs partitionDef pos g "tbl_Indices tbl"] f gv q by simp
    then show ?thesis using indexPointPlan_index[OF q] by simp
  qed
  have c3: "?acc idxInfo \<longleftrightarrow>
        idx_Unique idxInfo \<and> idx_State idxInfo = StatePublic \<and> \<not> idx_Invisible idxInfo \<and>
        \<not> idx_MVIndex idxInfo \<and> \<not> HasPrefixIndex idxInfo \<and>
        indexIsAvailableByHints (Some idxInfo) (tn_IndexHints tblName) \<and>
        length (idx_Columns idxInfo) = length pairs \<and>
        set (map (\<lambda>c. ci_L (ic_Name c)) (idx_Columns idxInfo)) \<subseteq> set (map nv_colName pairs) \<and>
        idx_Columns idxInfo \<noteq> [] \<and> (g \<longrightarrow> idx_Global idxInfo) \<and>
        \<not> latestSchemaSkips pc tbl check idxInfo"
    unfolding index_accepted_def getIndexValues_Some_iff by blast
  have c4: "index_qualifies (tn_IndexHints tblName) pairs idxInfo"
    if a: "?acc idxInfo" and d: "distinct (map (\<lambda>c. ci_L (ic_Name c)) (idx_Columns idxInfo))"
  proof -
    from a c3 have l: "length (idx_Columns idxInfo) = length pairs" and
      s: "set (map (\<lambda>c. ci_L (ic_Name c)) (idx_Columns idxInfo)) \<subseteq> set (map nv_colName pairs)"
      by blast+
    have "set (map (\<lambda>c. ci_L (ic_Name c)) (idx_Columns idxInfo)) = set (map nv_colName pairs)"
      using same_columns[OF d s] l by simp
    then show ?thesis using a c3 unfolding index_qualifies_def by blast
  qed
  have c5: "?run = Inr None"
    if f: "latestSchemaFails pc tbl check" and gp: "g \<longrightarrow> tbl_Partition tbl \<noteq> None"
    using t gp checkTblIndex_loop_fails[OF f, of tblName ?db schema names pairs partitionDef pos g False
                 "tbl_Indices tbl"]
    by (auto simp: checkTblIndexForPointPlan_def latestSchemaChecked_def Let_def split: option.splits)
  have c6: "?run = Inr None"
    if "g" and "tn_PartitionNames tblName \<noteq> [] \<or>
           (case tbl_Partition tbl of
              None \<Rightarrow> False
            | Some pi \<Rightarrow> pi_AddingDefinitions pi \<noteq> [] \<or> pi_DroppingDefinitions pi \<noteq> [])"
    using t that by (auto simp: checkTblIndexForPointPlan_def Let_def split: option.splits)
  show ?thesis using c1 c2 c3 c4 c5 c6 by blast
qed

lemmas ex_idx_defs = ex_iab_def ex_ib2_def ex_and_def ex_use_ib_def ex_pc_expr_def

lemmas accept_defs = index_accepted_def index_qualifies_def latestSchemaSkips_def latestSchemaFails_def
  latestSchemaChecked_def

theorem unique_index_selection_witness:
  "checkTblIndexForPointPlan ex_pc (ex_tn (ex_tbl\<lparr>tbl_Indices := [ex_iab, ex_ib, ex_ib2]\<rparr>) [] []) [] []
       [ex_pair ''b'' 7] None 0 False False False =
     Inr (Some ((newPointGetPlan ex_pc ''test'' [] (ex_tbl\<lparr>tbl_Indices := [ex_iab, ex_ib, ex_ib2]\<rparr>) [])
                  \<lparr>p_IndexInfo := Some ex_ib, p_IndexValues := [ex_datum 7], p_IndexConstants := [None],
                   p_ColsFieldType := [Some (ex_int False)], p_PartitionDef := None\<rparr>)) \<and>
   find (index_accepted ex_pc (ex_tn (ex_tbl\<lparr>tbl_Indices := [ex_iab, ex_ib, ex_ib2]\<rparr>) [] [])
           (ex_tbl\<lparr>tbl_Indices := [ex_iab, ex_ib, ex_ib2]\<rparr>) [ex_pair ''b'' 7] False False)
        [ex_iab, ex_ib, ex_ib2] = Some ex_ib \<and>
   index_qualifies [] [ex_pair ''b'' 7] ex_ib \<and> index_qualifies [] [ex_pair ''b'' 7] ex_ib2 \<and>
   \<not> index_qualifies [] [ex_pair ''b'' 7] ex_iab \<and>
   latestSchemaFails (ex_pc\<lparr>pc_getLatestIndexInfo := (\<lambda>tid. Inl (ErrOther 5))\<rparr>)
     (ex_tbl\<lparr>tbl_Indices := [ex_iab, ex_ib, ex_ib2]\<rparr>) True \<and>
   checkTblIndexForPointPlan (ex_pc\<lparr>pc_getLatestIndexInfo := (\<lambda>tid. Inl (ErrOther 5))\<rparr>)
       (ex_tn (ex_tbl\<lparr>tbl_Indices := [ex_iab, ex_ib, ex_ib2]\<rparr>) [] []) [] []
       [ex_pair ''b'' 7] None 0 False False True = Inr None \<and>
   checkTblIndexForPointPlan ex_pc
       (ex_tn (ex_part (ex_tbl\<lparr>tbl_Indices := [(ex_ib\<lparr>idx_Global := True\<rparr>)]\<rparr>)) [] [ex_ci ''p0'']) [] []
       [ex_pair ''b'' 7] None 0 True False False = Inr None \<and>
   (case checkTblIndexForPointPlan ex_pc
       (ex_tn (ex_part (ex_tbl\<lparr>tbl_Indices := [(ex_ib\<lparr>idx_Global := True\<rparr>)]\<rparr>)) [] []) [] []
       [ex_pair ''b'' 7] None 0 True False False of
      Inr (Some q) \<Rightarrow> p_IndexInfo q = Some (ex_ib\<lparr>idx_Global := True\<rparr>)
    | _ \<Rightarrow> False)"
proof -
  let ?T = "ex_tbl\<lparr>tbl_Indices := [ex_iab, ex_ib, ex_ib2]\<rparr>"
  let ?P = "(newPointGetPlan ex_pc ''test'' [] ?T [])
                  \<lparr>p_IndexInfo := Some ex_ib, p_IndexValues := [ex_datum 7], p_IndexConstants := [None],
                   p_ColsFieldType := [Some (ex_int False)], p_PartitionDef := None\<rparr>"
  have t: "tn_TableInfo (ex_tn ?T [] []) = Some ?T" by (simp add: ex_tn_def)
  have r: "checkTblIndexForPointPlan ex_pc (ex_tn ?T [] []) [] [] [ex_pair ''b'' 7] None 0 False False False
             = Inr (Some ?P)"
    by (simp add: ex_plan_defs ex_idx_defs plan_defs)
  have i: "p_IndexInfo ?P = Some ex_ib" by simp
  have d: "distinct (map (\<lambda>c. ci_L (ic_Name c)) (idx_Columns ex_ib))"
    "distinct (map (\<lambda>c. ci_L (ic_Name c)) (idx_Columns ex_ib2))"
    by (simp_all add: ex_plan_defs ex_idx_defs)
  have a2: "index_accepted ex_pc (ex_tn ?T [] []) ?T [ex_pair ''b'' 7] False False ex_ib2"
    by (simp add: accept_defs ex_plan_defs ex_idx_defs plan_defs)
  have n: "\<not> index_qualifies [] [ex_pair ''b'' 7] ex_iab"
    by (simp add: accept_defs ex_plan_defs ex_idx_defs)
  note th = unique_index_selection[OF t, where pc = ex_pc and schema = "[]" and names = "[]"
      and pairs = "[ex_pair ''b'' 7]" and partitionDef = None and pos = 0 and g = False
      and check = False and p = ?P]
  from th[where idxInfo = ex_ib] r i
  have f: "find (index_accepted ex_pc (ex_tn ?T [] []) ?T [ex_pair ''b'' 7] False False) (tbl_Indices ?T)
             = Some ex_ib"
    by simp
  then have a: "index_accepted ex_pc (ex_tn ?T [] []) ?T [ex_pair ''b'' 7] False False ex_ib"
    by (metis find_Some_iff)
  have q: "index_qualifies [] [ex_pair ''b'' 7] ex_ib"
    using th[where idxInfo = ex_ib] a d(1) by (simp add: ex_tn_def)
  have q2: "index_qualifies [] [ex_pair ''b'' 7] ex_ib2"
    using th[where idxInfo = ex_ib2] a2 d(2) by (simp add: ex_tn_def)
  let ?F = "ex_pc\<lparr>pc_getLatestIndexInfo := (\<lambda>tid. Inl (ErrOther 5))\<rparr>"
  let ?G = "ex_part (ex_tbl\<lparr>tbl_Indices := [(ex_ib\<lparr>idx_Global := True\<rparr>)]\<rparr>)"
  have lf: "latestSchemaFails ?F ?T True" "False \<longrightarrow> tbl_Partition ?T \<noteq> None"
    by (simp_all add: accept_defs ex_plan_defs)
  have e5: "checkTblIndexForPointPlan ?F (ex_tn ?T [] []) [] [] [ex_pair ''b'' 7] None 0 False False True
              = Inr None"
    using unique_index_selection[OF t, where pc = ?F and schema = "[]" and names = "[]"
      and pairs = "[ex_pair ''b'' 7]" and partitionDef = None and pos = 0 and g = False
      and check = True and p = ?P and idxInfo = ex_ib] lf
    by simp
  have tg: "tn_TableInfo (ex_tn ?G [] [ex_ci ''p0'']) = Some ?G" "tn_TableInfo (ex_tn ?G [] []) = Some ?G"
    "tn_PartitionNames (ex_tn ?G [] [ex_ci ''p0'']) \<noteq> []"
    by (simp_all add: ex_tn_def)
  have e6: "checkTblIndexForPointPlan ex_pc (ex_tn ?G [] [ex_ci ''p0'']) [] [] [ex_pair ''b'' 7] None 0
              True False False = Inr None"
    using unique_index_selection[OF tg(1), where pc = ex_pc and schema = "[]" and names = "[]"
      and pairs = "[ex_pair ''b'' 7]" and partitionDef = None and pos = 0 and g = True
      and check = False and p = ?P and idxInfo = ex_ib] tg(3)
    by simp
  have e7: "(case checkTblIndexForPointPlan ex_pc (ex_tn ?G [] []) [] [] [ex_pair ''b'' 7] None 0
                True False False of
              Inr (Some q) \<Rightarrow> p_IndexInfo q = Some (ex_ib\<lparr>idx_Global := True\<rparr>)
            | _ \<Rightarrow> False)"
    by (simp add: ex_plan_defs ex_idx_defs plan_defs)
  show ?thesis using r f q q2 n lf(1) e5 e6 e7 by simp
qed

theorem local_index_not_selected_counterexample:
  "tbl_Indices (ex_part (ex_tbl\<lparr>tbl_Indices := [ex_iab], tbl_PKIsHandle := False\<rparr>)) = [ex_iab] \<and>
   index_qualifies [] [ex_pair ''a'' 1, ex_pair ''b'' 2] ex_iab \<and>
   checkTblIndexForPointPlan ex_pc_expr (ex_tn (ex_part (ex_tbl\<lparr>tbl_Indices := [ex_iab], tbl_PKIsHandle := False\<rparr>)) [] []) [] []
       [ex_pair ''a'' 1, ex_pair ''b'' 2] None 0 True False False = Inr None \<and>
   tryPointGetPlan ex_pc_expr
       (ex_select (ex_part (ex_tbl\<lparr>tbl_Indices := [ex_iab], tbl_PKIsHandle := False\<rparr>)) [] [] (ex_and (ex_eq ''a'' 1) (ex_eq ''b'' 2)))
       False = Inr None \<and>
   (case tryPointGetPlan ex_pc
       (ex_select (ex_tbl\<lparr>tbl_Indices := [ex_iab], tbl_PKIsHandle := False\<rparr>) [] [] (ex_and (ex_eq ''a'' 1) (ex_eq ''b'' 2))) False of
      Inr (Some p) \<Rightarrow> p_IndexInfo p = Some ex_iab
    | _ \<Rightarrow> False)"
  by (simp add: accept_defs ex_plan_defs ex_idx_defs plan_defs)

lemma getNameValuePairs_overflow:
  assumes "convertible pc tbl tblAlias cn col d" and "overflows pc col d"
  shows "getNameValuePairs pc tbl tblAlias nv (BinaryOperationExpr EQ (ColumnNameExpr cn) (ValueExpr d)) =
           (Some (nv @ [overflowPair cn col d]), True)"
  using assms
  by (auto simp: getNameValuePairs_EQ_def constValue_def convertible_def overflows_def overflowPair_def
                 Let_def split: prod.splits)

lemma getNameValuePairs_EQ_flag:
  "snd (getNameValuePairs_EQ pc tbl tblAlias nv l r) = overflowing_eq pc tbl tblAlias l r"
proof (cases "eqOperands l r")
  case None
  then show ?thesis
    by (auto simp: getNameValuePairs_EQ_def overflowing_eq_def eqOperands_def split: ExprNode.splits)
next
  case (Some a)
  obtain cn other where a: "a = (cn, other)" by (cases a)
  have e: "getNameValuePairs_EQ pc tbl tblAlias nv l r =
             (case constValue pc False other of
                Inl err \<Rightarrow> (None, False)
              | Inr (d, con) \<Rightarrow>
                 if IsNull d then (None, False)
                 else if tbl_IsView tbl then (None, False)
                 else if ci_L (cn_Table cn) \<noteq> [] \<and> ci_L (cn_Table cn) \<noteq> ci_L tblAlias
                   then (None, False)
                 else
                   (case FindColumnInfo (pc_Cols pc tbl) (ci_L (cn_Name cn)) of
                      None \<Rightarrow>
                        (Some (nv @ [\<lparr>nv_colName = ci_L (cn_Name cn),
                                      nv_colFieldType = Some NewFieldType_Longlong,
                                      nv_value = d, nv_con = con\<rparr>]), False)
                    | Some col \<Rightarrow>
                       (let d1 = setColumnCollation col d in
                        if ft_tp (col_FieldType col) = TypeString \<and> ft_collate (col_FieldType col) = ''binary''
                        then (Some (nv @ [\<lparr>nv_colName = ci_L (cn_Name cn),
                                           nv_colFieldType = Some (col_FieldType col),
                                           nv_value = d1, nv_con = con\<rparr>]), False)
                        else if \<not> checkCanConvertInPointGet col d1 then (None, False)
                        else
                          (case pc_ConvertTo pc d1 (col_FieldType col) of
                             (dVal, err) \<Rightarrow>
                               if err = Some ErrOverflow
                               then (Some (nv @ [\<lparr>nv_colName = ci_L (cn_Name cn),
                                                  nv_colFieldType = Some (col_FieldType col),
                                                  nv_value = d1, nv_con = con\<rparr>]), True)
                               else if err \<noteq> None \<and> err \<noteq> Some ErrTruncatedWrongVal then (None, False)
                               else
                                 (case pc_Compare pc dVal d1 (ft_collate (col_FieldType col)) of
                                    Inl cerr \<Rightarrow> (None, False)
                                  | Inr cmp \<Rightarrow>
                                      if cmp \<noteq> 0 then (None, False)
                                      else (Some (nv @ [\<lparr>nv_colName = ci_L (cn_Name cn),
                                                         nv_colFieldType = Some (col_FieldType col),
                                                         nv_value = dVal, nv_con = con\<rparr>]), False))))))"
    using Some a unfolding getNameValuePairs_EQ_def eqOperands_def by simp
  show ?thesis
    unfolding e overflowing_eq_def Some a
    by (auto simp: convertible_def overflows_def Let_def
             split: sum.splits prod.splits option.splits if_splits)
qed

lemma getNameValuePairs_And_flag:
  "snd (getNameValuePairs pc tbl tblAlias nv (BinaryOperationExpr LogicAnd l r)) =
     (snd (getNameValuePairs pc tbl tblAlias nv l) \<or>
      (case fst (getNameValuePairs pc tbl tblAlias nv l) of
         None \<Rightarrow> False
       | Some ps \<Rightarrow> snd (getNameValuePairs pc tbl tblAlias ps r)))"
  by (auto split: prod.splits option.splits)

lemma getNameValuePairs_And_dual:
  "snd (getNameValuePairs pc tbl tblAlias nv (BinaryOperationExpr LogicAnd l r)) \<Longrightarrow>
     fst (getNameValuePairs pc tbl tblAlias nv (BinaryOperationExpr LogicAnd l r)) = None"
  by (auto split: prod.splits option.splits if_splits)

lemma checkTblIndex_loop_dual:
  assumes nf: "\<not> latestSchemaFails pc tbl check0"
    and inv: "(check = latestSchemaChecked pc check0 \<and> latest = None) \<or>
              (latestSchemaChecked pc check0 \<and> pc_getLatestIndexInfo pc (tbl_ID tbl) = Inr (latest, check))"
  shows "checkTblIndex_loop pc tblName tbl dbName schema names pairs partitionDef pos False True check latest
           indices =
         (if list_ex (dual_accepted pc tblName tbl check0) indices
          then Inr (Some (tableDualPlan pc tblName schema tbl names)) else Inr None)"
  using inv
proof (induction indices arbitrary: check latest)
  case Nil
  then show ?case by simp
next
  case (Cons idxInfo indices)
  let ?pre = "idx_Unique idxInfo \<and> idx_State idxInfo = StatePublic \<and> \<not> idx_Invisible idxInfo \<and>
      \<not> idx_MVIndex idxInfo \<and> indexIsAvailableByHints (Some idxInfo) (tn_IndexHints tblName)"
  show ?case
  proof (cases ?pre)
    case False
    then have na: "\<not> dual_accepted pc tblName tbl check0 idxInfo"
      by (auto simp: dual_accepted_def)
    have step: "checkTblIndex_loop pc tblName tbl dbName schema names pairs partitionDef pos False True
                  check latest (idxInfo # indices) =
                checkTblIndex_loop pc tblName tbl dbName schema names pairs partitionDef pos False True
                  check latest indices"
      using False by auto
    show ?thesis unfolding step using Cons.IH[OF Cons.prems] na by simp
  next
    case True
    from latestIndexCheck_state[OF nf Cons.prems, of idxInfo] obtain latest' check' where
      lc: "latestIndexCheck pc tbl idxInfo check latest =
             Inr (latest', check', latestSchemaSkips pc tbl check0 idxInfo)" and
      inv': "(check' = latestSchemaChecked pc check0 \<and> latest' = None) \<or>
             (latestSchemaChecked pc check0 \<and> pc_getLatestIndexInfo pc (tbl_ID tbl) = Inr (latest', check'))"
      by blast
    show ?thesis
    proof (cases "latestSchemaSkips pc tbl check0 idxInfo")
      case sk: True
      then have na: "\<not> dual_accepted pc tblName tbl check0 idxInfo"
        by (simp add: dual_accepted_def)
      have step: "checkTblIndex_loop pc tblName tbl dbName schema names pairs partitionDef pos False True
                    check latest (idxInfo # indices) =
                  checkTblIndex_loop pc tblName tbl dbName schema names pairs partitionDef pos False True
                    check' latest' indices"
        using True lc sk by auto
      show ?thesis unfolding step using Cons.IH[OF inv'] na by simp
    next
      case sk: False
      then have a: "dual_accepted pc tblName tbl check0 idxInfo"
        using True by (simp add: dual_accepted_def)
      have step: "checkTblIndex_loop pc tblName tbl dbName schema names pairs partitionDef pos False True
                    check latest (idxInfo # indices) =
                  Inr (Some (tableDualPlan pc tblName schema tbl names))"
        using True lc sk by (auto simp: tableDualPlan_def)
      show ?thesis unfolding step using a by simp
    qed
  qed
qed

lemma checks_table:
  "tryPointGetPlan_checks pc selStmt = Some (tblName, tblAlias, tbl, schema, names, dbName) \<Longrightarrow>
     tn_TableInfo tblName = Some tbl"
  by (auto simp: tryPointGetPlan_checks_def split: if_splits option.splits)

lemma resolve_dual:
  assumes t: "tn_TableInfo tblName = Some tbl" and np: "tbl_Partition tbl = None"
  shows "tryPointGetPlan_resolve pc check tblName tbl schema names dbName pairs True =
           (if d_k (nv_value (fst (findPKHandle tbl pairs))) \<noteq> KindNull
            then (if length pairs = 1 \<and> indexIsAvailableByHints None (tn_IndexHints tblName)
                  then Inr (Some (tableDualPlan pc tblName schema tbl names)) else Inr None)
            else if \<not> latestSchemaFails pc tbl check \<and>
                    list_ex (dual_accepted pc tblName tbl check) (tbl_Indices tbl)
                 then Inr (Some (tableDualPlan pc tblName schema tbl names)) else Inr None)"
proof (cases "d_k (nv_value (fst (findPKHandle tbl pairs))) \<noteq> KindNull")
  case True
  then show ?thesis using np
    by (auto simp: tryPointGetPlan_resolve_def tryPointGetPlan_key_def tableDualPlan_def
             split: prod.splits)
next
  case False
  let ?db = "if ci_L (tn_Schema tblName) = [] then pc_CurrentDB pc else ci_L (tn_Schema tblName)"
  have k: "tryPointGetPlan_resolve pc check tblName tbl schema names dbName pairs True =
           checkTblIndex_loop pc tblName tbl ?db schema names pairs None 0 False True
             (latestSchemaChecked pc check) None (tbl_Indices tbl)"
    using False np t
    by (auto simp: tryPointGetPlan_resolve_def tryPointGetPlan_key_def checkTblIndexForPointPlan_def
                   latestSchemaChecked_def Let_def split: prod.splits)
  show ?thesis
  proof (cases "latestSchemaFails pc tbl check")
    case f: True
    show ?thesis unfolding k using False f checkTblIndex_loop_fails[OF f] by simp
  next
    case f: False
    show ?thesis unfolding k using False f
      checkTblIndex_loop_dual[OF f, of "latestSchemaChecked pc check" None] by simp
  qed
qed

lemma tryPointGetPlan_overflow:
  assumes w: "ss_Where selStmt = Some w"
    and c: "tryPointGetPlan_checks pc selStmt = Some (tblName, tblAlias, tbl, schema, names, dbName)"
    and fl: "snd (getNameValuePairs pc tbl tblAlias [] w)"
    and np: "tbl_Partition tbl = None"
  shows "tryPointGetPlan pc selStmt check =
           (if d_k (nv_value (fst (findPKHandle tbl (pairsOf (getNameValuePairs pc tbl tblAlias [] w))))) \<noteq> KindNull
            then (if length (pairsOf (getNameValuePairs pc tbl tblAlias [] w)) = 1 \<and>
                     indexIsAvailableByHints None (tn_IndexHints tblName)
                  then Inr (Some (tableDualPlan pc tblName schema tbl names)) else Inr None)
            else if \<not> latestSchemaFails pc tbl check \<and>
                    list_ex (dual_accepted pc tblName tbl check) (tbl_Indices tbl)
                 then Inr (Some (tableDualPlan pc tblName schema tbl names)) else Inr None)"
proof -
  obtain ps fg where g: "getNameValuePairs pc tbl tblAlias [] w = (ps, fg)"
    by (cases "getNameValuePairs pc tbl tblAlias [] w")
  have fg: "fg" using fl g by simp
  have "tryPointGetPlan pc selStmt check =
          tryPointGetPlan_resolve pc check tblName tbl schema names dbName
            (pairsOf (getNameValuePairs pc tbl tblAlias [] w)) True"
    using w c g fg by (simp add: tryPointGetPlan_def pairsOf_def)
  then show ?thesis using resolve_dual[OF checks_table[OF c] np] by simp
qed

lemma castIdxVal_rejects:
  assumes "cast_applies colInfo v"
  shows "(cast_rejects (snd (sc_CastValue sc v colInfo)) \<longrightarrow> snd (castIdxVal sc colInfo v) = Some ErrNotExist) \<and>
         \<not> cast_rejects (snd (castIdxVal sc colInfo v))"
  using assms
  by (auto simp: castIdxVal_def cast_applies_def cast_rejects_def Let_def split: prod.splits)

lemma castIdxVals_first_error:
  assumes "\<forall>k < length pre. idxColumn_ok tbl idx (i + k) \<and>
             snd (castIdxVal sc (idxColumn tbl idx (i + k)) (pre ! k)) = None"
    and "idxColumn_ok tbl idx (i + length pre)"
    and "snd (castIdxVal sc (idxColumn tbl idx (i + length pre)) v) = Some err"
  shows "fst (castIdxVals sc tbl idx i (pre @ v # post)) = Some err"
  using assms
proof (induction pre arbitrary: i)
  case Nil
  then show ?case
    by (auto simp: idxColumn_ok_def idxColumn_def split: prod.splits option.splits)
next
  case (Cons p pre)
  from Cons.prems(1) have h: "idxColumn_ok tbl idx i" "snd (castIdxVal sc (idxColumn tbl idx i) p) = None"
    by force+
  have r: "\<forall>k < length pre. idxColumn_ok tbl idx (Suc i + k) \<and>
             snd (castIdxVal sc (idxColumn tbl idx (Suc i + k)) (pre ! k)) = None"
  proof (intro allI impI)
    fix k assume "k < length pre"
    then have "Suc k < length (p # pre)" by simp
    from Cons.prems(1)[rule_format, OF this] show "idxColumn_ok tbl idx (Suc i + k) \<and>
             snd (castIdxVal sc (idxColumn tbl idx (Suc i + k)) (pre ! k)) = None" by simp
  qed
  have "fst (castIdxVals sc tbl idx (Suc i) (pre @ v # post)) = Some err"
    using Cons.IH[OF r] Cons.prems(2,3) by simp
  then show ?case using h
    by (auto simp: idxColumn_ok_def idxColumn_def split: prod.splits option.splits)
qed

lemma resolveHandle_not_exist:
  assumes "pg_idxInfo e = Some idx"
    and "fst (EncodeUniqueIndexValuesForKey sc (pg_tblInfo e) idx (pg_idxVals e)) = Inl ErrNotExist"
  shows "fst (resolveHandle sc e t) = Inl None \<and> pg_trace (snd (resolveHandle sc e t)) = pg_trace e"
proof (cases "EncodeUniqueIndexValuesForKey sc (pg_tblInfo e) idx (pg_idxVals e)")
  case (Pair r vals)
  then have r: "r = Inl ErrNotExist" using assms(2) by simp
  show ?thesis
  proof (cases "sc_isCommonHandleRead sc (pg_tblInfo e) idx")
    case True
    then show ?thesis using assms(1) Pair r by (simp add: resolveHandle_def)
  next
    case False
    have k: "EncodeUniqueIndexKey sc (pg_tblInfo e) idx (pg_idxVals e) t = (Inl ErrNotExist, vals)"
      using Pair r by (simp add: EncodeUniqueIndexKey_def)
    have ri: "readIndexEntry sc (e\<lparr>pg_idxVals := vals, pg_idxKey := []\<rparr>) =
                (None, e\<lparr>pg_idxVals := vals, pg_idxKey := [], pg_handleVal := []\<rparr>)"
      using readIndexEntry_no_key[of "e\<lparr>pg_idxVals := vals, pg_idxKey := []\<rparr>" sc] by simp
    show ?thesis using assms(1) False k ri by (simp add: resolveHandle_def Let_def)
  qed
qed

lemma Next_not_exist:
  assumes nd: "\<not> pg_done e" and i: "pg_idxInfo e = Some idx"
    and n: "fst (EncodeUniqueIndexValuesForKey sc (pg_tblInfo e) idx (pg_idxVals e)) = Inl ErrNotExist"
  shows "fst (Next sc e) = None \<and> fst (snd (Next sc e)) = [] \<and>
         new_events e (snd (snd (Next sc e))) = (if pg_lock e then [EvUpdateDelta (tableID e)] else [])"
proof -
  from resolveHandle_not_exist[of "started e" idx sc "tableID e"] i n
  have rh: "fst (resolveHandle sc (started e) (tableID e)) = Inl None"
    "pg_trace (snd (resolveHandle sc (started e) (tableID e))) = pg_trace (started e)"
    by (simp_all add: started_fields)
  obtain e2 where r: "resolveHandle sc (started e) (tableID e) = (Inl None, e2)"
    and t2: "pg_trace e2 = pg_trace (started e)"
    using rh by (cases "resolveHandle sc (started e) (tableID e)") auto
  have nx: "Next sc e = (None, [], e2)" using Next_eq[OF nd, of sc] r by simp
  have "new_events e e2 = new_events e (started e)" using t2 by (simp add: new_events_def)
  then show ?thesis using nx by (simp add: new_events_started)
qed

text \<open>
  Claim C3. \<open>getNameValuePairs\<close> sets \<open>isTableDual\<close> for an equality exactly when the
  equality overflows (its constant, a literal or a parameter on either side, is taken up
  to the conversion and overflows the declared type of the column), and for a
  conjunction when its left side sets it or, the left side giving pairs, its right side
  does; a conjunction that sets it returns no pairs. On a table that is not partitioned,
  a statement that passes the tests of \<open>tryPointGetPlan\<close> and whose \<open>WHERE\<close> clause sets
  the flag never gets an error: it gets the plan flagged \<open>IsTableDual\<close> when the clause
  gave one pair, on the handle, and the hints leave the primary key available, or when
  the pairs hold no handle and some unique, public, visible, not multi-valued index is
  left available by the hints and by the latest schema; otherwise it gets no plan. In
  \<open>EncodeUniqueIndexValuesForKey\<close>, for a column whose value is cast, an overflow,
  data-too-long or truncation error of the cast becomes \<open>kv.ErrNotExist\<close>, the loop
  returns the error of the first value that fails, and \<open>Next\<close> answers \<open>kv.ErrNotExist\<close>
  from the encoding with an empty chunk and no error; the only collaborator call of
  that \<open>Next\<close> is the update of the table delta of a locking read: no lock request and
  no read of the membuffer, the lock cache or the snapshot.
\<close>

theorem overflow_is_table_dual:
  "snd (getNameValuePairs pc tbl tblAlias nv (BinaryOperationExpr EQ l r)) =
     overflowing_eq pc tbl tblAlias l r \<and>
   snd (getNameValuePairs pc tbl tblAlias nv (BinaryOperationExpr LogicAnd l r)) =
     (snd (getNameValuePairs pc tbl tblAlias nv l) \<or>
      (case fst (getNameValuePairs pc tbl tblAlias nv l) of
         None \<Rightarrow> False
       | Some ps \<Rightarrow> snd (getNameValuePairs pc tbl tblAlias ps r))) \<and>
   (snd (getNameValuePairs pc tbl tblAlias nv (BinaryOperationExpr LogicAnd l r)) \<longrightarrow>
      fst (getNameValuePairs pc tbl tblAlias nv (BinaryOperationExpr LogicAnd l r)) = None) \<and>
   (convertible pc tbl tblAlias cn col d \<and> overflows pc col d \<longrightarrow>
      getNameValuePairs pc tbl tblAlias nv (BinaryOperationExpr EQ (ColumnNameExpr cn) (ValueExpr d)) =
        (Some (nv @ [overflowPair cn col d]), True)) \<and>
   (ss_Where selStmt = Some w \<and>
    tryPointGetPlan_checks pc selStmt = Some (tblName, tblAlias, tbl, schema, names, dbName) \<and>
    snd (getNameValuePairs pc tbl tblAlias [] w) \<and> tbl_Partition tbl = None \<longrightarrow>
      tryPointGetPlan pc selStmt check =
        (if d_k (nv_value (fst (findPKHandle tbl (pairsOf (getNameValuePairs pc tbl tblAlias [] w))))) \<noteq> KindNull
         then (if length (pairsOf (getNameValuePairs pc tbl tblAlias [] w)) = 1 \<and>
                  indexIsAvailableByHints None (tn_IndexHints tblName)
               then Inr (Some (tableDualPlan pc tblName schema tbl names)) else Inr None)
         else if \<not> latestSchemaFails pc tbl check \<and>
                 list_ex (dual_accepted pc tblName tbl check) (tbl_Indices tbl)
              then Inr (Some (tableDualPlan pc tblName schema tbl names)) else Inr None)) \<and>
   (cast_applies colInfo v \<longrightarrow>
      (cast_rejects (snd (sc_CastValue sc v colInfo)) \<longrightarrow> snd (castIdxVal sc colInfo v) = Some ErrNotExist) \<and>
      \<not> cast_rejects (snd (castIdxVal sc colInfo v))) \<and>
   ((\<forall>k < length pre. idxColumn_ok tbl' idx (k) \<and>
        snd (castIdxVal sc (idxColumn tbl' idx k) (pre ! k)) = None) \<and>
    idxColumn_ok tbl' idx (length pre) \<and>
    snd (castIdxVal sc (idxColumn tbl' idx (length pre)) v) = Some ErrNotExist \<longrightarrow>
      fst (EncodeUniqueIndexValuesForKey sc tbl' idx (pre @ v # post)) = Inl ErrNotExist) \<and>
   (\<not> pg_done e \<and> pg_idxInfo e = Some idx \<and>
    fst (EncodeUniqueIndexValuesForKey sc (pg_tblInfo e) idx (pg_idxVals e)) = Inl ErrNotExist \<longrightarrow>
      fst (Next sc e) = None \<and> fst (snd (Next sc e)) = [] \<and>
      new_events e (snd (snd (Next sc e))) = (if pg_lock e then [EvUpdateDelta (tableID e)] else []))"
proof -
  have enc: "fst (EncodeUniqueIndexValuesForKey sc tbl' idx (pre @ v # post)) = Inl ErrNotExist"
    if "\<forall>k < length pre. idxColumn_ok tbl' idx k \<and>
          snd (castIdxVal sc (idxColumn tbl' idx k) (pre ! k)) = None"
      "idxColumn_ok tbl' idx (length pre)"
      "snd (castIdxVal sc (idxColumn tbl' idx (length pre)) v) = Some ErrNotExist"
  proof -
    have "fst (castIdxVals sc tbl' idx 0 (pre @ v # post)) = Some ErrNotExist"
      using castIdxVals_first_error[of pre tbl' idx 0 sc v ErrNotExist post] that by simp
    then show ?thesis
      by (cases "castIdxVals sc tbl' idx 0 (pre @ v # post)")
         (simp add: EncodeUniqueIndexValuesForKey_def)
  qed
  have a: "snd (getNameValuePairs pc tbl tblAlias nv (BinaryOperationExpr EQ l r)) =
             overflowing_eq pc tbl tblAlias l r"
    using getNameValuePairs_EQ_flag[of pc tbl tblAlias nv l r] by simp
  show ?thesis
    using a getNameValuePairs_And_flag[of pc tbl tblAlias nv l r]
      getNameValuePairs_And_dual[of pc tbl tblAlias nv l r]
      getNameValuePairs_overflow[of pc tbl tblAlias cn col d nv]
      tryPointGetPlan_overflow[of selStmt w pc tblName tblAlias tbl schema names dbName check]
      castIdxVal_rejects[of colInfo v sc] enc Next_not_exist[of e idx sc]
    by blast
qed

lemmas overflow_defs = convertible_def overflows_def overflowPair_def tableDualPlan_def dual_accepted_def
  overflowing_eq_def eqOperands_def pairsOf_def
  cast_applies_def cast_rejects_def idxColumn_def idxColumn_ok_def ex_sc_overflow_def

theorem overflow_is_table_dual_witness:
  "(case tryPointGetPlan ex_pc (ex_select ex_tbl_tiny [] [] (ex_eq ''a'' 1000)) False of
      Inr (Some p) \<Rightarrow> p_IsTableDual p \<and> p_Handle p = None \<and> p_IndexInfo p = None
    | _ \<Rightarrow> False) \<and>
   (case tryPointGetPlan ex_pc (ex_select ex_tbl [] [] (ex_eq ''b'' 3000000000)) False of
      Inr (Some p) \<Rightarrow> p_IsTableDual p \<and> p_Handle p = None \<and> p_IndexInfo p = None
    | _ \<Rightarrow> False) \<and>
   getNameValuePairs ex_pc ex_tbl (ex_ci []) [] (ex_and (ex_eq ''b'' 3000000000) (ex_eq ''a'' 1)) =
     (None, True) \<and>
   (case tryPointGetPlan ex_pc
           (ex_select ex_tbl [] [] (ex_and (ex_eq ''b'' 3000000000) (ex_eq ''a'' 1))) False of
      Inr (Some p) \<Rightarrow> p_IsTableDual p \<and> p_Handle p = None \<and> p_IndexInfo p = None
    | _ \<Rightarrow> False) \<and>
   snd (castIdxVal ex_sc_overflow (ex_col 2 ''b'' 1 False) (ex_datum 3000000000)) = Some ErrNotExist \<and>
   fst (EncodeUniqueIndexValuesForKey ex_sc_overflow ex_tbl ex_iab [ex_datum 1, ex_datum 3000000000]) =
     Inl ErrNotExist \<and>
   fst (Next ex_sc_overflow
          (ex_exec\<lparr>pg_idxInfo := Some ex_iab, pg_idxVals := [ex_datum 1, ex_datum 3000000000]\<rparr>)) = None \<and>
   fst (snd (Next ex_sc_overflow
          (ex_exec\<lparr>pg_idxInfo := Some ex_iab, pg_idxVals := [ex_datum 1, ex_datum 3000000000]\<rparr>))) = [] \<and>
   new_events (ex_exec\<lparr>pg_idxInfo := Some ex_iab, pg_idxVals := [ex_datum 1, ex_datum 3000000000]\<rparr>)
     (snd (snd (Next ex_sc_overflow
          (ex_exec\<lparr>pg_idxInfo := Some ex_iab, pg_idxVals := [ex_datum 1, ex_datum 3000000000]\<rparr>)))) =
     [EvUpdateDelta 1]"
proof -
  let ?wa = "ex_eq ''a'' 1000"
  let ?wb = "ex_eq ''b'' 3000000000"
  let ?wc = "ex_and (ex_eq ''b'' 3000000000) (ex_eq ''a'' 1)"
  let ?S = "ex_select ex_tbl_tiny [] [] ?wa"
  let ?S2 = "ex_select ex_tbl [] [] ?wb"
  let ?S3 = "ex_select ex_tbl [] [] ?wc"
  let ?a = "\<lparr>cn_Table = ex_ci [], cn_Name = ex_ci ''a''\<rparr>"
  let ?b = "\<lparr>cn_Table = ex_ci [], cn_Name = ex_ci ''b''\<rparr>"
  let ?ca = "(ex_col 1 ''a'' 0 True)\<lparr>col_FieldType := (ex_int True)\<lparr>ft_tp := TypeTiny\<rparr>\<rparr>"
  let ?cb = "ex_col 2 ''b'' 1 False"
  let ?E = "ex_exec\<lparr>pg_idxInfo := Some ex_iab, pg_idxVals := [ex_datum 1, ex_datum 3000000000]\<rparr>"
  have "\<exists>al sch nm. tryPointGetPlan_checks ex_pc ?S = Some (ex_tn ex_tbl_tiny [] [], al, ex_tbl_tiny, sch, nm, ''test'')"
    by (simp add: ex_plan_defs plan_defs)
  then obtain al sch nm where
    c: "tryPointGetPlan_checks ex_pc ?S = Some (ex_tn ex_tbl_tiny [] [], al, ex_tbl_tiny, sch, nm, ''test'')"
    by blast
  have "\<exists>al sch nm. tryPointGetPlan_checks ex_pc ?S2 = Some (ex_tn ex_tbl [] [], al, ex_tbl, sch, nm, ''test'')"
    by (simp add: ex_plan_defs plan_defs)
  then obtain al2 sch2 nm2 where
    c2: "tryPointGetPlan_checks ex_pc ?S2 = Some (ex_tn ex_tbl [] [], al2, ex_tbl, sch2, nm2, ''test'')"
    by blast
  have "\<exists>al sch nm. tryPointGetPlan_checks ex_pc ?S3 = Some (ex_tn ex_tbl [] [], al, ex_tbl, sch, nm, ''test'')"
    by (simp add: ex_plan_defs ex_idx_defs plan_defs)
  then obtain al3 sch3 nm3 where
    c3: "tryPointGetPlan_checks ex_pc ?S3 = Some (ex_tn ex_tbl [] [], al3, ex_tbl, sch3, nm3, ''test'')"
    by blast
  have w: "ss_Where ?S = Some ?wa" "ss_Where ?S2 = Some ?wb" "ss_Where ?S3 = Some ?wc"
    by (simp_all add: ex_select_def)
  have cv: "convertible ex_pc ex_tbl_tiny al ?a ?ca (ex_datum 1000)" "overflows ex_pc ?ca (ex_datum 1000)"
    "?wa = BinaryOperationExpr EQ (ColumnNameExpr ?a) (ValueExpr (ex_datum 1000))"
    "tbl_Partition ex_tbl_tiny = None"
    "d_k (nv_value (fst (findPKHandle ex_tbl_tiny [overflowPair ?a ?ca (ex_datum 1000)]))) \<noteq> KindNull"
    "indexIsAvailableByHints None (tn_IndexHints (ex_tn ex_tbl_tiny [] []))"
    by (simp_all add: overflow_defs ex_plan_defs plan_defs)
  have g2: "getNameValuePairs ex_pc ex_tbl al2 [] ?wb = (Some [overflowPair ?b ?cb (ex_datum 3000000000)], True)"
    "tbl_Partition ex_tbl = None"
    "d_k (nv_value (fst (findPKHandle ex_tbl [overflowPair ?b ?cb (ex_datum 3000000000)]))) = KindNull"
    "d_k (nv_value (fst (findPKHandle ex_tbl []))) = KindNull"
    "\<not> latestSchemaFails ex_pc ex_tbl False"
    "list_ex (dual_accepted ex_pc (ex_tn ex_tbl [] []) ex_tbl False) (tbl_Indices ex_tbl)"
    by (simp_all add: overflow_defs accept_defs ex_plan_defs plan_defs)
  have g3: "snd (getNameValuePairs ex_pc ex_tbl al3 [] ?wc)" "snd (getNameValuePairs ex_pc ex_tbl (ex_ci []) [] ?wc)"
    by (simp_all add: overflow_defs ex_idx_defs ex_plan_defs plan_defs)
  have x: "cast_applies ?cb (ex_datum 3000000000)"
    "cast_rejects (snd (sc_CastValue ex_sc_overflow (ex_datum 3000000000) ?cb))"
    "\<forall>k < length [ex_datum 1]. idxColumn_ok ex_tbl ex_iab k \<and>
        snd (castIdxVal ex_sc_overflow (idxColumn ex_tbl ex_iab k) ([ex_datum 1] ! k)) = None"
    "idxColumn_ok ex_tbl ex_iab (length [ex_datum 1])"
    "idxColumn ex_tbl ex_iab (length [ex_datum 1]) = ?cb"
    "\<not> pg_done ?E" "pg_idxInfo ?E = Some ex_iab" "pg_tblInfo ?E = ex_tbl"
    "pg_idxVals ?E = [ex_datum 1] @ ex_datum 3000000000 # []"
    "pg_lock ?E" "tableID ?E = 1"
    by (simp_all add: overflow_defs ex_defs ex_plan_defs ex_idx_defs castIdxVal_def next_defs)
  note th1 = overflow_is_table_dual[where selStmt = ?S and w = ?wa and cn = ?a and d = "ex_datum 1000"
      and pc = ex_pc and tblName = "ex_tn ex_tbl_tiny [] []" and tblAlias = al and tbl = ex_tbl_tiny
      and schema = sch and names = nm and dbName = "''test''" and col = ?ca and check = False
      and nv = "[]" and l = "ex_eq ''b'' 3000000000" and r = "ex_eq ''a'' 1"
      and colInfo = ?cb and v = "ex_datum 3000000000" and sc = ex_sc_overflow
      and pre = "[ex_datum 1]" and tbl' = ex_tbl and idx = ex_iab and post = "[]" and e = ?E]
  note th2 = overflow_is_table_dual[where selStmt = ?S2 and w = ?wb and cn = ?b and d = "ex_datum 3000000000"
      and pc = ex_pc and tblName = "ex_tn ex_tbl [] []" and tblAlias = al2 and tbl = ex_tbl
      and schema = sch2 and names = nm2 and dbName = "''test''" and col = ?cb and check = False
      and nv = "[]" and l = "ex_eq ''b'' 3000000000" and r = "ex_eq ''a'' 1"
      and colInfo = ?cb and v = "ex_datum 3000000000" and sc = ex_sc_overflow
      and pre = "[ex_datum 1]" and tbl' = ex_tbl and idx = ex_iab and post = "[]" and e = ?E]
  note th3 = overflow_is_table_dual[where selStmt = ?S3 and w = ?wc and cn = ?b and d = "ex_datum 3000000000"
      and pc = ex_pc and tblName = "ex_tn ex_tbl [] []" and tblAlias = al3 and tbl = ex_tbl
      and schema = sch3 and names = nm3 and dbName = "''test''" and col = ?cb and check = False
      and nv = "[]" and l = "ex_eq ''b'' 3000000000" and r = "ex_eq ''a'' 1"
      and colInfo = ?cb and v = "ex_datum 3000000000" and sc = ex_sc_overflow
      and pre = "[ex_datum 1]" and tbl' = ex_tbl and idx = ex_iab and post = "[]" and e = ?E]
  note th4 = overflow_is_table_dual[where selStmt = ?S3 and w = ?wc and cn = ?b and d = "ex_datum 3000000000"
      and pc = ex_pc and tblName = "ex_tn ex_tbl [] []" and tblAlias = "ex_ci []" and tbl = ex_tbl
      and schema = sch3 and names = nm3 and dbName = "''test''" and col = ?cb and check = False
      and nv = "[]" and l = "ex_eq ''b'' 3000000000" and r = "ex_eq ''a'' 1"
      and colInfo = ?cb and v = "ex_datum 3000000000" and sc = ex_sc_overflow
      and pre = "[ex_datum 1]" and tbl' = ex_tbl and idx = ex_iab and post = "[]" and e = ?E]
  have g1: "getNameValuePairs ex_pc ex_tbl_tiny al [] ?wa = (Some [overflowPair ?a ?ca (ex_datum 1000)], True)"
    using th1 cv(1,2) unfolding cv(3) by simp
  have p1: "tryPointGetPlan ex_pc ?S False = Inr (Some (tableDualPlan ex_pc (ex_tn ex_tbl_tiny [] []) sch ex_tbl_tiny nm))"
    using th1 w(1) c g1 cv(4,5,6) by (simp add: pairsOf_def)
  have p2: "tryPointGetPlan ex_pc ?S2 False = Inr (Some (tableDualPlan ex_pc (ex_tn ex_tbl [] []) sch2 ex_tbl nm2))"
    using th2 w(2) c2 g2 by (simp add: pairsOf_def)
  have n3: "fst (getNameValuePairs ex_pc ex_tbl al3 [] ?wc) = None"
    "fst (getNameValuePairs ex_pc ex_tbl (ex_ci []) [] ?wc) = None"
    using th3 th4 g3 by (simp_all add: ex_and_def)
  have g4: "getNameValuePairs ex_pc ex_tbl (ex_ci []) [] ?wc = (None, True)"
    using n3(2) g3(2) by (simp add: prod_eq_iff)
  have p3: "tryPointGetPlan ex_pc ?S3 False = Inr (Some (tableDualPlan ex_pc (ex_tn ex_tbl [] []) sch3 ex_tbl nm3))"
    using th3 w(3) c3 g3(1) n3(1) g2(2,4,5,6) by (simp add: pairsOf_def)
  have k: "snd (castIdxVal ex_sc_overflow ?cb (ex_datum 3000000000)) = Some ErrNotExist"
    using th1 x(1,2) by simp
  have en: "fst (EncodeUniqueIndexValuesForKey ex_sc_overflow ex_tbl ex_iab
                   ([ex_datum 1] @ ex_datum 3000000000 # [])) = Inl ErrNotExist"
    using th1 x(3,4,5) k by simp
  have nx: "fst (Next ex_sc_overflow ?E) = None \<and> fst (snd (Next ex_sc_overflow ?E)) = [] \<and>
            new_events ?E (snd (snd (Next ex_sc_overflow ?E))) = [EvUpdateDelta 1]"
    using th1 x(6,7,8,9,10,11) en by simp
  show ?thesis using p1 p2 p3 g4 k en nx by (simp add: tableDualPlan_def newPointGetPlan_def)
qed

theorem overflow_with_index_hint_counterexample:
  "overflows ex_pc ((ex_col 1 ''a'' 0 True)\<lparr>col_FieldType := (ex_int True)\<lparr>ft_tp := TypeTiny\<rparr>\<rparr>) (ex_datum 1000) \<and>
   snd (getNameValuePairs ex_pc ex_tbl_tiny (ex_ci ''t'') [] (ex_eq ''a'' 1000)) \<and>
   d_k (nv_value (fst (findPKHandle ex_tbl_tiny
      (case fst (getNameValuePairs ex_pc ex_tbl_tiny (ex_ci ''t'') [] (ex_eq ''a'' 1000)) of
         None \<Rightarrow> [] | Some ps \<Rightarrow> ps)))) \<noteq> KindNull \<and>
   tryPointGetPlan ex_pc (ex_select ex_tbl_tiny [ex_use_ib] [] (ex_eq ''a'' 1000)) False = Inr None"
  by (simp add: overflow_defs ex_plan_defs ex_idx_defs plan_defs)

text \<open>
  On a partitioned table \<open>tryPointGetPlan\<close> assigns \<open>isTableDual\<close> again from
  \<open>getPartitionDef\<close> (line 1067), and the overflow that \<open>getNameValuePairs\<close> found is
  forgotten: the plan reads the handle 1000 in the partition \<open>p0\<close>.
\<close>

lemma partitioned_overflow_example:
  "(case tryPointGetPlan ex_pc (ex_select (ex_part ex_tbl_tiny) [] [] (ex_eq ''a'' 1000)) False of
      Inr (Some p) \<Rightarrow> \<not> p_IsTableDual p \<and> p_Handle p = Some (IntHandle 1000) \<and>
                      p_PartitionDef p = Some \<lparr>pd_ID = 10, pd_Name = ex_ci ''p0''\<rparr>
    | _ \<Rightarrow> False)"
  by (simp add: ex_plan_defs plan_defs smod_int_alt_def)

end
